theory Spec2Isabelle
  imports Complex_Main
begin

unbundle bit_operations_syntax

section \<open>Errors and random numbers\<close>

text \<open>
  The script is Python on top of NumPy and PyTorch. Every exception the modelled code can
  raise is a value of \<open>error\<close>; a function that can raise returns \<open>error + 'a\<close>.
  Python integers are \<open>int\<close>. Tensor entries are \<open>real\<close>: the arithmetic of the model
  is exact, so rounding, overflow and NaN of 32-bit floats are outside it. The layers are
  those of PyTorch as its documentation gives them. What the script prints and plots is
  left out, except for the lines that \<open>predict\<close> prints.
\<close>

datatype error =
    ValueError
  | IndexError
  | RuntimeError
  | TypeError
  | FileNotFoundError
  | ZeroDivisionError

text \<open>
  NumPy's global generator: an entropy source read at a cursor that every draw advances.
  \<open>randint low high\<close> returns an integer of \<open>[low, high)\<close> and raises ValueError when
  that range is empty.
\<close>

record np_random =
  entropy :: "nat \<Rightarrow> nat"
  cursor :: nat

definition randint :: "int \<Rightarrow> int \<Rightarrow> np_random \<Rightarrow> error + (int \<times> np_random)" where
  "randint low high g =
     (if low < high
      then Inr (low + int (entropy g (cursor g) mod nat (high - low)),
                g\<lparr>cursor := Suc (cursor g)\<rparr>)
      else Inl ValueError)"

section \<open>Synthetic sample generator\<close>

definition ord :: "char \<Rightarrow> int" where
  "ord c = of_char c"

text \<open>
  Python's \<open>chr\<close> raises ValueError outside \<open>[0, 0x110000)\<close>. A \<open>char\<close> holds the
  code points below 256 only, so the model raises from 256 on.
\<close>

definition chr :: "int \<Rightarrow> error + char" where
  "chr i = (if 0 \<le> i \<and> i < 256 then Inr (char_of i) else Inl ValueError)"

text \<open>The alphabetic rank of a letter is its position in \<open>alphabet\<close>.\<close>

definition alphabet :: string where
  "alphabet = ''abcdefghijklmnopqrstuvwxyz''"

definition first_letter_rank :: "string \<Rightarrow> int \<Rightarrow> bool" where
  "first_letter_rank word label \<longleftrightarrow>
     word \<noteq> [] \<and> label = ord (hd word) - ord CHR ''a'' \<and>
     0 \<le> label \<and> label < 26 \<and> hd word = alphabet ! nat label"

definition lowercase :: "char \<Rightarrow> bool" where
  "lowercase c \<longleftrightarrow> ord CHR ''a'' \<le> ord c \<and> ord c \<le> ord CHR ''z''"

definition build_simple :: "np_random \<Rightarrow> error + (char \<times> np_random)" where
  "build_simple g =
     (case randint 0 26 g of
        Inl e \<Rightarrow> Inl e
      | Inr (r, g') \<Rightarrow>
          (case chr (r + ord CHR ''a'') of
             Inl e \<Rightarrow> Inl e
           | Inr c \<Rightarrow> Inr (c, g')))"

text \<open>The loop \<open>for i in range(word_len): x.append(build_simple())\<close>.\<close>

fun build_word_loop :: "nat \<Rightarrow> string \<Rightarrow> np_random \<Rightarrow> error + (string \<times> np_random)" where
  "build_word_loop 0 x g = Inr (x, g)"
| "build_word_loop (Suc n) x g =
     (case build_simple g of
        Inl e \<Rightarrow> Inl e
      | Inr (c, g') \<Rightarrow> build_word_loop n (x @ [c]) g')"

definition build_word :: "int \<Rightarrow> np_random \<Rightarrow> error + ((string \<times> int) \<times> np_random)" where
  "build_word word_len g =
     (case build_word_loop (nat word_len) [] g of
        Inl e \<Rightarrow> Inl e
      | Inr (x, g') \<Rightarrow>
          (case x of
             [] \<Rightarrow> Inl IndexError
           | c # _ \<Rightarrow> Inr ((x, ord c - ord CHR ''a''), g')))"

section \<open>Checksum feature\<close>

text \<open>
  \<open>str.encode()\<close> is UTF-8: one byte for a code point below 128, two bytes for the
  others that \<open>char\<close> holds.
\<close>

definition encode_char :: "char \<Rightarrow> int list" where
  "encode_char c =
     (if ord c < 128 then [ord c] else [192 + ord c div 64, 128 + ord c mod 64])"

definition encode :: "string \<Rightarrow> int list" where
  "encode word = concat (map encode_char word)"

text \<open>
  Modelled from the spec: the checksum of the imported \<open>crc\<close> package, which is not part
  of the repository. The spec calls it an 8-bit non-cryptographic checksum over the word's
  byte encoding; the source selects \<open>crc.Crc8.CCITT\<close>, the bitwise CRC of width 8 with
  polynomial 0x07, initial value 0, final xor 0 and no bit reflection. The register is a
  Python integer masked to 8 bits after every update.
\<close>

record configuration =
  width :: nat
  polynomial :: int
  init_value :: int
  final_xor_value :: int

definition Crc8_CCITT :: configuration where
  "Crc8_CCITT = \<lparr>width = 8, polynomial = 0x07, init_value = 0x00, final_xor_value = 0x00\<rparr>"

definition bitmask :: "configuration \<Rightarrow> int" where
  "bitmask cfg = 2 ^ width cfg - 1"

definition topbit :: "configuration \<Rightarrow> int" where
  "topbit cfg = push_bit (width cfg - 1) 1"

fun shift_register :: "configuration \<Rightarrow> nat \<Rightarrow> int \<Rightarrow> int" where
  "shift_register cfg 0 register = register"
| "shift_register cfg (Suc k) register =
     shift_register cfg k
       (if register AND topbit cfg \<noteq> 0
        then (push_bit 1 register XOR polynomial cfg) AND bitmask cfg
        else push_bit 1 register AND bitmask cfg)"

definition process_byte :: "configuration \<Rightarrow> int \<Rightarrow> int \<Rightarrow> int" where
  "process_byte cfg register byte =
     shift_register cfg 8
       ((register XOR push_bit (width cfg - 8) byte) AND bitmask cfg) AND bitmask cfg"

definition checksum :: "configuration \<Rightarrow> int list \<Rightarrow> int" where
  "checksum cfg data =
     (fold (\<lambda>byte register. process_byte cfg register byte) data
        (init_value cfg AND bitmask cfg))
     XOR final_xor_value cfg"

definition build_crc_label :: "string \<Rightarrow> int list" where
  "build_crc_label word = [checksum Crc8_CCITT (encode word)]"

text \<open>The loop of \<open>build_words\<close>, with the three result lists as accumulator.\<close>

fun build_words_loop ::
  "nat \<Rightarrow> int \<Rightarrow> string list \<times> int list list \<times> int list \<Rightarrow> np_random \<Rightarrow>
   error + ((string list \<times> int list list \<times> int list) \<times> np_random)" where
  "build_words_loop 0 word_dim acc g = Inr (acc, g)"
| "build_words_loop (Suc n) word_dim (words, crclabels, labels) g =
     (case randint 1 word_dim g of
        Inl e \<Rightarrow> Inl e
      | Inr (word_len, g1) \<Rightarrow>
          (case build_word word_len g1 of
             Inl e \<Rightarrow> Inl e
           | Inr ((word, label), g2) \<Rightarrow>
               build_words_loop n word_dim
                 (words @ [word], crclabels @ [build_crc_label word], labels @ [label]) g2))"

definition build_words ::
  "int \<Rightarrow> int \<Rightarrow> np_random \<Rightarrow>
   error + ((string list \<times> int list list \<times> int list) \<times> np_random)" where
  "build_words total_words_num word_dim g =
     build_words_loop (nat total_words_num) word_dim ([], [], []) g"

section \<open>Tensors and layers\<close>

text \<open>
  A two-dimensional tensor is the list of its rows. The empty list of rows stands for
  \<open>torch.FloatTensor([])\<close>, the one-dimensional tensor without entries, which every
  layer refuses. \<open>torch.FloatTensor\<close> raises ValueError on rows of different lengths.
\<close>

type_synonym vector = "real list"
type_synonym matrix = "real list list"

definition is_matrix :: "nat \<Rightarrow> nat \<Rightarrow> matrix \<Rightarrow> bool" where
  "is_matrix r c x \<longleftrightarrow> length x = r \<and> list_all (\<lambda>row. length row = c) x"

definition FloatTensor :: "int list list \<Rightarrow> error + matrix" where
  "FloatTensor rows =
     (if list_all (\<lambda>row. length row = length (hd rows)) rows
      then Inr (map (map real_of_int) rows)
      else Inl ValueError)"

definition LongTensor :: "int list \<Rightarrow> int list" where
  "LongTensor labels = labels"

definition dot :: "vector \<Rightarrow> vector \<Rightarrow> real" where
  "dot u v = sum_list (map2 (*) u v)"

definition columns :: "nat \<Rightarrow> matrix \<Rightarrow> matrix" where
  "columns c x = map (\<lambda>j. map (\<lambda>row. row ! j) x) [0..<c]"

text \<open>\<open>nn.Linear\<close>: every row \<open>r\<close> becomes \<open>W r + b\<close>.\<close>

record linear =
  in_features :: nat
  out_features :: nat
  weight :: matrix
  bias :: vector

definition linear_forward :: "linear \<Rightarrow> matrix \<Rightarrow> error + matrix" where
  "linear_forward l x =
     (if x \<noteq> [] \<and> list_all (\<lambda>row. length row = in_features l) x
      then Inr (map (\<lambda>row. map2 (\<lambda>w b. dot w row + b) (linear.weight l) (linear.bias l)) x)
      else Inl RuntimeError)"

text \<open>
  \<open>nn.Conv1d(in_channels, out_channels, 1)\<close> on a two-dimensional input, which PyTorch
  reads as one unbatched sample of \<open>in_channels\<close> channels: the rows of the input are
  the channels. The kernel has length 1, so the weight is kept as the matrix
  \<open>out_channels \<times> in_channels\<close> and output channel \<open>o\<close> at position \<open>l\<close> is
  \<open>bias[o]\<close> plus the sum over the input channels \<open>i\<close> of \<open>weight[o][i] * x[i][l]\<close>.
  The layer raises RuntimeError when the number of rows is not \<open>in_channels\<close>, and
  when the rows are shorter than the kernel, that is, have no entry.
\<close>

record conv1d =
  in_channels :: nat
  out_channels :: nat
  kernel_size :: nat
  weight :: matrix
  bias :: vector

definition conv_forward :: "conv1d \<Rightarrow> matrix \<Rightarrow> error + matrix" where
  "conv_forward c x =
     (if x = [] \<or> length x \<noteq> in_channels c \<or> length (hd x) < kernel_size c
      then Inl RuntimeError
      else Inr (map2 (\<lambda>w b. map (\<lambda>col. dot w col + b) (columns (length (hd x)) x))
                  (conv1d.weight c) (conv1d.bias c)))"

text \<open>
  \<open>nn.BatchNorm1d\<close> on a batch of rows. In training mode it refuses a batch of one row,
  normalizes every column with the mean and the biased variance of that column over the
  batch, and moves the running statistics towards the batch statistics (with the unbiased
  variance). In evaluation mode it normalizes with the running statistics and leaves them.
\<close>

record batchnorm1d =
  num_features :: nat
  eps :: real
  momentum :: real
  weight :: vector
  bias :: vector
  running_mean :: vector
  running_var :: vector
  num_batches_tracked :: nat

definition mean :: "vector \<Rightarrow> real" where
  "mean v = sum_list v / real (length v)"

definition var_biased :: "vector \<Rightarrow> real" where
  "var_biased v = sum_list (map (\<lambda>a. (a - mean v)\<^sup>2) v) / real (length v)"

definition var_unbiased :: "vector \<Rightarrow> real" where
  "var_unbiased v = sum_list (map (\<lambda>a. (a - mean v)\<^sup>2) v) / real (length v - 1)"

definition normalize :: "batchnorm1d \<Rightarrow> vector \<Rightarrow> vector \<Rightarrow> vector \<Rightarrow> vector" where
  "normalize bn means vars row =
     map (\<lambda>j. (row ! j - means ! j) / sqrt (vars ! j + eps bn) * batchnorm1d.weight bn ! j
               + batchnorm1d.bias bn ! j)
       [0..<num_features bn]"

definition batchnorm_forward ::
  "batchnorm1d \<Rightarrow> bool \<Rightarrow> matrix \<Rightarrow> error + (matrix \<times> batchnorm1d)" where
  "batchnorm_forward bn training x =
     (if x = [] \<or> (training \<and> length x = 1) then Inl ValueError
      else if \<not> list_all (\<lambda>row. length row = num_features bn) x then Inl RuntimeError
      else if training then
        (let cols = columns (num_features bn) x;
             means = map mean cols;
             vars = map var_biased cols
         in Inr (map (normalize bn means vars) x,
                 bn\<lparr>running_mean :=
                       map2 (\<lambda>r m. (1 - momentum bn) * r + momentum bn * m)
                         (running_mean bn) means,
                     running_var :=
                       map2 (\<lambda>r v. (1 - momentum bn) * r + momentum bn * v)
                         (running_var bn) (map var_unbiased cols),
                     num_batches_tracked := Suc (num_batches_tracked bn)\<rparr>))
      else Inr (map (normalize bn (running_mean bn) (running_var bn)) x, bn))"

definition relu :: "matrix \<Rightarrow> matrix" where
  "relu x = map (map (max 0)) x"

text \<open>
  \<open>nn.Dropout(p)\<close>: in training mode every entry is zeroed or scaled by \<open>1 / (1 - p)\<close>,
  as PyTorch's own generator decides; that generator is a sequence of coins read at a
  position. In evaluation mode the input passes unchanged and no coin is read.
\<close>

record torch_random =
  coins :: "nat \<Rightarrow> bool"
  position :: nat

fun dropout_vector :: "real \<Rightarrow> vector \<Rightarrow> torch_random \<Rightarrow> vector \<times> torch_random" where
  "dropout_vector p [] t = ([], t)"
| "dropout_vector p (a # as) t =
     (let (rest, t') = dropout_vector p as (t\<lparr>position := Suc (position t)\<rparr>)
      in ((if coins t (position t) then a / (1 - p) else 0) # rest, t'))"

fun dropout_rows :: "real \<Rightarrow> matrix \<Rightarrow> torch_random \<Rightarrow> matrix \<times> torch_random" where
  "dropout_rows p [] t = ([], t)"
| "dropout_rows p (row # rows) t =
     (let (row', t1) = dropout_vector p row t;
          (rows', t2) = dropout_rows p rows t1
      in (row' # rows', t2))"

definition dropout_forward ::
  "real \<Rightarrow> bool \<Rightarrow> matrix \<Rightarrow> torch_random \<Rightarrow> matrix \<times> torch_random" where
  "dropout_forward p training x t = (if training then dropout_rows p x t else (x, t))"

text \<open>
  \<open>nn.functional.cross_entropy\<close> with its default mean reduction, for class-index targets
  of \<open>[0, C)\<close>; a target outside raises IndexError (the special target -100, which PyTorch
  skips, is not among the labels of this program and is treated like the others here).
\<close>

definition log_sum_exp :: "vector \<Rightarrow> real" where
  "log_sum_exp row = ln (sum_list (map exp row))"

definition cross_entropy :: "matrix \<Rightarrow> int list \<Rightarrow> error + real" where
  "cross_entropy x y =
     (if x = [] \<or> length x \<noteq> length y then Inl ValueError
      else if \<not> list_all (\<lambda>(row, t). 0 \<le> t \<and> t < int (length row)) (zip x y)
      then Inl IndexError
      else Inr (sum_list (map (\<lambda>(row, t). log_sum_exp row - row ! nat t) (zip x y))
                / real (length x)))"

section \<open>The classifier\<close>

record TxtClassifyModel =
  conv :: conv1d
  layer1 :: linear
  layer2 :: linear
  batchnorm :: batchnorm1d
  dropout :: real
  training :: bool

text \<open>
  The constructor. PyTorch draws the initial weights of the convolution and of the two
  linear layers at random: \<open>init\<close> is the sequence of the values drawn. A negative size
  is refused when the weight tensor of the convolution is allocated.
\<close>

definition fill_vector :: "(nat \<Rightarrow> real) \<Rightarrow> nat \<Rightarrow> nat \<Rightarrow> vector" where
  "fill_vector init off n = map (\<lambda>j. init (off + j)) [0..<n]"

definition fill_matrix :: "(nat \<Rightarrow> real) \<Rightarrow> nat \<Rightarrow> nat \<Rightarrow> nat \<Rightarrow> matrix" where
  "fill_matrix init off r c = map (\<lambda>i. fill_vector init (off + i * c) c) [0..<r]"

definition TxtClassifyModel_init :: "int \<Rightarrow> (nat \<Rightarrow> real) \<Rightarrow> error + TxtClassifyModel" where
  "TxtClassifyModel_init batch_size init =
     (if batch_size < 0 then Inl RuntimeError
      else
        (let n = nat batch_size
         in Inr \<lparr>conv = \<lparr>in_channels = n, out_channels = n, kernel_size = 1,
                          weight = fill_matrix init 0 n n,
                          bias = fill_vector init (n * n) n\<rparr>,
                 layer1 = \<lparr>in_features = 1, out_features = 26,
                            weight = fill_matrix init (n * n + n) 26 1,
                            bias = fill_vector init (n * n + n + 26) 26\<rparr>,
                 layer2 = \<lparr>in_features = 26, out_features = 26,
                            weight = fill_matrix init (n * n + n + 52) 26 26,
                            bias = fill_vector init (n * n + n + 728) 26\<rparr>,
                 batchnorm = \<lparr>num_features = 26, eps = 1 / 100000, momentum = 1 / 10,
                               weight = replicate 26 1, bias = replicate 26 0,
                               running_mean = replicate 26 0,
                               running_var = replicate 26 1,
                               num_batches_tracked = 0\<rparr>,
                 dropout = 4 / 10,
                 training = True\<rparr>))"

definition model_train :: "TxtClassifyModel \<Rightarrow> TxtClassifyModel" where
  "model_train m = m\<lparr>training := True\<rparr>"

definition model_eval :: "TxtClassifyModel \<Rightarrow> TxtClassifyModel" where
  "model_eval m = m\<lparr>training := False\<rparr>"

text \<open>
  \<open>forward\<close> returns the loss (a scalar) or the scores (a matrix), with the model, whose
  one batch-normalization layer has moved its running statistics at each of its three
  uses in training mode, and PyTorch's generator, which dropout has read.
\<close>

datatype forward_output = Loss real | Scores matrix

definition forward ::
  "TxtClassifyModel \<Rightarrow> matrix \<Rightarrow> int list option \<Rightarrow> torch_random \<Rightarrow>
   error + (forward_output \<times> TxtClassifyModel \<times> torch_random)" where
  "forward m x y t =
     (case linear_forward (layer1 m) x of Inl e \<Rightarrow> Inl e | Inr x1 \<Rightarrow>
     (case batchnorm_forward (batchnorm m) (training m) x1 of Inl e \<Rightarrow> Inl e | Inr (x2, bn1) \<Rightarrow>
     (case conv_forward (conv m) (relu x2) of Inl e \<Rightarrow> Inl e | Inr x4 \<Rightarrow>
     (case batchnorm_forward bn1 (training m) x4 of Inl e \<Rightarrow> Inl e | Inr (x5, bn2) \<Rightarrow>
     (case linear_forward (layer2 m) (relu x5) of Inl e \<Rightarrow> Inl e | Inr x7 \<Rightarrow>
     (case batchnorm_forward bn2 (training m) x7 of Inl e \<Rightarrow> Inl e | Inr (x8, bn3) \<Rightarrow>
       (let (x10, t') = dropout_forward (dropout m) (training m) (relu x8) t;
            m' = m\<lparr>batchnorm := bn3\<rparr>
        in case y of
             None \<Rightarrow> Inr (Scores x10, m', t')
           | Some labels \<Rightarrow>
               (case cross_entropy x10 labels of
                  Inl e \<Rightarrow> Inl e
                | Inr l \<Rightarrow> Inr (Loss l, m', t')))))))))"

text \<open>
  The shapes and the constants that the constructor gives to a model of batch size \<open>n\<close>,
  and that training and loading keep.
\<close>

definition wf_linear :: "nat \<Rightarrow> nat \<Rightarrow> linear \<Rightarrow> bool" where
  "wf_linear i k l \<longleftrightarrow>
     in_features l = i \<and> out_features l = k \<and>
     is_matrix k i (linear.weight l) \<and> length (linear.bias l) = k"

definition wf_conv :: "nat \<Rightarrow> conv1d \<Rightarrow> bool" where
  "wf_conv n c \<longleftrightarrow>
     in_channels c = n \<and> out_channels c = n \<and> kernel_size c = 1 \<and>
     is_matrix n n (conv1d.weight c) \<and> length (conv1d.bias c) = n"

definition wf_batchnorm :: "nat \<Rightarrow> batchnorm1d \<Rightarrow> bool" where
  "wf_batchnorm k bn \<longleftrightarrow>
     num_features bn = k \<and> eps bn = 1 / 100000 \<and> momentum bn = 1 / 10 \<and>
     length (batchnorm1d.weight bn) = k \<and> length (batchnorm1d.bias bn) = k \<and>
     length (running_mean bn) = k \<and> length (running_var bn) = k"

definition wf_model :: "nat \<Rightarrow> TxtClassifyModel \<Rightarrow> bool" where
  "wf_model n m \<longleftrightarrow>
     wf_conv n (conv m) \<and> wf_linear 1 26 (layer1 m) \<and> wf_linear 26 26 (layer2 m) \<and>
     wf_batchnorm 26 (batchnorm m) \<and> dropout m = 4 / 10"

section \<open>Evaluation\<close>

definition np_max :: "vector \<Rightarrow> error + real" where
  "np_max p = (if p = [] then Inl ValueError else Inr (Max (set p)))"

definition np_argmax :: "vector \<Rightarrow> error + nat" where
  "np_argmax p =
     (if p = [] then Inl ValueError
      else Inr (length (takeWhile (\<lambda>a. a \<noteq> Max (set p)) p)))"

text \<open>The loop \<open>for p, t in zip(pred, labels)\<close> of \<open>evaluate\<close> with its two counters.\<close>

fun evaluate_loop :: "(vector \<times> int) list \<Rightarrow> int \<times> int \<Rightarrow> error + (int \<times> int)" where
  "evaluate_loop [] (correct, wrong) = Inr (correct, wrong)"
| "evaluate_loop ((p, t) # rest) (correct, wrong) =
     (case np_max p of
        Inl e \<Rightarrow> Inl e
      | Inr highest \<Rightarrow>
          (if highest = real_of_int t
           then evaluate_loop rest (correct + 1, wrong)
           else evaluate_loop rest (correct, wrong + 1)))"

definition true_divide :: "int \<Rightarrow> int \<Rightarrow> error + real" where
  "true_divide a b =
     (if b = 0 then Inl ZeroDivisionError else Inr (real_of_int a / real_of_int b))"

text \<open>\<open>evaluate\<close> up to the end of its loop: the two counters.\<close>

definition evaluate_counts ::
  "TxtClassifyModel \<Rightarrow> int \<Rightarrow> int \<Rightarrow> np_random \<Rightarrow> torch_random \<Rightarrow>
   error + ((int \<times> int) \<times> TxtClassifyModel \<times> np_random \<times> torch_random)" where
  "evaluate_counts model sample_size word_dim g t =
     (case build_words sample_size word_dim g of Inl e \<Rightarrow> Inl e
      | Inr ((words, crclabels, labels), g') \<Rightarrow>
     (case FloatTensor crclabels of Inl e \<Rightarrow> Inl e | Inr x \<Rightarrow>
     (case forward (model_eval model) x None t of Inl e \<Rightarrow> Inl e
      | Inr (out, model', t') \<Rightarrow>
     (case out of
        Loss l \<Rightarrow> Inl TypeError
      | Scores pred \<Rightarrow>
          (case evaluate_loop (zip pred labels) (0, 0) of
             Inl e \<Rightarrow> Inl e
           | Inr counts \<Rightarrow> Inr (counts, model', g', t'))))))"

definition evaluate ::
  "TxtClassifyModel \<Rightarrow> int \<Rightarrow> int \<Rightarrow> np_random \<Rightarrow> torch_random \<Rightarrow>
   error + (real \<times> TxtClassifyModel \<times> np_random \<times> torch_random)" where
  "evaluate model sample_size word_dim g t =
     (case evaluate_counts model sample_size word_dim g t of Inl e \<Rightarrow> Inl e
      | Inr ((correct, wrong), model', g', t') \<Rightarrow>
     (case true_divide correct (correct + wrong) of
        Inl e \<Rightarrow> Inl e
      | Inr acc \<Rightarrow> Inr (acc, model', g', t')))"

section \<open>The forward pass as the spec words it\<close>

text \<open>
  The spec gives the forward pass as a fixed sequence of stages followed by the optional
  loss. \<open>forward_spec\<close> runs that sequence, stage by stage, on the batch, the model and
  the generator; it is compared with \<open>forward\<close>, which follows the source.
\<close>

datatype stage =
    Linear_expansion
  | Batch_normalize
  | Rectify
  | Convolution_1x1
  | Linear_26_to_26
  | Stochastic_zeroing

type_synonym pass_state = "matrix \<times> TxtClassifyModel \<times> torch_random"

fun apply_stage :: "stage \<Rightarrow> pass_state \<Rightarrow> error + pass_state" where
  "apply_stage Linear_expansion (x, m, t) =
     (case linear_forward (layer1 m) x of Inl e \<Rightarrow> Inl e | Inr x' \<Rightarrow> Inr (x', m, t))"
| "apply_stage Batch_normalize (x, m, t) =
     (case batchnorm_forward (batchnorm m) (training m) x of
        Inl e \<Rightarrow> Inl e
      | Inr (x', bn) \<Rightarrow> Inr (x', m\<lparr>batchnorm := bn\<rparr>, t))"
| "apply_stage Rectify (x, m, t) = Inr (relu x, m, t)"
| "apply_stage Convolution_1x1 (x, m, t) =
     (case conv_forward (conv m) x of Inl e \<Rightarrow> Inl e | Inr x' \<Rightarrow> Inr (x', m, t))"
| "apply_stage Linear_26_to_26 (x, m, t) =
     (case linear_forward (layer2 m) x of Inl e \<Rightarrow> Inl e | Inr x' \<Rightarrow> Inr (x', m, t))"
| "apply_stage Stochastic_zeroing (x, m, t) =
     (let (x', t') = dropout_forward (dropout m) (training m) x t in Inr (x', m, t'))"

fun run_stages :: "stage list \<Rightarrow> pass_state \<Rightarrow> error + pass_state" where
  "run_stages [] s = Inr s"
| "run_stages (st # sts) s =
     (case apply_stage st s of Inl e \<Rightarrow> Inl e | Inr s' \<Rightarrow> run_stages sts s')"

definition spec_stages :: "stage list" where
  "spec_stages =
     [Linear_expansion, Batch_normalize, Rectify,
      Convolution_1x1, Batch_normalize, Rectify,
      Linear_26_to_26, Batch_normalize, Rectify,
      Stochastic_zeroing]"

definition optional_loss ::
  "int list option \<Rightarrow> pass_state \<Rightarrow> error + (forward_output \<times> TxtClassifyModel \<times> torch_random)" where
  "optional_loss y s =
     (case s of (x, m, t) \<Rightarrow>
        (case y of
           None \<Rightarrow> Inr (Scores x, m, t)
         | Some labels \<Rightarrow>
             (case cross_entropy x labels of
                Inl e \<Rightarrow> Inl e
              | Inr l \<Rightarrow> Inr (Loss l, m, t))))"

definition forward_spec ::
  "TxtClassifyModel \<Rightarrow> matrix \<Rightarrow> int list option \<Rightarrow> torch_random \<Rightarrow>
   error + (forward_output \<times> TxtClassifyModel \<times> torch_random)" where
  "forward_spec m x y t =
     (case run_stages spec_stages (x, m, t) of Inl e \<Rightarrow> Inl e | Inr s \<Rightarrow> optional_loss y s)"

section \<open>Saved weights and prediction\<close>

text \<open>
  \<open>state_dict\<close> lists the parameters and buffers of the model under their names, in the
  order of registration. A saved file holds such a list: what \<open>torch.save\<close> writes is
  what \<open>torch.load\<close> reads back. \<open>load_state_dict\<close> is strict: every expected name is
  present with the shape of the receiving model, and no other name occurs.
\<close>

datatype tensor = Scalar int | Vector vector | Matrix matrix

type_synonym state_dict = "(string \<times> tensor) list"
type_synonym files = "string \<Rightarrow> state_dict option"

definition state_dict :: "TxtClassifyModel \<Rightarrow> state_dict" where
  "state_dict m =
     [(''conv.weight'', Matrix (conv1d.weight (conv m))),
      (''conv.bias'', Vector (conv1d.bias (conv m))),
      (''layer1.weight'', Matrix (linear.weight (layer1 m))),
      (''layer1.bias'', Vector (linear.bias (layer1 m))),
      (''layer2.weight'', Matrix (linear.weight (layer2 m))),
      (''layer2.bias'', Vector (linear.bias (layer2 m))),
      (''batchnorm.weight'', Vector (batchnorm1d.weight (batchnorm m))),
      (''batchnorm.bias'', Vector (batchnorm1d.bias (batchnorm m))),
      (''batchnorm.running_mean'', Vector (running_mean (batchnorm m))),
      (''batchnorm.running_var'', Vector (running_var (batchnorm m))),
      (''batchnorm.num_batches_tracked'', Scalar (int (num_batches_tracked (batchnorm m))))]"

definition torch_save :: "state_dict \<Rightarrow> string \<Rightarrow> files \<Rightarrow> files" where
  "torch_save obj path fs = fs(path \<mapsto> obj)"

definition torch_load :: "string \<Rightarrow> files \<Rightarrow> error + state_dict" where
  "torch_load path fs = (case fs path of None \<Rightarrow> Inl FileNotFoundError | Some obj \<Rightarrow> Inr obj)"

definition expected_keys :: "string list" where
  "expected_keys =
     [''conv.weight'', ''conv.bias'', ''layer1.weight'', ''layer1.bias'',
      ''layer2.weight'', ''layer2.bias'', ''batchnorm.weight'', ''batchnorm.bias'',
      ''batchnorm.running_mean'', ''batchnorm.running_var'',
      ''batchnorm.num_batches_tracked'']"

definition load_matrix :: "state_dict \<Rightarrow> string \<Rightarrow> nat \<Rightarrow> nat \<Rightarrow> error + matrix" where
  "load_matrix sd key r c =
     (case map_of sd key of
        Some (Matrix w) \<Rightarrow> if is_matrix r c w then Inr w else Inl RuntimeError
      | _ \<Rightarrow> Inl RuntimeError)"

definition load_vector :: "state_dict \<Rightarrow> string \<Rightarrow> nat \<Rightarrow> error + vector" where
  "load_vector sd key n =
     (case map_of sd key of
        Some (Vector v) \<Rightarrow> if length v = n then Inr v else Inl RuntimeError
      | _ \<Rightarrow> Inl RuntimeError)"

definition load_scalar :: "state_dict \<Rightarrow> string \<Rightarrow> error + nat" where
  "load_scalar sd key =
     (case map_of sd key of
        Some (Scalar k) \<Rightarrow> Inr (nat k)
      | _ \<Rightarrow> Inl RuntimeError)"

definition load_state_dict :: "TxtClassifyModel \<Rightarrow> state_dict \<Rightarrow> error + TxtClassifyModel" where
  "load_state_dict m sd =
     (if \<not> list_all (\<lambda>(key, v). key \<in> set expected_keys) sd then Inl RuntimeError else
     (case load_matrix sd ''conv.weight'' (out_channels (conv m)) (in_channels (conv m)) of
        Inl e \<Rightarrow> Inl e | Inr cw \<Rightarrow>
     (case load_vector sd ''conv.bias'' (out_channels (conv m)) of
        Inl e \<Rightarrow> Inl e | Inr cb \<Rightarrow>
     (case load_matrix sd ''layer1.weight'' (out_features (layer1 m)) (in_features (layer1 m)) of
        Inl e \<Rightarrow> Inl e | Inr w1 \<Rightarrow>
     (case load_vector sd ''layer1.bias'' (out_features (layer1 m)) of
        Inl e \<Rightarrow> Inl e | Inr b1 \<Rightarrow>
     (case load_matrix sd ''layer2.weight'' (out_features (layer2 m)) (in_features (layer2 m)) of
        Inl e \<Rightarrow> Inl e | Inr w2 \<Rightarrow>
     (case load_vector sd ''layer2.bias'' (out_features (layer2 m)) of
        Inl e \<Rightarrow> Inl e | Inr b2 \<Rightarrow>
     (case load_vector sd ''batchnorm.weight'' (num_features (batchnorm m)) of
        Inl e \<Rightarrow> Inl e | Inr bw \<Rightarrow>
     (case load_vector sd ''batchnorm.bias'' (num_features (batchnorm m)) of
        Inl e \<Rightarrow> Inl e | Inr bb \<Rightarrow>
     (case load_vector sd ''batchnorm.running_mean'' (num_features (batchnorm m)) of
        Inl e \<Rightarrow> Inl e | Inr rm \<Rightarrow>
     (case load_vector sd ''batchnorm.running_var'' (num_features (batchnorm m)) of
        Inl e \<Rightarrow> Inl e | Inr rv \<Rightarrow>
     (case load_scalar sd ''batchnorm.num_batches_tracked'' of
        Inl e \<Rightarrow> Inl e | Inr nb \<Rightarrow>
       Inr (m\<lparr>conv := (conv m)\<lparr>conv1d.weight := cw, conv1d.bias := cb\<rparr>,
              layer1 := (layer1 m)\<lparr>linear.weight := w1, linear.bias := b1\<rparr>,
              layer2 := (layer2 m)\<lparr>linear.weight := w2, linear.bias := b2\<rparr>,
              batchnorm := (batchnorm m)\<lparr>batchnorm1d.weight := bw, batchnorm1d.bias := bb,
                             running_mean := rm, running_var := rv,
                             num_batches_tracked := nb\<rparr>\<rparr>)))))))))))))"

definition softmax_row :: "vector \<Rightarrow> vector" where
  "softmax_row p = map (\<lambda>a. exp a / sum_list (map exp p)) p"

definition Softmax :: "matrix \<Rightarrow> matrix" where
  "Softmax x = map softmax_row x"

text \<open>
  The printing loop of \<open>predict\<close>: a printed line is the word, the letter of the highest
  probability, that probability and the letter of the true label.
\<close>

type_synonym line = "string \<times> char \<times> real \<times> char"

fun predict_loop :: "(string \<times> vector \<times> int) list \<Rightarrow> line list \<Rightarrow> error + line list" where
  "predict_loop [] printed = Inr printed"
| "predict_loop ((word, pred, label) # rest) printed =
     (case np_argmax pred of Inl e \<Rightarrow> Inl e | Inr k \<Rightarrow>
     (case chr (int k + ord CHR ''a'') of Inl e \<Rightarrow> Inl e | Inr predicted \<Rightarrow>
     (case chr (label + ord CHR ''a'') of Inl e \<Rightarrow> Inl e | Inr actual \<Rightarrow>
        predict_loop rest (printed @ [(word, predicted, pred ! k, actual)]))))"

text \<open>\<open>predict\<close> up to its forward call: the scores of the reloaded model.\<close>

definition predict_scores ::
  "string \<Rightarrow> string list \<times> int list list \<times> int list \<Rightarrow> (nat \<Rightarrow> real) \<Rightarrow> files \<Rightarrow>
   torch_random \<Rightarrow> error + matrix" where
  "predict_scores model_path sample init fs t =
     (case TxtClassifyModel_init 25 init of Inl e \<Rightarrow> Inl e | Inr model \<Rightarrow>
     (case torch_load model_path fs of Inl e \<Rightarrow> Inl e | Inr sd \<Rightarrow>
     (case load_state_dict model sd of Inl e \<Rightarrow> Inl e | Inr model1 \<Rightarrow>
     (case sample of (words, crclabels, labels) \<Rightarrow>
     (case FloatTensor crclabels of Inl e \<Rightarrow> Inl e | Inr x \<Rightarrow>
     (case forward (model_eval model1) x None t of Inl e \<Rightarrow> Inl e
      | Inr (out, model2, t') \<Rightarrow>
     (case out of Loss l \<Rightarrow> Inl TypeError | Scores result \<Rightarrow> Inr result)))))))"

definition predict ::
  "string \<Rightarrow> string list \<times> int list list \<times> int list \<Rightarrow> (nat \<Rightarrow> real) \<Rightarrow> files \<Rightarrow>
   torch_random \<Rightarrow> error + line list" where
  "predict model_path sample init fs t =
     (case predict_scores model_path sample init fs t of Inl e \<Rightarrow> Inl e
      | Inr result \<Rightarrow>
     (case sample of (words, crclabels, labels) \<Rightarrow>
        predict_loop (zip words (zip (Softmax result) labels)) []))"

text \<open>The entry point: 25 fresh samples of word length below 10, then \<open>predict\<close>.\<close>

definition script ::
  "(nat \<Rightarrow> real) \<Rightarrow> files \<Rightarrow> np_random \<Rightarrow> torch_random \<Rightarrow> error + line list" where
  "script init fs g t =
     (case build_words 25 10 g of Inl e \<Rightarrow> Inl e
      | Inr (sample, g') \<Rightarrow> predict ''txtclassify.pt'' sample init fs t)"

section \<open>Training\<close>

text \<open>
  \<open>model.parameters()\<close>: the weights and biases that the optimizer changes. The running
  statistics of the batch normalization are buffers, which it leaves.
\<close>

record parameters =
  conv_weight :: matrix
  conv_bias :: vector
  layer1_weight :: matrix
  layer1_bias :: vector
  layer2_weight :: matrix
  layer2_bias :: vector
  batchnorm_weight :: vector
  batchnorm_bias :: vector

definition model_parameters :: "TxtClassifyModel \<Rightarrow> parameters" where
  "model_parameters m =
     \<lparr>conv_weight = conv1d.weight (conv m), conv_bias = conv1d.bias (conv m),
      layer1_weight = linear.weight (layer1 m), layer1_bias = linear.bias (layer1 m),
      layer2_weight = linear.weight (layer2 m), layer2_bias = linear.bias (layer2 m),
      batchnorm_weight = batchnorm1d.weight (batchnorm m),
      batchnorm_bias = batchnorm1d.bias (batchnorm m)\<rparr>"

definition set_parameters :: "TxtClassifyModel \<Rightarrow> parameters \<Rightarrow> TxtClassifyModel" where
  "set_parameters m ps =
     m\<lparr>conv := (conv m)\<lparr>conv1d.weight := conv_weight ps, conv1d.bias := conv_bias ps\<rparr>,
       layer1 := (layer1 m)\<lparr>linear.weight := layer1_weight ps, linear.bias := layer1_bias ps\<rparr>,
       layer2 := (layer2 m)\<lparr>linear.weight := layer2_weight ps, linear.bias := layer2_bias ps\<rparr>,
       batchnorm := (batchnorm m)\<lparr>batchnorm1d.weight := batchnorm_weight ps,
                                  batchnorm1d.bias := batchnorm_bias ps\<rparr>\<rparr>"

text \<open>
  \<open>torch.optim.Adam\<close> with its learning rate, the number of steps it has made and its
  moment estimates. \<open>loss.backward()\<close> followed by \<open>optim.step()\<close> replaces the
  parameters by values that Adam computes from the gradient of the batch loss and from
  its moment estimates. That computation is not modelled: a \<open>gradient_step\<close> stands for
  it, a function of the optimizer, of the model as the forward call found it, of the
  batch with its labels and of PyTorch's generator as the forward call found it, which
  gives the new moment estimates and the new parameters. \<open>optim.zero_grad()\<close> clears the
  gradients, which are no part of the state here.
\<close>

record 'a adam =
  lr :: real
  steps :: nat
  moments :: 'a

text \<open>The constructor of the optimizer refuses a negative learning rate.\<close>

definition Adam :: "real \<Rightarrow> 'a \<Rightarrow> error + 'a adam" where
  "Adam learning_rate mo =
     (if learning_rate < 0 then Inl ValueError
      else Inr \<lparr>lr = learning_rate, steps = 0, moments = mo\<rparr>)"

type_synonym 'a gradient_step =
  "'a adam \<Rightarrow> TxtClassifyModel \<Rightarrow> matrix \<Rightarrow> int list \<Rightarrow> torch_random \<Rightarrow> 'a \<times> parameters"

definition wf_parameters :: "nat \<Rightarrow> parameters \<Rightarrow> bool" where
  "wf_parameters n ps \<longleftrightarrow>
     is_matrix n n (conv_weight ps) \<and> length (conv_bias ps) = n \<and>
     is_matrix 26 1 (layer1_weight ps) \<and> length (layer1_bias ps) = 26 \<and>
     is_matrix 26 26 (layer2_weight ps) \<and> length (layer2_bias ps) = 26 \<and>
     length (batchnorm_weight ps) = 26 \<and> length (batchnorm_bias ps) = 26"

definition shape_preserving :: "nat \<Rightarrow> 'a gradient_step \<Rightarrow> bool" where
  "shape_preserving n update \<longleftrightarrow>
     (\<forall>opt m x y t. wf_model n m \<longrightarrow> wf_parameters n (snd (update opt m x y t)))"

text \<open>The state that \<open>main\<close> works on: its local variables \<open>model\<close>, \<open>optim\<close>,
  \<open>watch_loss\<close> and \<open>log\<close>, and the two generators.\<close>

record 'a trainer =
  current_model :: TxtClassifyModel
  optim :: "'a adam"
  np_rng :: np_random
  torch_rng :: torch_random
  watch_loss :: "real list"
  epoch_log :: "(real \<times> real) list"

text \<open>A slice \<open>xs[i:j]\<close> with bounds that are not negative.\<close>

definition py_slice :: "'b list \<Rightarrow> int \<Rightarrow> int \<Rightarrow> 'b list" where
  "py_slice xs i j = take (nat j - nat i) (drop (nat i) xs)"

definition floor_divide :: "int \<Rightarrow> int \<Rightarrow> error + int" where
  "floor_divide a b = (if b = 0 then Inl ZeroDivisionError else Inr (a div b))"

definition np_mean :: "real list \<Rightarrow> real" where
  \<comment> \<open>of a list that is not empty; NumPy gives NaN for the empty one\<close>
  "np_mean xs = sum_list xs / real (length xs)"

text \<open>A \<open>for\<close> loop over a list of indices whose body may raise.\<close>

fun for_each :: "(nat \<Rightarrow> 's \<Rightarrow> error + 's) \<Rightarrow> nat list \<Rightarrow> 's \<Rightarrow> error + 's" where
  "for_each body [] s = Inr s"
| "for_each body (i # rest) s =
     (case body i s of Inl e \<Rightarrow> Inl e | Inr s' \<Rightarrow> for_each body rest s')"

text \<open>The body of the loop over the batches of one epoch.\<close>

definition train_batch ::
  "'a gradient_step \<Rightarrow> int \<Rightarrow> int list list \<Rightarrow> int list \<Rightarrow> nat \<Rightarrow> 'a trainer \<Rightarrow>
   error + 'a trainer" where
  "train_batch update batch_size train_crclabels train_labels batch_index s =
     (let crclabels = py_slice train_crclabels
                        (int batch_index * batch_size) ((int batch_index + 1) * batch_size);
          labels = py_slice train_labels
                     (int batch_index * batch_size) ((int batch_index + 1) * batch_size)
      in
     (case FloatTensor crclabels of Inl e \<Rightarrow> Inl e | Inr x \<Rightarrow>
     (case forward (current_model s) x (Some (LongTensor labels)) (torch_rng s) of Inl e \<Rightarrow> Inl e
      | Inr (out, model', t') \<Rightarrow>
     (case out of
        Scores scores \<Rightarrow> Inl RuntimeError
      | Loss loss \<Rightarrow>
          (let (mo, ps) = update (optim s) (current_model s) x (LongTensor labels) (torch_rng s)
           in Inr (s\<lparr>current_model := set_parameters model' ps,
                     optim := (optim s)\<lparr>steps := Suc (steps (optim s)), moments := mo\<rparr>,
                     torch_rng := t',
                     watch_loss := watch_loss s @ [loss]\<rparr>))))))"

text \<open>The body of the loop over the epochs.\<close>

definition train_epoch ::
  "'a gradient_step \<Rightarrow> int \<Rightarrow> int \<Rightarrow> int \<Rightarrow> int list list \<Rightarrow> int list \<Rightarrow> nat \<Rightarrow> 'a trainer \<Rightarrow>
   error + 'a trainer" where
  "train_epoch update word_dim batch_size train_sample train_crclabels train_labels epoch s =
     (case floor_divide train_sample batch_size of Inl e \<Rightarrow> Inl e | Inr batches \<Rightarrow>
     (case for_each (train_batch update batch_size train_crclabels train_labels)
             [0..<nat batches] (s\<lparr>current_model := model_train (current_model s), watch_loss := []\<rparr>) of
        Inl e \<Rightarrow> Inl e
      | Inr s1 \<Rightarrow>
     (case evaluate (current_model s1) batch_size word_dim (np_rng s1) (torch_rng s1) of
        Inl e \<Rightarrow> Inl e
      | Inr (acc, model', g', t') \<Rightarrow>
          Inr (s1\<lparr>current_model := model', np_rng := g', torch_rng := t',
                  epoch_log := epoch_log s1 @ [(acc, np_mean (watch_loss s1))]\<rparr>))))"

text \<open>
  \<open>main\<close> with its five configuration constants as parameters, up to the saving of the
  weights; the plot of the log is left out.
\<close>

definition run_training ::
  "int \<Rightarrow> int \<Rightarrow> int \<Rightarrow> int \<Rightarrow> real \<Rightarrow> (nat \<Rightarrow> real) \<Rightarrow> 'a gradient_step \<Rightarrow> 'a \<Rightarrow>
   np_random \<Rightarrow> torch_random \<Rightarrow> files \<Rightarrow> error + ('a trainer \<times> files)" where
  "run_training word_dim epoch_num batch_size train_sample learning_rate init update mo g t fs =
     (case TxtClassifyModel_init batch_size init of Inl e \<Rightarrow> Inl e | Inr model0 \<Rightarrow>
     (case Adam learning_rate mo of Inl e \<Rightarrow> Inl e | Inr optim0 \<Rightarrow>
     (case build_words train_sample word_dim g of Inl e \<Rightarrow> Inl e
      | Inr ((words, train_crclabels, train_labels), g') \<Rightarrow>
     (case for_each
             (train_epoch update word_dim batch_size train_sample train_crclabels train_labels)
             [0..<nat epoch_num]
             \<lparr>current_model = model0, optim = optim0,
              np_rng = g', torch_rng = t, watch_loss = [], epoch_log = []\<rparr> of
        Inl e \<Rightarrow> Inl e
      | Inr s \<Rightarrow> Inr (s, torch_save (state_dict (current_model s)) ''txtclassify.pt'' fs)))))"

definition main ::
  "(nat \<Rightarrow> real) \<Rightarrow> 'a gradient_step \<Rightarrow> 'a \<Rightarrow> np_random \<Rightarrow> torch_random \<Rightarrow> files \<Rightarrow>
   error + ('a trainer \<times> files)" where
  "main = run_training 10 500 25 5000 (1 / 1000)"

section \<open>The training driver as the spec words it\<close>

text \<open>
  The spec gives the driver as a fixed number of epochs over one training set that is
  partitioned into consecutive batches of a fixed size, with one gradient step per batch
  and, after each epoch, an evaluation on fresh samples whose accuracy is logged with the
  mean loss of the epoch. \<open>training_spec\<close> says that over the list of the batches; it
  is compared with \<open>run_training\<close>, which follows the index arithmetic of the source.
\<close>

fun consecutive_batches :: "nat \<Rightarrow> nat \<Rightarrow> 'b list \<Rightarrow> 'b list list" where
  "consecutive_batches 0 b xs = []"
| "consecutive_batches (Suc k) b xs = take b xs # consecutive_batches k b (drop b xs)"

definition gradient_step_on ::
  "'a gradient_step \<Rightarrow> int list list \<times> int list \<Rightarrow> 'a trainer \<Rightarrow> error + 'a trainer" where
  "gradient_step_on update batch s =
     (case batch of (rows, labels) \<Rightarrow>
     (case FloatTensor rows of Inl e \<Rightarrow> Inl e | Inr x \<Rightarrow>
     (case forward (current_model s) x (Some labels) (torch_rng s) of Inl e \<Rightarrow> Inl e
      | Inr (out, model', t') \<Rightarrow>
     (case out of
        Scores scores \<Rightarrow> Inl RuntimeError
      | Loss loss \<Rightarrow>
          Inr \<lparr>current_model =
                 set_parameters model'
                   (snd (update (optim s) (current_model s) x labels (torch_rng s))),
               optim =
                 \<lparr>lr = lr (optim s), steps = steps (optim s) + 1,
                  moments = fst (update (optim s) (current_model s) x labels (torch_rng s))\<rparr>,
               np_rng = np_rng s,
               torch_rng = t',
               watch_loss = watch_loss s @ [loss],
               epoch_log = epoch_log s\<rparr>))))"

fun one_step_per_batch ::
  "'a gradient_step \<Rightarrow> (int list list \<times> int list) list \<Rightarrow> 'a trainer \<Rightarrow> error + 'a trainer" where
  "one_step_per_batch update [] s = Inr s"
| "one_step_per_batch update (batch # batches) s =
     (case gradient_step_on update batch s of
        Inl e \<Rightarrow> Inl e
      | Inr s' \<Rightarrow> one_step_per_batch update batches s')"

definition epoch_spec ::
  "'a gradient_step \<Rightarrow> int \<Rightarrow> int \<Rightarrow> (int list list \<times> int list) list \<Rightarrow> 'a trainer \<Rightarrow>
   error + 'a trainer" where
  "epoch_spec update word_dim batch_size batches s =
     (case one_step_per_batch update batches
             (s\<lparr>current_model := model_train (current_model s), watch_loss := []\<rparr>) of
        Inl e \<Rightarrow> Inl e
      | Inr s1 \<Rightarrow>
     (case evaluate (current_model s1) batch_size word_dim (np_rng s1) (torch_rng s1) of
        Inl e \<Rightarrow> Inl e
      | Inr (acc, model', g', t') \<Rightarrow>
          Inr (s1\<lparr>current_model := model', np_rng := g', torch_rng := t',
                  epoch_log :=
                    epoch_log s1 @ [(acc, sum_list (watch_loss s1) / real (length batches))]\<rparr>)))"

fun epochs_spec ::
  "nat \<Rightarrow> ('a trainer \<Rightarrow> error + 'a trainer) \<Rightarrow> 'a trainer \<Rightarrow> error + 'a trainer" where
  "epochs_spec 0 epoch s = Inr s"
| "epochs_spec (Suc n) epoch s =
     (case epoch s of Inl e \<Rightarrow> Inl e | Inr s' \<Rightarrow> epochs_spec n epoch s')"

definition training_spec ::
  "int \<Rightarrow> int \<Rightarrow> int \<Rightarrow> int \<Rightarrow> real \<Rightarrow> (nat \<Rightarrow> real) \<Rightarrow> 'a gradient_step \<Rightarrow> 'a \<Rightarrow>
   np_random \<Rightarrow> torch_random \<Rightarrow> files \<Rightarrow> error + ('a trainer \<times> files)" where
  "training_spec word_dim epoch_num batch_size train_sample learning_rate init update mo g t fs =
     (case TxtClassifyModel_init batch_size init of Inl e \<Rightarrow> Inl e | Inr model0 \<Rightarrow>
     (case Adam learning_rate mo of Inl e \<Rightarrow> Inl e | Inr optim0 \<Rightarrow>
     (case build_words train_sample word_dim g of Inl e \<Rightarrow> Inl e
      | Inr ((words, train_crclabels, train_labels), g') \<Rightarrow>
     (case epochs_spec (nat epoch_num)
             (epoch_spec update word_dim batch_size
                (zip (consecutive_batches (nat (train_sample div batch_size)) (nat batch_size)
                        train_crclabels)
                     (consecutive_batches (nat (train_sample div batch_size)) (nat batch_size)
                        train_labels)))
             \<lparr>current_model = model0, optim = optim0,
              np_rng = g', torch_rng = t, watch_loss = [], epoch_log = []\<rparr> of
        Inl e \<Rightarrow> Inl e
      | Inr s \<Rightarrow> Inr (s, torch_save (state_dict (current_model s)) ''txtclassify.pt'' fs)))))"

section \<open>Concrete inputs\<close>

text \<open>
  A generator state for each of the two generators, a sequence of initial weights and the
  model of batch size 2 built from it, for evaluating the definitions on concrete inputs.
\<close>

definition example_np_random :: np_random where
  "example_np_random = \<lparr>entropy = (\<lambda>i. 7 * i + 3), cursor = 0\<rparr>"

definition example_torch_random :: torch_random where
  "example_torch_random = \<lparr>coins = even, position = 0\<rparr>"

definition example_init :: "nat \<Rightarrow> real" where
  "example_init i = real (i mod 3) / 4"

definition example_model :: TxtClassifyModel where
  "example_model = projr (TxtClassifyModel_init 2 example_init)"

definition example_update :: "unit gradient_step" where
  "example_update opt m x y t =
     ((), (model_parameters m)\<lparr>layer1_bias := map (\<lambda>b. b - lr opt) (linear.bias (layer1 m))\<rparr>)"

text \<open>
  Two freshly constructed models of batch size 25 with different weights; a model of
  batch size 25 as training leaves it, in evaluation mode, with weights of its own and
  with running statistics that 300000 uses of the batch normalization have moved; and a
  batch of 25 rows of one feature.
\<close>

definition example_model25 :: TxtClassifyModel where
  "example_model25 = projr (TxtClassifyModel_init 25 example_init)"

definition example_other_model :: TxtClassifyModel where
  "example_other_model = projr (TxtClassifyModel_init 25 (\<lambda>i. real (i mod 5) / 8))"

definition example_trained :: TxtClassifyModel where
  "example_trained =
     example_other_model
       \<lparr>batchnorm :=
          (batchnorm example_other_model)
            \<lparr>batchnorm1d.weight := replicate 26 (3 / 2),
             batchnorm1d.bias := replicate 26 (1 / 4),
             running_mean := replicate 26 (1 / 2),
             running_var := replicate 26 (9 / 4),
             num_batches_tracked := 300000\<rparr>,
        training := False\<rparr>"

definition example_features25 :: "int list list" where
  "example_features25 = map (\<lambda>i. [10 * int i]) [0..<25]"

definition example_batch25 :: matrix where
  "example_batch25 = map (map real_of_int) example_features25"

section \<open>Properties of the sample generator\<close>

lemma randint_returns:
  assumes "low < high"
  shows "\<exists>r. randint low high g = Inr (r, g\<lparr>cursor := Suc (cursor g)\<rparr>) \<and> low \<le> r \<and> r < high"
proof -
  have "entropy g (cursor g) mod nat (high - low) < nat (high - low)"
    using assms by simp
  then have "int (entropy g (cursor g) mod nat (high - low)) < int (nat (high - low))"
    by (simp only: of_nat_less_iff)
  then have "int (entropy g (cursor g) mod nat (high - low)) < high - low"
    using assms by simp
  then show ?thesis using assms by (simp add: randint_def del: of_nat_mod)
qed

lemma small_int_cases:
  assumes "0 \<le> (k::int)" "k < 26"
  shows "k = 0 \<or> k = 1 \<or> k = 2 \<or> k = 3 \<or> k = 4 \<or> k = 5 \<or> k = 6 \<or> k = 7 \<or> k = 8 \<or> k = 9 \<or> k = 10 \<or> k = 11 \<or> k = 12 \<or> k = 13 \<or> k = 14 \<or> k = 15 \<or> k = 16 \<or> k = 17 \<or> k = 18 \<or> k = 19 \<or> k = 20 \<or> k = 21 \<or> k = 22 \<or> k = 23 \<or> k = 24 \<or> k = 25"
  using assms by arith

lemma lowercase_rank:
  assumes "lowercase c"
  shows "c = alphabet ! nat (ord c - ord CHR ''a'')"
proof -
  define k :: int where "k = of_char c - 97"
  have k: "0 \<le> k" "k < 26" using assms by (simp_all add: lowercase_def ord_def k_def)
  have "char_of (k + 97) = alphabet ! nat k"
    using small_int_cases[OF k] by (elim disjE; simp add: char_of_eq_iff alphabet_def)
  moreover have "char_of (k + 97) = c" by (simp add: k_def)
  ultimately show ?thesis by (simp add: ord_def k_def)
qed

lemma build_simple_returns:
  "\<exists>c. build_simple g = Inr (c, g\<lparr>cursor := Suc (cursor g)\<rparr>) \<and> lowercase c"
proof -
  obtain r where r: "randint 0 26 g = Inr (r, g\<lparr>cursor := Suc (cursor g)\<rparr>)" "0 \<le> r" "r < 26"
    using randint_returns[of 0 26 g] by auto
  then have "chr (r + ord CHR ''a'') = Inr (char_of (r + 97))"
    by (simp add: chr_def ord_def)
  moreover have "lowercase (char_of (r + 97))"
    using r by (simp add: lowercase_def ord_def)
  ultimately show ?thesis using r by (auto simp: build_simple_def)
qed

lemma build_word_loop_returns:
  "\<exists>x'. build_word_loop n x g = Inr (x @ x', g\<lparr>cursor := cursor g + n\<rparr>) \<and> length x' = n \<and>
          list_all lowercase x'"
proof (induction n arbitrary: x g)
  case 0
  then show ?case by simp
next
  case (Suc n)
  obtain c where s: "build_simple g = Inr (c, g\<lparr>cursor := Suc (cursor g)\<rparr>)" "lowercase c"
    using build_simple_returns by blast
  obtain x' where
    l: "build_word_loop n (x @ [c]) (g\<lparr>cursor := Suc (cursor g)\<rparr>) =
          Inr ((x @ [c]) @ x', g\<lparr>cursor := Suc (cursor g)\<rparr>\<lparr>cursor := cursor (g\<lparr>cursor := Suc (cursor g)\<rparr>) + n\<rparr>)"
      "length x' = n" "list_all lowercase x'"
    using Suc.IH by blast
  with s show ?case
    by (intro exI[of _ "c # x'"]) simp
qed

lemma build_word_returns:
  assumes "1 \<le> word_len"
  shows "\<exists>x label g'. build_word word_len g = Inr ((x, label), g') \<and>
           int (length x) = word_len \<and>
           list_all lowercase x \<and>
           label = ord (hd x) - ord CHR ''a'' \<and>
           0 \<le> label \<and> label < 26 \<and>
           hd x = alphabet ! nat label"
proof -
  obtain x where
    l: "build_word_loop (nat word_len) [] g = Inr (x, g\<lparr>cursor := cursor g + nat word_len\<rparr>)"
       "length x = nat word_len" "list_all lowercase x"
    using build_word_loop_returns[of "nat word_len" "[]" g] by auto
  from l(2) assms obtain c cs where x: "x = c # cs" by (cases x) auto
  with l(3) have c: "lowercase c" by simp
  have "build_word word_len g = Inr ((x, ord c - ord CHR ''a''), g\<lparr>cursor := cursor g + nat word_len\<rparr>)"
    using l(1) x by (simp add: build_word_def)
  moreover have "0 \<le> ord c - ord CHR ''a'' \<and> ord c - ord CHR ''a'' < 26"
    using c by (simp add: lowercase_def ord_def)
  moreover have "c = alphabet ! nat (ord c - ord CHR ''a'')"
    using c by (rule lowercase_rank)
  ultimately show ?thesis using x l(2,3) assms by auto
qed

section \<open>Properties of the checksum feature\<close>

lemma byte_and: "0 \<le> (x::int) AND 255" "(x::int) AND 255 \<le> 255"
  by (simp_all add: AND_upper2)

lemma process_byte_range:
  "0 \<le> process_byte Crc8_CCITT register byte \<and> process_byte Crc8_CCITT register byte \<le> 255"
  by (simp add: process_byte_def bitmask_def Crc8_CCITT_def byte_and del: shift_register.simps)

lemma checksum_range: "0 \<le> checksum Crc8_CCITT data \<and> checksum Crc8_CCITT data \<le> 255"
proof (cases data rule: rev_cases)
  case Nil
  then show ?thesis by (simp add: checksum_def Crc8_CCITT_def bitmask_def)
next
  case (snoc bs b)
  have "final_xor_value Crc8_CCITT = 0" by (simp add: Crc8_CCITT_def)
  then show ?thesis using snoc process_byte_range by (simp add: checksum_def)
qed

text \<open>
  Claim C4. The checksum feature of a word is a list of one integer of \<open>[0, 255]\<close>, and
  it is determined by the bytes of the word: words with the same byte encoding have the
  same feature.
\<close>

theorem build_crc_label_feature:
  "(\<exists>v. build_crc_label word = [v] \<and> 0 \<le> v \<and> v \<le> 255) \<and>
   (encode word = encode word' \<longrightarrow> build_crc_label word = build_crc_label word')"
  using checksum_range by (simp add: build_crc_label_def)

lemma example_feature: "build_crc_label ''kryf'' = [68]"
  by code_simp

theorem build_crc_label_feature_witness:
  "encode ''kryf'' = encode ''kryf'' \<and> build_crc_label ''kryf'' = [68] \<and>
   (\<exists>v. build_crc_label ''kryf'' = [v] \<and> 0 \<le> v \<and> v \<le> 255)"
proof -
  have "\<exists>v. build_crc_label ''kryf'' = [v] \<and> 0 \<le> v \<and> v \<le> 255"
    using build_crc_label_feature[of "''kryf''" "''kryf''"] by (rule conjunct1)
  moreover have "encode ''kryf'' = encode ''kryf''" by (rule refl)
  ultimately show ?thesis using example_feature by (intro conjI)
qed

section \<open>Shapes through the layers and the forward pass\<close>

lemma is_matrix_nonempty: "is_matrix r c x \<Longrightarrow> 0 < r \<Longrightarrow> x \<noteq> []"
  by (auto simp: is_matrix_def)

lemma linear_forward_length:
  "linear_forward l x = Inr y \<Longrightarrow> length y = length x \<and> x \<noteq> []"
  by (auto simp: linear_forward_def split: if_splits)

lemma linear_forward_shape:
  assumes "wf_linear i k l" "x \<noteq> []" "list_all (\<lambda>row. length row = i) x"
  shows "\<exists>y. linear_forward l x = Inr y \<and> is_matrix (length x) k y"
  using assms by (simp add: linear_forward_def wf_linear_def is_matrix_def list_all_iff)

lemma linear_forward_rows:
  assumes "in_features l = i" "\<not> list_all (\<lambda>row. length row = i) x"
  shows "linear_forward l x = Inl RuntimeError"
  using assms by (simp add: linear_forward_def)

lemma batchnorm_forward_length:
  "batchnorm_forward bn tr x = Inr (y, bn') \<Longrightarrow> length y = length x \<and> x \<noteq> []"
  by (auto simp: batchnorm_forward_def Let_def split: if_splits)

lemma batchnorm_forward_shape:
  assumes "wf_batchnorm k bn" "x \<noteq> []" "list_all (\<lambda>row. length row = k) x"
    and "tr \<longrightarrow> length x \<noteq> 1"
  shows "\<exists>y bn'. batchnorm_forward bn tr x = Inr (y, bn') \<and> is_matrix (length x) k y \<and>
           wf_batchnorm k bn' \<and> (\<not> tr \<longrightarrow> bn' = bn)"
  using assms
  by (simp add: batchnorm_forward_def wf_batchnorm_def is_matrix_def list_all_iff Let_def
      normalize_def columns_def)

lemma batchnorm_forward_single:
  assumes "length x = 1"
  shows "batchnorm_forward bn True x = Inl ValueError"
  using assms by (simp add: batchnorm_forward_def)

lemma conv_forward_mismatch:
  "length x \<noteq> in_channels c \<Longrightarrow> conv_forward c x = Inl RuntimeError"
  by (simp add: conv_forward_def)

lemma conv_forward_zero_width:
  assumes "wf_conv n c" "is_matrix n 0 x"
  shows "conv_forward c x = Inl RuntimeError"
proof (cases x)
  case Nil
  then show ?thesis by (simp add: conv_forward_def)
next
  case (Cons row rows)
  then have "length (hd x) = 0" using assms(2) by (simp add: is_matrix_def)
  moreover have "kernel_size c = 1" using assms(1) by (simp add: wf_conv_def)
  ultimately show ?thesis by (simp add: conv_forward_def)
qed

lemma conv_forward_shape:
  assumes "wf_conv n c" "is_matrix n L x" "x \<noteq> []" "0 < L"
  shows "\<exists>y. conv_forward c x = Inr y \<and> is_matrix n L y"
proof -
  have "length (hd x) = L" using assms(2,3) by (cases x) (auto simp: is_matrix_def)
  then show ?thesis
    using assms
    by (auto simp: conv_forward_def wf_conv_def is_matrix_def list_all_iff columns_def)
qed

lemma relu_shape [simp]:
  "length (relu x) = length x" "relu x = [] \<longleftrightarrow> x = []"
  "list_all (\<lambda>row. length row = c) (relu x) = list_all (\<lambda>row. length row = c) x"
  "is_matrix r c (relu x) = is_matrix r c x"
  by (auto simp: relu_def is_matrix_def list_all_iff)

lemma dropout_vector_length: "dropout_vector p v t = (v', t') \<Longrightarrow> length v' = length v"
  by (induction v arbitrary: t v' t') (auto split: prod.splits)

lemma dropout_rows_shape:
  "dropout_rows p x t = (y, t') \<Longrightarrow> is_matrix r c x \<Longrightarrow> is_matrix r c y"
proof (induction x arbitrary: t y t' r)
  case Nil
  then show ?case by simp
next
  case (Cons row rows)
  obtain row' t1 where v: "dropout_vector p row t = (row', t1)" by (cases "dropout_vector p row t")
  obtain rows' t2 where r: "dropout_rows p rows t1 = (rows', t2)" by (cases "dropout_rows p rows t1")
  have y: "y = row' # rows'" using Cons.prems(1) v r by simp
  have "is_matrix (length rows) c rows" using Cons.prems(2) by (simp add: is_matrix_def)
  then have "is_matrix (length rows) c rows'" using Cons.IH[OF r] by simp
  moreover have "length row' = c"
    using dropout_vector_length[OF v] Cons.prems(2) by (simp add: is_matrix_def)
  ultimately show ?case using y Cons.prems(2) by (auto simp: is_matrix_def)
qed

lemma dropout_forward_shape:
  "dropout_forward p tr x t = (y, t') \<Longrightarrow> is_matrix r c x \<Longrightarrow> is_matrix r c y"
  by (auto simp: dropout_forward_def dropout_rows_shape split: if_splits)

lemma dropout_forward_eval: "dropout_forward p False x t = (x, t)"
  by (simp add: dropout_forward_def)

lemma cross_entropy_returns:
  assumes "x \<noteq> []" "length y = length x" "list_all (\<lambda>row. length row = c) x"
    and "list_all (\<lambda>t. 0 \<le> t \<and> t < int c) y"
  shows "\<exists>l. cross_entropy x y = Inr l"
proof -
  have "list_all (\<lambda>(row, t). 0 \<le> t \<and> t < int (length row)) (zip x y)"
  proof -
    have "0 \<le> t \<and> t < int (length row)" if "(row, t) \<in> set (zip x y)" for row t
    proof -
      have "row \<in> set x" "t \<in> set y"
        using that by (auto dest: set_zip_leftD set_zip_rightD)
      then show ?thesis using assms(3,4) by (auto simp: list_all_iff)
    qed
    then show ?thesis by (auto simp: list_all_iff)
  qed
  then show ?thesis using assms(1,2) by (simp add: cross_entropy_def)
qed


lemma wf_model_batchnorm:
  "wf_model n m \<Longrightarrow> wf_batchnorm 26 bn \<Longrightarrow> wf_model n (m\<lparr>batchnorm := bn\<rparr>)"
  by (simp add: wf_model_def)

lemma model_train_wf: "wf_model n m \<Longrightarrow> wf_model n (model_train m)"
  by (simp add: wf_model_def model_train_def)

lemma model_eval_wf: "wf_model n m \<Longrightarrow> wf_model n (model_eval m)"
  by (simp add: wf_model_def model_eval_def)

lemma forward_steps:
  assumes "linear_forward (layer1 m) x = Inr x1"
    and "batchnorm_forward (batchnorm m) (training m) x1 = Inr (x2, bn1)"
    and "conv_forward (conv m) (relu x2) = Inr x4"
    and "batchnorm_forward bn1 (training m) x4 = Inr (x5, bn2)"
    and "linear_forward (layer2 m) (relu x5) = Inr x7"
    and "batchnorm_forward bn2 (training m) x7 = Inr (x8, bn3)"
    and "dropout_forward (dropout m) (training m) (relu x8) t = (x10, t')"
  shows "forward m x None t = Inr (Scores x10, m\<lparr>batchnorm := bn3\<rparr>, t')"
    and "forward m x (Some labels) t =
           (case cross_entropy x10 labels of
              Inl e \<Rightarrow> Inl e
            | Inr l \<Rightarrow> Inr (Loss l, m\<lparr>batchnorm := bn3\<rparr>, t'))"
  using assms by (simp_all add: forward_def)

lemma forward_returns:
  assumes wf: "wf_model n m" and n: "0 < n" and x: "is_matrix n 1 x"
    and tr: "training m \<longrightarrow> n \<noteq> 1"
  shows "\<exists>s m' t'. forward m x None t = Inr (Scores s, m', t') \<and>
           is_matrix n 26 s \<and> wf_model n m' \<and> training m' = training m \<and>
           (\<not> training m \<longrightarrow> m' = m \<and> t' = t) \<and>
           (\<forall>labels. forward m x (Some labels) t =
              (case cross_entropy s labels of
                 Inl e \<Rightarrow> Inl e
               | Inr l \<Rightarrow> Inr (Loss l, m', t')))"
proof -
  have l1: "wf_linear 1 26 (layer1 m)" and l2: "wf_linear 26 26 (layer2 m)"
    and cv: "wf_conv n (conv m)" and bn: "wf_batchnorm 26 (batchnorm m)"
    using wf by (simp_all add: wf_model_def)
  have x0: "x \<noteq> []" "length x = n" "list_all (\<lambda>row. length row = 1) x"
    using x n by (auto simp: is_matrix_def)
  obtain x1 where s1: "linear_forward (layer1 m) x = Inr x1" and m1: "is_matrix n 26 x1"
    using linear_forward_shape[OF l1 x0(1,3)] x0(2) by auto
  have x1: "x1 \<noteq> []" "length x1 = n" "list_all (\<lambda>row. length row = 26) x1"
    using m1 n by (auto simp: is_matrix_def)
  have tr1: "training m \<longrightarrow> length x1 \<noteq> 1" using tr x1 by simp
  obtain x2 bn1 where s2: "batchnorm_forward (batchnorm m) (training m) x1 = Inr (x2, bn1)"
    and m2: "is_matrix n 26 x2" and b1: "wf_batchnorm 26 bn1"
    and e1: "\<not> training m \<longrightarrow> bn1 = batchnorm m"
    using batchnorm_forward_shape[OF bn x1(1,3) tr1] x1(2) by auto
  have x3: "is_matrix n 26 (relu x2)" "relu x2 \<noteq> []"
    using m2 n by (auto simp: is_matrix_def)
  obtain x4 where s3: "conv_forward (conv m) (relu x2) = Inr x4" and m4: "is_matrix n 26 x4"
    using conv_forward_shape[OF cv x3] by auto
  have x4: "x4 \<noteq> []" "length x4 = n" "list_all (\<lambda>row. length row = 26) x4"
    using m4 n by (auto simp: is_matrix_def)
  have tr4: "training m \<longrightarrow> length x4 \<noteq> 1" using tr x4 by simp
  obtain x5 bn2 where s4: "batchnorm_forward bn1 (training m) x4 = Inr (x5, bn2)"
    and m5: "is_matrix n 26 x5" and b2: "wf_batchnorm 26 bn2"
    and e2: "\<not> training m \<longrightarrow> bn2 = bn1"
    using batchnorm_forward_shape[OF b1 x4(1,3) tr4] x4(2) by auto
  have x6: "relu x5 \<noteq> []" "length (relu x5) = n" "list_all (\<lambda>row. length row = 26) (relu x5)"
    using m5 n by (auto simp: is_matrix_def)
  obtain x7 where s5: "linear_forward (layer2 m) (relu x5) = Inr x7" and m7: "is_matrix n 26 x7"
    using linear_forward_shape[OF l2 x6(1,3)] x6(2) by auto
  have x7: "x7 \<noteq> []" "length x7 = n" "list_all (\<lambda>row. length row = 26) x7"
    using m7 n by (auto simp: is_matrix_def)
  have tr7: "training m \<longrightarrow> length x7 \<noteq> 1" using tr x7 by simp
  obtain x8 bn3 where s6: "batchnorm_forward bn2 (training m) x7 = Inr (x8, bn3)"
    and m8: "is_matrix n 26 x8" and b3: "wf_batchnorm 26 bn3"
    and e3: "\<not> training m \<longrightarrow> bn3 = bn2"
    using batchnorm_forward_shape[OF b2 x7(1,3) tr7] x7(2) by auto
  obtain x10 t' where s7: "dropout_forward (dropout m) (training m) (relu x8) t = (x10, t')"
    by (cases "dropout_forward (dropout m) (training m) (relu x8) t")
  have m10: "is_matrix n 26 x10"
    using dropout_forward_shape[OF s7] m8 by simp
  have ev: "\<not> training m \<longrightarrow> m\<lparr>batchnorm := bn3\<rparr> = m \<and> t' = t"
    using e1 e2 e3 s7 by (auto simp: dropout_forward_def)
  note st = forward_steps[OF s1 s2 s3 s4 s5 s6 s7]
  show ?thesis
    using st(1) st(2) m10 wf_model_batchnorm[OF wf b3] ev
    by (intro exI[of _ x10] exI[of _ "m\<lparr>batchnorm := bn3\<rparr>"] exI[of _ t']) simp
qed

lemma forward_batch_mismatch:
  assumes wf: "wf_model n m" and len: "length x \<noteq> n"
  shows "forward m x y t =
           Inl (if training m \<and> is_matrix 1 1 x then ValueError else RuntimeError)"
proof (cases "x \<noteq> [] \<and> list_all (\<lambda>row. length row = 1) x")
  case False
  have "in_features (layer1 m) = 1" using wf by (simp add: wf_model_def wf_linear_def)
  then have "linear_forward (layer1 m) x = Inl RuntimeError"
    using False by (auto simp: linear_forward_def)
  moreover have "\<not> is_matrix 1 1 x" using False by (auto simp: is_matrix_def)
  ultimately show ?thesis by (simp add: forward_def)
next
  case True
  have l1: "wf_linear 1 26 (layer1 m)" and bn: "wf_batchnorm 26 (batchnorm m)"
    and ch: "in_channels (conv m) = n"
    using wf by (simp_all add: wf_model_def wf_conv_def)
  obtain x1 where s1: "linear_forward (layer1 m) x = Inr x1"
    and m1: "is_matrix (length x) 26 x1"
    using linear_forward_shape[OF l1] True by blast
  have x1: "x1 \<noteq> []" "length x1 = length x" "list_all (\<lambda>row. length row = 26) x1"
    using m1 True by (auto simp: is_matrix_def)
  show ?thesis
  proof (cases "training m \<and> length x = 1")
    case True
    then have "batchnorm_forward (batchnorm m) (training m) x1 = Inl ValueError"
      using x1(2) by (simp add: batchnorm_forward_def)
    moreover have "is_matrix 1 1 x" using True \<open>x \<noteq> [] \<and> _\<close> by (simp add: is_matrix_def)
    ultimately show ?thesis using s1 True by (simp add: forward_def)
  next
    case False
    then have tr1: "training m \<longrightarrow> length x1 \<noteq> 1" using x1(2) by simp
    obtain x2 bn1 where s2: "batchnorm_forward (batchnorm m) (training m) x1 = Inr (x2, bn1)"
      and m2: "is_matrix (length x1) 26 x2"
      using batchnorm_forward_shape[OF bn x1(1,3) tr1] by blast
    have "length (relu x2) \<noteq> in_channels (conv m)"
      using m2 x1(2) len ch by (simp add: is_matrix_def)
    then have "conv_forward (conv m) (relu x2) = Inl RuntimeError"
      by (rule conv_forward_mismatch)
    moreover have "\<not> (training m \<and> is_matrix 1 1 x)" using False by (auto simp: is_matrix_def)
    ultimately show ?thesis using s1 s2 by (simp add: forward_def)
  qed
qed

section \<open>Properties of the generated batches and of the evaluation loop\<close>

lemma build_word_cursor:
  assumes "1 \<le> word_len"
  shows "\<exists>x. build_word word_len g =
           Inr ((x, ord (hd x) - ord CHR ''a''), g\<lparr>cursor := cursor g + nat word_len\<rparr>) \<and>
           length x = nat word_len \<and> list_all lowercase x"
proof -
  obtain x where
    l: "build_word_loop (nat word_len) [] g = Inr (x, g\<lparr>cursor := cursor g + nat word_len\<rparr>)"
       "length x = nat word_len" "list_all lowercase x"
    using build_word_loop_returns[of "nat word_len" "[]" g] by auto
  from l(2) assms obtain c cs where x: "x = c # cs" by (cases x) auto
  show ?thesis using l x by (simp add: build_word_def)
qed

lemma lowercase_label: "lowercase c \<Longrightarrow> 0 \<le> ord c - ord CHR ''a'' \<and> ord c - ord CHR ''a'' < 26"
  by (simp add: lowercase_def ord_def)

lemma build_words_loop_lengths:
  "build_words_loop n word_dim (words, crclabels, labels) g = Inr ((ws, cs, ls), g') \<Longrightarrow>
   length ws = length words + n \<and> length cs = length crclabels + n \<and>
   length ls = length labels + n \<and>
   (list_all (\<lambda>c. length c = 1) crclabels \<longrightarrow> list_all (\<lambda>c. length c = 1) cs)"
proof (induction n arbitrary: words crclabels labels g)
  case 0
  then show ?case by simp
next
  case (Suc n)
  from Suc.prems obtain word_len g1 word label g2 where
    "build_words_loop n word_dim
       (words @ [word], crclabels @ [build_crc_label word], labels @ [label]) g2 =
     Inr ((ws, cs, ls), g')"
    by (auto split: sum.splits prod.splits)
  from Suc.IH[OF this] show ?case by (simp add: build_crc_label_def)
qed

lemma build_words_lengths:
  assumes "build_words n word_dim g = Inr ((ws, cs, ls), g')"
  shows "length ws = nat n \<and> length cs = nat n \<and> length ls = nat n \<and>
         list_all (\<lambda>c. length c = 1) cs"
  using build_words_loop_lengths[of "nat n" word_dim "[]" "[]" "[]" g ws cs ls g'] assms
  by (simp add: build_words_def)

lemma build_words_loop_returns:
  assumes "2 \<le> word_dim"
  shows "\<exists>ws ls g'. build_words_loop n word_dim (words, crclabels, labels) g =
           Inr ((words @ ws, crclabels @ map build_crc_label ws, labels @ ls), g') \<and>
           length ws = n \<and> length ls = n \<and>
           list_all (\<lambda>l. 0 \<le> l \<and> l < 26) ls \<and>
           entropy g' = entropy g \<and> cursor g + 2 * n \<le> cursor g'"
proof (induction n arbitrary: words crclabels labels g)
  case 0
  then show ?case by simp
next
  case (Suc n)
  let ?g1 = "g\<lparr>cursor := Suc (cursor g)\<rparr>"
  obtain word_len where r: "randint 1 word_dim g = Inr (word_len, ?g1)" "1 \<le> word_len"
    using randint_returns[of 1 word_dim g] assms by auto
  let ?g2 = "?g1\<lparr>cursor := cursor ?g1 + nat word_len\<rparr>"
  obtain x where w: "build_word word_len ?g1 = Inr ((x, ord (hd x) - ord CHR ''a''), ?g2)"
    "length x = nat word_len" "list_all lowercase x"
    using build_word_cursor[OF r(2), of ?g1] by auto
  have "x \<noteq> []" using w(2) r(2) by auto
  then have "lowercase (hd x)" using w(3) by (cases x) auto
  then have lab: "0 \<le> ord (hd x) - ord CHR ''a'' \<and> ord (hd x) - ord CHR ''a'' < 26"
    by (rule lowercase_label)
  obtain ws ls g' where
    ih: "build_words_loop n word_dim
           (words @ [x], crclabels @ [build_crc_label x], labels @ [ord (hd x) - ord CHR ''a'']) ?g2 =
         Inr (((words @ [x]) @ ws, (crclabels @ [build_crc_label x]) @ map build_crc_label ws,
               (labels @ [ord (hd x) - ord CHR ''a'']) @ ls), g')"
      "length ws = n" "length ls = n" "list_all (\<lambda>l. 0 \<le> l \<and> l < 26) ls"
      "entropy g' = entropy ?g2" "cursor ?g2 + 2 * n \<le> cursor g'"
    using Suc.IH by blast
  have "cursor g + 2 * Suc n \<le> cursor g'" using ih(6) r(2) by simp
  with r w ih lab show ?case
    by (intro exI[of _ "x # ws"] exI[of _ "(ord (hd x) - ord CHR ''a'') # ls"] exI[of _ g']) simp
qed

lemma build_words_returns:
  assumes "2 \<le> word_dim"
  shows "\<exists>ws ls g'. build_words n word_dim g = Inr ((ws, map build_crc_label ws, ls), g') \<and>
           length ws = nat n \<and> length ls = nat n \<and>
           list_all (\<lambda>l. 0 \<le> l \<and> l < 26) ls \<and>
           entropy g' = entropy g \<and> cursor g + 2 * nat n \<le> cursor g'"
  using build_words_loop_returns[OF assms, of "nat n" "[]" "[]" "[]" g]
  by (simp add: build_words_def)

lemma randint_Inr: "randint low high g = Inr (r, g') \<Longrightarrow> low \<le> r"
  by (auto simp: randint_def split: if_splits)

lemma build_word_rank:
  assumes "build_word word_len g = Inr ((word, label), g')" and "1 \<le> word_len"
  shows "first_letter_rank word label"
proof -
  obtain x l g'' where e: "build_word word_len g = Inr ((x, l), g'')"
    and p: "int (length x) = word_len" "l = ord (hd x) - ord CHR ''a''" "0 \<le> l" "l < 26"
      "hd x = alphabet ! nat l"
    using build_word_returns[OF assms(2), of g] by blast
  have "x \<noteq> []" using p(1) assms(2) by auto
  then have "first_letter_rank x l"
    unfolding first_letter_rank_def using p(2-5) by (intro conjI)
  moreover have "x = word" "l = label" using e assms(1) by simp_all
  ultimately show ?thesis by (simp only:)
qed

lemma build_words_loop_labels:
  "build_words_loop n word_dim (words, crclabels, labels) g = Inr ((ws, cs, ls), g') \<Longrightarrow>
   list_all2 first_letter_rank words labels \<Longrightarrow> list_all2 first_letter_rank ws ls"
proof (induction n arbitrary: words crclabels labels g)
  case 0
  then show ?case by simp
next
  case (Suc n)
  from Suc.prems(1) obtain word_len g1 word label g2 where
    r: "randint 1 word_dim g = Inr (word_len, g1)"
    and w: "build_word word_len g1 = Inr ((word, label), g2)"
    and l: "build_words_loop n word_dim
       (words @ [word], crclabels @ [build_crc_label word], labels @ [label]) g2 =
     Inr ((ws, cs, ls), g')"
    by (auto split: sum.splits prod.splits)
  have "1 \<le> word_len" using r by (rule randint_Inr)
  with w have "first_letter_rank word label" by (rule build_word_rank)
  then have "list_all2 first_letter_rank [word] [label]" by simp
  with Suc.prems(2) have "list_all2 first_letter_rank (words @ [word]) (labels @ [label])"
    by (rule list_all2_appendI)
  then show ?case by (rule Suc.IH[OF l])
qed

text \<open>
  Claim C3. For every word length of at least 1 and every state of the generator,
  \<open>build_word\<close> returns a word of that length, made of lowercase letters, together with
  a label that is the alphabetic rank of the word's first character: the position of that
  character in the alphabet, an integer of \<open>[0, 26)\<close>. So is every label that
  \<open>build_words\<close> returns with a word, whatever the bound on the word length; with a
  bound of at least 2 it does return.
\<close>

theorem build_word_label:
  "(1 \<le> word_len \<longrightarrow>
      (\<exists>x label g'. build_word word_len g = Inr ((x, label), g') \<and>
         int (length x) = word_len \<and> list_all lowercase x \<and>
         label = ord (hd x) - ord CHR ''a'' \<and> 0 \<le> label \<and> label < 26 \<and>
         hd x = alphabet ! nat label)) \<and>
   (build_words total_words_num word_dim g = Inr ((words, crclabels, labels), g1) \<longrightarrow>
      list_all2 first_letter_rank words labels) \<and>
   (2 \<le> word_dim \<longrightarrow>
      (\<exists>words crclabels labels g1.
         build_words total_words_num word_dim g = Inr ((words, crclabels, labels), g1)))"
proof (intro conjI impI)
  assume "1 \<le> word_len"
  then show "\<exists>x label g'. build_word word_len g = Inr ((x, label), g') \<and>
         int (length x) = word_len \<and> list_all lowercase x \<and>
         label = ord (hd x) - ord CHR ''a'' \<and> 0 \<le> label \<and> label < 26 \<and>
         hd x = alphabet ! nat label"
    by (rule build_word_returns)
next
  assume "build_words total_words_num word_dim g = Inr ((words, crclabels, labels), g1)"
  then have "build_words_loop (nat total_words_num) word_dim ([], [], []) g =
      Inr ((words, crclabels, labels), g1)"
    by (simp only: build_words_def)
  moreover have "list_all2 first_letter_rank [] []" by simp
  ultimately show "list_all2 first_letter_rank words labels"
    by (rule build_words_loop_labels)
next
  assume "2 \<le> word_dim"
  from build_words_returns[OF this, of total_words_num g]
  show "\<exists>words crclabels labels g1.
         build_words total_words_num word_dim g = Inr ((words, crclabels, labels), g1)"
    by blast
qed

lemma example_words:
  "map_sum id fst (build_words 3 10 example_np_random) =
     Inr ([''kryf'', ''tah'', ''vcjq''], [[68], [51], [25]], [10, 19, 21])"
  by code_simp

lemma example_word: "map_sum id fst (build_word 3 example_np_random) = Inr (''dkr'', 3)"
  by code_simp

lemma example_words_returned:
  "\<exists>g1. build_words 3 10 example_np_random =
          Inr (([''kryf'', ''tah'', ''vcjq''], [[68], [51], [25]], [10, 19, 21]), g1)"
proof (cases "build_words 3 10 example_np_random")
  case (Inl e)
  then show ?thesis using example_words by simp
next
  case (Inr r)
  then show ?thesis using example_words by (cases r) simp
qed

lemma example_word_returned:
  "\<exists>g'. build_word 3 example_np_random = Inr ((''dkr'', 3), g')"
proof (cases "build_word 3 example_np_random")
  case (Inl e)
  then show ?thesis using example_word by simp
next
  case (Inr r)
  then show ?thesis using example_word by (cases r) simp
qed

theorem build_word_label_witness:
  "(1::int) \<le> 3 \<and> (2::int) \<le> 10 \<and>
   (\<exists>g'. build_word 3 example_np_random = Inr ((''dkr'', 3), g')) \<and>
   (\<exists>g1. build_words 3 10 example_np_random =
           Inr (([''kryf'', ''tah'', ''vcjq''], [[68], [51], [25]], [10, 19, 21]), g1)) \<and>
   list_all2 first_letter_rank [''kryf'', ''tah'', ''vcjq''] [10, 19, 21]"
proof -
  obtain g1 where
    w: "build_words 3 10 example_np_random =
          Inr (([''kryf'', ''tah'', ''vcjq''], [[68], [51], [25]], [10, 19, 21]), g1)"
    using example_words_returned ..
  note l = build_word_label[of 3 example_np_random 3 10
      "[''kryf'', ''tah'', ''vcjq'']" "[[68], [51], [25]]" "[10, 19, 21]" g1,
      THEN conjunct2, THEN conjunct1, THEN mp, OF w]
  have h: "(1::int) \<le> 3" "(2::int) \<le> 10" by simp_all
  show ?thesis
    apply (intro conjI)
        apply (rule h(1))
       apply (rule h(2))
      apply (rule example_word_returned)
     apply (rule example_words_returned)
    apply (rule l)
    done
qed

lemma FloatTensor_features:
  assumes "list_all (\<lambda>c. length c = 1) cs"
  shows "\<exists>x. FloatTensor cs = Inr x \<and> is_matrix (length cs) 1 x"
proof -
  have "list_all (\<lambda>row. length row = length (hd cs)) cs"
    using assms by (cases cs) (auto simp: list_all_iff)
  then show ?thesis using assms by (simp add: FloatTensor_def is_matrix_def list_all_iff)
qed

lemma FloatTensor_length: "FloatTensor cs = Inr x \<Longrightarrow> length x = length cs"
  by (auto simp: FloatTensor_def split: if_splits)

lemma evaluate_loop_counts:
  assumes "list_all (\<lambda>(p, t). p \<noteq> []) zs"
  shows "evaluate_loop zs (correct, wrong) =
           Inr (correct + int (length (filter (\<lambda>(p, t). Max (set p) = real_of_int t) zs)),
                wrong + int (length (filter (\<lambda>(p, t). Max (set p) \<noteq> real_of_int t) zs)))"
  using assms
  by (induction zs arbitrary: correct wrong) (auto simp: np_max_def)

lemma filter_split_length:
  "int (length (filter (\<lambda>(p, t). Max (set p) = real_of_int t) zs)) +
   int (length (filter (\<lambda>(p, t). Max (set p) \<noteq> real_of_int t) zs)) = int (length zs)"
proof -
  have "(\<lambda>(p, t). Max (set p) \<noteq> real_of_int t) = (\<lambda>z. \<not> (\<lambda>(p, t). Max (set p) = real_of_int t) z)"
    by auto
  then show ?thesis
    using sum_length_filter_compl[of "\<lambda>(p, t). Max (set p) = real_of_int t" zs]
    by (simp only: of_nat_add[symmetric])
qed

lemma forward_Inr_input:
  assumes wf: "wf_model n m" and r: "forward m x y t = Inr r"
  shows "is_matrix n 1 x \<and> 0 < n"
proof -
  have len: "length x = n" using forward_batch_mismatch[OF wf, of x y t] r by (cases "length x = n") auto
  have "in_features (layer1 m) = 1" using wf by (simp add: wf_model_def wf_linear_def)
  moreover obtain x1 where "linear_forward (layer1 m) x = Inr x1"
    using r by (auto simp: forward_def split: sum.splits)
  ultimately have "x \<noteq> [] \<and> list_all (\<lambda>row. length row = 1) x"
    by (auto simp: linear_forward_def split: if_splits)
  then show ?thesis using len by (auto simp: is_matrix_def)
qed

section \<open>Properties of the evaluation routine\<close>

lemma TxtClassifyModel_init_wf:
  assumes "0 \<le> batch_size"
  shows "\<exists>m. TxtClassifyModel_init batch_size init = Inr m \<and> wf_model (nat batch_size) m \<and>
           training m \<and> dropout m = 4 / 10"
  using assms
  by (simp add: TxtClassifyModel_init_def wf_model_def wf_conv_def wf_linear_def
      wf_batchnorm_def is_matrix_def fill_matrix_def fill_vector_def list_all_iff Let_def)

lemma example_model_init: "TxtClassifyModel_init 2 example_init = Inr example_model"
  using TxtClassifyModel_init_wf[of 2 example_init] by (auto simp: example_model_def)

lemma example_model_wf: "wf_model 2 example_model" "training example_model"
  using TxtClassifyModel_init_wf[of 2 example_init] by (auto simp: example_model_def)

lemma evaluate_counts_unfold:
  assumes wf: "wf_model n model"
    and ev: "evaluate_counts model sample_size word_dim g t = Inr ((correct, wrong), model', g', t')"
  shows "\<exists>words crclabels labels x pred.
           build_words sample_size word_dim g = Inr ((words, crclabels, labels), g') \<and>
           FloatTensor crclabels = Inr x \<and>
           forward (model_eval model) x None t = Inr (Scores pred, model', t') \<and>
           length pred = nat sample_size \<and> length labels = nat sample_size \<and>
           n = nat sample_size \<and> 0 < n \<and> is_matrix n 26 pred \<and>
           correct = int (length (filter (\<lambda>(p, t). Max (set p) = real_of_int t) (zip pred labels))) \<and>
           wrong = int (length (filter (\<lambda>(p, t). Max (set p) \<noteq> real_of_int t) (zip pred labels)))"
proof -
  from ev obtain words crclabels labels x pred where
    bw: "build_words sample_size word_dim g = Inr ((words, crclabels, labels), g')"
    and ft: "FloatTensor crclabels = Inr x"
    and fw: "forward (model_eval model) x None t = Inr (Scores pred, model', t')"
    and lp: "evaluate_loop (zip pred labels) (0, 0) = Inr (correct, wrong)"
    by (auto simp: evaluate_counts_def split: sum.splits prod.splits forward_output.splits)
  have wf': "wf_model n (model_eval model)" using wf by (simp add: wf_model_def model_eval_def)
  have tr: "training (model_eval model) \<longrightarrow> n \<noteq> 1" by (simp add: model_eval_def)
  have x: "is_matrix n 1 x" "0 < n" using forward_Inr_input[OF wf' fw] by simp_all
  obtain s where "forward (model_eval model) x None t = Inr (Scores s, model_eval model, t)"
    and "is_matrix n 26 s"
    using forward_returns[OF wf' x(2) x(1) tr, of t] by (auto simp: model_eval_def)
  with fw have pred: "is_matrix n 26 pred" by simp
  have len: "length labels = nat sample_size" "length crclabels = nat sample_size"
    using build_words_lengths[OF bw] by simp_all
  have n: "n = nat sample_size"
    using x(1) FloatTensor_length[OF ft] len by (simp add: is_matrix_def)
  have "list_all (\<lambda>(p, t). p \<noteq> []) (zip pred labels)"
    using pred by (auto simp: is_matrix_def list_all_iff dest!: set_zip_leftD)
  from evaluate_loop_counts[OF this, of 0 0] lp
  have "correct = int (length (filter (\<lambda>(p, t). Max (set p) = real_of_int t) (zip pred labels)))"
    "wrong = int (length (filter (\<lambda>(p, t). Max (set p) \<noteq> real_of_int t) (zip pred labels)))"
    by simp_all
  with bw ft fw pred len n x(2) show ?thesis by (auto simp: is_matrix_def)
qed

lemma evaluate_counts_sum:
  assumes wf: "wf_model n model"
    and ev: "evaluate_counts model sample_size word_dim g t = Inr ((correct, wrong), model', g', t')"
  shows "correct + wrong = int (nat sample_size) \<and> 0 \<le> correct \<and> 0 \<le> wrong \<and> 0 < nat sample_size"
proof -
  obtain pred labels where l: "length pred = nat sample_size" "length labels = nat sample_size"
    "0 < n" "n = nat sample_size"
    and c: "correct = int (length (filter (\<lambda>(p, t). Max (set p) = real_of_int t) (zip pred labels)))"
    and w: "wrong = int (length (filter (\<lambda>(p, t). Max (set p) \<noteq> real_of_int t) (zip pred labels)))"
    using evaluate_counts_unfold[OF wf ev] by blast
  have "correct + wrong = int (length (zip pred labels))"
    unfolding c w by (rule filter_split_length)
  then show ?thesis using l c w by simp
qed

lemma evaluate_counts_returns:
  assumes wf: "wf_model n model" and n: "0 < n" and wd: "2 \<le> word_dim"
  shows "\<exists>correct wrong g'. evaluate_counts model (int n) word_dim g t =
           Inr ((correct, wrong), model_eval model, g', t) \<and>
           entropy g' = entropy g \<and> cursor g + 2 * n \<le> cursor g'"
proof -
  obtain ws ls g' where
    bw: "build_words (int n) word_dim g = Inr ((ws, map build_crc_label ws, ls), g')"
    and len: "length ws = n" "length ls = n"
    and g': "entropy g' = entropy g" "cursor g + 2 * n \<le> cursor g'"
    using build_words_returns[OF wd, of "int n" g] by auto
  have "list_all (\<lambda>c. length c = 1) (map build_crc_label ws)"
    by (simp add: list_all_iff build_crc_label_def)
  from FloatTensor_features[OF this] len
  obtain x where ft: "FloatTensor (map build_crc_label ws) = Inr x" and x: "is_matrix n 1 x"
    by auto
  have wf': "wf_model n (model_eval model)" using wf by (simp add: wf_model_def model_eval_def)
  have tr: "training (model_eval model) \<longrightarrow> n \<noteq> 1" by (simp add: model_eval_def)
  obtain s where fw: "forward (model_eval model) x None t = Inr (Scores s, model_eval model, t)"
    and s: "is_matrix n 26 s"
    using forward_returns[OF wf' n x tr, of t] by (auto simp: model_eval_def)
  have "list_all (\<lambda>(p, t). p \<noteq> []) (zip s ls)"
    using s by (auto simp: is_matrix_def list_all_iff dest!: set_zip_leftD)
  from evaluate_loop_counts[OF this, of 0 0] bw ft fw g' show ?thesis
    by (simp add: evaluate_counts_def)
qed

lemma build_simple_error: "build_simple g = Inl e \<Longrightarrow> e = ValueError"
  by (auto simp: build_simple_def randint_def chr_def split: sum.splits prod.splits if_splits)

lemma build_word_loop_error: "build_word_loop n x g = Inl e \<Longrightarrow> e = ValueError"
  by (induction n arbitrary: x g) (auto split: sum.splits prod.splits dest: build_simple_error)

lemma build_word_error: "build_word word_len g = Inl e \<Longrightarrow> e = ValueError \<or> e = IndexError"
  by (auto simp: build_word_def split: sum.splits prod.splits list.splits
      dest: build_word_loop_error)

lemma build_words_loop_error:
  "build_words_loop n word_dim acc g = Inl e \<Longrightarrow> e = ValueError \<or> e = IndexError"
proof (induction n arbitrary: acc g)
  case 0
  then show ?case by simp
next
  case (Suc n)
  obtain words crclabels labels where acc: "acc = (words, crclabels, labels)" by (cases acc) auto
  show ?case
  proof (cases "randint 1 word_dim g")
    case (Inl e')
    then show ?thesis using Suc.prems acc by (auto simp: randint_def split: if_splits)
  next
    case (Inr r)
    obtain word_len g1 where r: "r = (word_len, g1)" by (cases r) auto
    show ?thesis
    proof (cases "build_word word_len g1")
      case (Inl e')
      then show ?thesis using Suc.prems acc Inr r by (auto dest: build_word_error)
    next
      case w: (Inr q)
      obtain word label g2 where "q = ((word, label), g2)" by (cases q) auto
      then show ?thesis using Suc.prems acc Inr r w Suc.IH by auto
    qed
  qed
qed

lemma batchnorm_forward_error:
  "batchnorm_forward bn tr x = Inl e \<Longrightarrow> e = ValueError \<or> e = RuntimeError"
  by (auto simp: batchnorm_forward_def Let_def split: if_splits)

lemma linear_forward_error: "linear_forward l x = Inl e \<Longrightarrow> e = RuntimeError"
  by (auto simp: linear_forward_def split: if_splits)

lemma conv_forward_error: "conv_forward c x = Inl e \<Longrightarrow> e = RuntimeError"
  by (auto simp: conv_forward_def split: if_splits)

lemma cross_entropy_error: "cross_entropy x y = Inl e \<Longrightarrow> e = ValueError \<or> e = IndexError"
  by (auto simp: cross_entropy_def split: if_splits)

lemma forward_error:
  "forward m x y t = Inl e \<Longrightarrow> e = ValueError \<or> e = RuntimeError \<or> e = IndexError"
  by (auto simp: forward_def Let_def split: sum.splits prod.splits option.splits
      dest: linear_forward_error conv_forward_error batchnorm_forward_error cross_entropy_error)

lemma evaluate_loop_error: "evaluate_loop zs cw = Inl e \<Longrightarrow> e = ValueError"
  by (induction zs cw rule: evaluate_loop.induct)
     (auto simp: np_max_def split: if_splits)

lemma evaluate_counts_error:
  "evaluate_counts model sample_size word_dim g t = Inl e \<Longrightarrow> e \<noteq> ZeroDivisionError"
  by (auto simp: evaluate_counts_def build_words_def FloatTensor_def
      split: sum.splits prod.splits forward_output.splits if_splits
      dest: build_words_loop_error forward_error evaluate_loop_error)


text \<open>
  Claim C1. When \<open>evaluate\<close> gets through its loop, the counter \<open>correct\<close> is the number
  of scored samples whose highest score, as a number, equals the label, and \<open>wrong\<close> is
  the number of the others. The position of the highest score plays no part: a row whose
  highest score stands at the position of the label is counted wrong when that score is
  not the label, and a row whose highest score equals the label is counted correct when it
  stands elsewhere.
\<close>

theorem evaluate_counts_highest_value:
  assumes "wf_model n model"
    and "evaluate_counts model sample_size word_dim g t = Inr ((correct, wrong), model', g', t')"
  shows "(\<exists>words crclabels labels x pred.
            build_words sample_size word_dim g = Inr ((words, crclabels, labels), g') \<and>
            FloatTensor crclabels = Inr x \<and>
            forward (model_eval model) x None t = Inr (Scores pred, model', t') \<and>
            length pred = length labels \<and>
            correct = int (length (filter (\<lambda>(p, t). Max (set p) = real_of_int t) (zip pred labels))) \<and>
            wrong = int (length (filter (\<lambda>(p, t). Max (set p) \<noteq> real_of_int t) (zip pred labels)))) \<and>
         np_argmax [0, 5, 1] = Inr 1 \<and> evaluate_loop [([0, 5, 1], 1)] (0, 0) = Inr (0, 1) \<and>
         np_argmax [1, 0] = Inr 0 \<and> evaluate_loop [([1, 0], 1)] (0, 0) = Inr (1, 0)"
proof -
  have "np_argmax [0, 5, 1] = Inr 1 \<and> evaluate_loop [([0, 5, 1], 1)] (0, 0) = Inr (0, 1) \<and>
        np_argmax [1, 0] = Inr 0 \<and> evaluate_loop [([1, 0], 1)] (0, 0) = Inr (1, 0)"
    by (simp add: np_argmax_def np_max_def)
  moreover have "\<exists>words crclabels labels x pred.
            build_words sample_size word_dim g = Inr ((words, crclabels, labels), g') \<and>
            FloatTensor crclabels = Inr x \<and>
            forward (model_eval model) x None t = Inr (Scores pred, model', t') \<and>
            length pred = length labels \<and>
            correct = int (length (filter (\<lambda>(p, t). Max (set p) = real_of_int t) (zip pred labels))) \<and>
            wrong = int (length (filter (\<lambda>(p, t). Max (set p) \<noteq> real_of_int t) (zip pred labels)))"
    using evaluate_counts_unfold[OF assms] by (elim exE conjE) (intro exI conjI; simp)
  ultimately show ?thesis by blast
qed

theorem evaluate_counts_highest_value_witness:
  "\<exists>correct wrong g'.
     wf_model 2 example_model \<and>
     evaluate_counts example_model 2 10 example_np_random example_torch_random =
       Inr ((correct, wrong), model_eval example_model, g', example_torch_random) \<and>
     (\<exists>words crclabels labels x pred.
        build_words 2 10 example_np_random = Inr ((words, crclabels, labels), g') \<and>
        FloatTensor crclabels = Inr x \<and>
        forward (model_eval example_model) x None example_torch_random =
          Inr (Scores pred, model_eval example_model, example_torch_random) \<and>
        length pred = length labels \<and>
        correct = int (length (filter (\<lambda>(p, t). Max (set p) = real_of_int t) (zip pred labels))) \<and>
        wrong = int (length (filter (\<lambda>(p, t). Max (set p) \<noteq> real_of_int t) (zip pred labels))))"
proof -
  obtain correct wrong g' where
    ev: "evaluate_counts example_model (int 2) 10 example_np_random example_torch_random =
           Inr ((correct, wrong), model_eval example_model, g', example_torch_random)"
    using evaluate_counts_returns[OF example_model_wf(1), of 10 example_np_random example_torch_random]
    by auto
  then have ev': "evaluate_counts example_model 2 10 example_np_random example_torch_random =
           Inr ((correct, wrong), model_eval example_model, g', example_torch_random)"
    by simp
  from evaluate_counts_highest_value[OF example_model_wf(1) ev'] ev' example_model_wf(1)
  show ?thesis by blast
qed

text \<open>
  Claim C9. For a sample size of at least 1, \<open>evaluate\<close> never fails on its division:
  whenever its loop ends, the two counters are non-negative and sum to the sample size,
  the accuracy returned is \<open>correct\<close> divided by that sum and lies in \<open>[0, 1]\<close>. On a
  model of that batch size and a word length bound of at least 2 it does return.
\<close>

theorem evaluate_accuracy:
  assumes "wf_model n model" and "1 \<le> sample_size"
  shows "evaluate model sample_size word_dim g t \<noteq> Inl ZeroDivisionError \<and>
         (\<forall>correct wrong model' g' t'.
            evaluate_counts model sample_size word_dim g t = Inr ((correct, wrong), model', g', t') \<longrightarrow>
            correct + wrong = sample_size \<and> 0 \<le> correct \<and> 0 \<le> wrong \<and>
            evaluate model sample_size word_dim g t =
              Inr (real_of_int correct / real_of_int (correct + wrong), model', g', t')) \<and>
         (\<forall>acc model' g' t'.
            evaluate model sample_size word_dim g t = Inr (acc, model', g', t') \<longrightarrow>
            0 \<le> acc \<and> acc \<le> 1) \<and>
         (n = nat sample_size \<and> 2 \<le> word_dim \<longrightarrow>
            (\<exists>acc g'. evaluate model sample_size word_dim g t =
               Inr (acc, model_eval model, g', t)))"
proof -
  have counts: "correct + wrong = sample_size \<and> 0 \<le> correct \<and> 0 \<le> wrong \<and>
      evaluate model sample_size word_dim g t =
        Inr (real_of_int correct / real_of_int (correct + wrong), model', g', t')"
    if ev: "evaluate_counts model sample_size word_dim g t = Inr ((correct, wrong), model', g', t')"
    for correct wrong model' g' t'
  proof -
    have s: "correct + wrong = int (nat sample_size)" "0 \<le> correct" "0 \<le> wrong"
      using evaluate_counts_sum[OF assms(1) ev] by simp_all
    then have "correct + wrong = sample_size" "correct + wrong \<noteq> 0" using assms(2) by simp_all
    then show ?thesis using s ev by (simp add: evaluate_def true_divide_def)
  qed
  have nz: "evaluate model sample_size word_dim g t \<noteq> Inl ZeroDivisionError"
  proof (cases "evaluate_counts model sample_size word_dim g t")
    case (Inl e)
    then have "e \<noteq> ZeroDivisionError" by (rule evaluate_counts_error)
    then show ?thesis using Inl by (simp add: evaluate_def)
  next
    case (Inr r)
    obtain correct wrong model' g' t' where "r = ((correct, wrong), model', g', t')"
      by (cases r) auto
    with Inr counts show ?thesis by auto
  qed
  have range: "0 \<le> acc \<and> acc \<le> 1"
    if ev: "evaluate model sample_size word_dim g t = Inr (acc, model', g', t')"
    for acc model' g' t'
  proof -
    from ev obtain correct wrong where
      c: "evaluate_counts model sample_size word_dim g t = Inr ((correct, wrong), model', g', t')"
      by (auto simp: evaluate_def split: sum.splits prod.splits)
    from counts[OF c] ev have acc: "acc = real_of_int correct / real_of_int (correct + wrong)"
      and s: "0 \<le> correct" "0 \<le> wrong" "correct + wrong = sample_size" by simp_all
    have "0 < real_of_int (correct + wrong)" using s assms(2) by simp
    moreover have "real_of_int correct \<le> real_of_int (correct + wrong)" using s by simp
    moreover have "0 \<le> real_of_int correct" using s by simp
    ultimately show ?thesis unfolding acc by (simp add: divide_le_eq)
  qed
  have ret: "\<exists>acc g'. evaluate model sample_size word_dim g t = Inr (acc, model_eval model, g', t)"
    if "n = nat sample_size \<and> 2 \<le> word_dim"
  proof -
    have n: "0 < n" "int n = sample_size" and wd: "2 \<le> word_dim"
      using that assms(2) by simp_all
    obtain correct wrong g' where
      c: "evaluate_counts model sample_size word_dim g t =
            Inr ((correct, wrong), model_eval model, g', t)"
      using evaluate_counts_returns[OF assms(1) n(1) wd, of g t] n(2) by auto
    from counts[OF c] show ?thesis by blast
  qed
  from nz counts range ret show ?thesis by blast
qed


theorem evaluate_accuracy_witness:
  "wf_model 2 example_model \<and> (1::int) \<le> 2 \<and>
   evaluate example_model 2 10 example_np_random example_torch_random \<noteq> Inl ZeroDivisionError \<and>
   (\<exists>acc g'. evaluate example_model 2 10 example_np_random example_torch_random =
      Inr (acc, model_eval example_model, g', example_torch_random) \<and> 0 \<le> acc \<and> acc \<le> 1)"
proof -
  have one: "(1::int) \<le> 2" by simp
  note ea = evaluate_accuracy[OF example_model_wf(1) one, of 10 example_np_random example_torch_random]
  from ea obtain acc g' where
    "evaluate example_model 2 10 example_np_random example_torch_random =
       Inr (acc, model_eval example_model, g', example_torch_random)"
    by auto
  moreover from this ea have "0 \<le> acc \<and> acc \<le> 1" by blast
  ultimately show ?thesis using ea example_model_wf(1) one by blast
qed

section \<open>Properties of the convolution stage\<close>

lemma dot_sum:
  assumes "length u = n" "length v = n"
  shows "dot u v = (\<Sum>i<n. u ! i * v ! i)"
proof -
  have "sum_list (map2 (*) u v) = (\<Sum>i = 0..<length (map2 (*) u v). map2 (*) u v ! i)"
    by (rule sum_list_sum_nth)
  also have "\<dots> = (\<Sum>i = 0..<n. u ! i * v ! i)" using assms by simp
  finally show ?thesis by (simp add: dot_def lessThan_atLeast0)
qed

text \<open>
  Claim C2, as amended. On a batch of \<open>n\<close> rows of the same length the convolution
  stage of a model of batch size \<open>n\<close> raises when the rows have no entry; otherwise it
  returns \<open>n\<close> rows of that length, and entry \<open>l\<close> of its row \<open>k\<close> is the bias of
  \<open>k\<close> plus the sum, over all rows \<open>i\<close> of the batch, of the weight of the pair
  \<open>(k, i)\<close> times entry \<open>l\<close> of row \<open>i\<close>. Every row of the result thus depends on
  all the rows of the batch, position by position.
\<close>

theorem conv_forward_entries:
  assumes "wf_conv n c" "is_matrix n L x" "0 < n"
  shows "(L = 0 \<longrightarrow> conv_forward c x = Inl RuntimeError) \<and>
         (0 < L \<longrightarrow>
            (\<exists>y. conv_forward c x = Inr y \<and> is_matrix n L y \<and>
               (\<forall>k<n. \<forall>l<L. y ! k ! l =
                  conv1d.bias c ! k + (\<Sum>i<n. conv1d.weight c ! k ! i * x ! i ! l))))"
proof (intro conjI impI)
  assume "L = 0"
  then show "conv_forward c x = Inl RuntimeError"
    using assms(1,2) by (auto intro: conv_forward_zero_width)
next
  assume L: "0 < L"
  have x: "x \<noteq> []" "length x = n" using assms(2,3) by (auto simp: is_matrix_def)
  have hd: "length (hd x) = L" using assms(2) x(1) by (cases x) (auto simp: is_matrix_def)
  have w: "length (conv1d.weight c) = n" "length (conv1d.bias c) = n"
    "in_channels c = n" "kernel_size c = 1"
    using assms(1) by (simp_all add: wf_conv_def is_matrix_def)
  have wr: "length (conv1d.weight c ! k) = n" if "k < n" for k
    using assms(1) that by (simp add: wf_conv_def is_matrix_def list_all_length)
  let ?y = "map2 (\<lambda>w b. map (\<lambda>col. dot w col + b) (columns L x)) (conv1d.weight c) (conv1d.bias c)"
  have y: "conv_forward c x = Inr ?y" using x w hd L by (simp add: conv_forward_def)
  have sh: "is_matrix n L ?y"
    using w by (auto simp: is_matrix_def list_all_iff columns_def)
  have "?y ! k ! l = conv1d.bias c ! k + (\<Sum>i<n. conv1d.weight c ! k ! i * x ! i ! l)"
    if "k < n" "l < L" for k l
  proof -
    have "?y ! k ! l = dot (conv1d.weight c ! k) (map (\<lambda>row. row ! l) x) + conv1d.bias c ! k"
      using that w by (simp add: columns_def)
    also have "dot (conv1d.weight c ! k) (map (\<lambda>row. row ! l) x) =
        (\<Sum>i<n. conv1d.weight c ! k ! i * map (\<lambda>row. row ! l) x ! i)"
      using wr[OF that(1)] x(2) by (intro dot_sum) simp_all
    also have "\<dots> = (\<Sum>i<n. conv1d.weight c ! k ! i * x ! i ! l)"
      using x(2) by (intro sum.cong) simp_all
    finally show ?thesis by simp
  qed
  with y sh show "\<exists>y. conv_forward c x = Inr y \<and> is_matrix n L y \<and>
               (\<forall>k<n. \<forall>l<L. y ! k ! l =
                  conv1d.bias c ! k + (\<Sum>i<n. conv1d.weight c ! k ! i * x ! i ! l))"
    by blast
qed

lemma example_conv:
  "conv example_model =
     \<lparr>in_channels = 2, out_channels = 2, kernel_size = 1,
      weight = [[0, 1 / 4], [1 / 2, 0]], bias = [1 / 4, 1 / 2]\<rparr>"
  by (simp add: example_model_def TxtClassifyModel_init_def fill_matrix_def fill_vector_def
      example_init_def Let_def upt_rec[of 0] upt_rec[of 1] numeral_2_eq_2)

theorem conv_forward_entries_witness:
  "wf_conv 2 (conv example_model) \<and> (0::nat) < 2 \<and>
   is_matrix 2 0 [[], []] \<and> conv_forward (conv example_model) [[], []] = Inl RuntimeError \<and>
   is_matrix 2 3 [[1, 2, 3], [4, 5, 6]] \<and> (0::nat) < 3 \<and>
   (\<exists>y. conv_forward (conv example_model) [[1, 2, 3], [4, 5, 6]] = Inr y \<and> is_matrix 2 3 y \<and>
      (\<forall>k<2. \<forall>l<3. y ! k ! l =
         conv1d.bias (conv example_model) ! k +
         (\<Sum>i<2. conv1d.weight (conv example_model) ! k ! i * [[1, 2, 3], [4, 5, 6]] ! i ! l)))"
proof -
  have c: "wf_conv 2 (conv example_model)"
    using example_model_wf(1) by (simp add: wf_model_def)
  have x: "is_matrix 2 3 [[1, 2, 3], [4, 5, 6]]" and z: "is_matrix 2 0 [[], []]"
    by (simp_all add: is_matrix_def)
  have n: "(0::nat) < 2" and l: "(0::nat) < 3" by simp_all
  have "conv_forward (conv example_model) [[], []] = Inl RuntimeError"
    using conv_forward_entries[OF c z n] by simp
  moreover have "\<exists>y. conv_forward (conv example_model) [[1, 2, 3], [4, 5, 6]] = Inr y \<and>
      is_matrix 2 3 y \<and>
      (\<forall>k<2. \<forall>l<3. y ! k ! l =
         conv1d.bias (conv example_model) ! k +
         (\<Sum>i<2. conv1d.weight (conv example_model) ! k ! i * [[1, 2, 3], [4, 5, 6]] ! i ! l))"
    using conv_forward_entries[OF c x n] l by blast
  ultimately show ?thesis using c x z n l by blast
qed

text \<open>
  Claim C2, as stated, fails: two batches with the same first row and different second
  rows give different first rows after the convolution of the example model.
\<close>

theorem conv_mixes_rows:
  "conv_forward (conv example_model) [[1, 2, 3], [4, 5, 6]] = Inr [[5 / 4, 3 / 2, 7 / 4], [1, 3 / 2, 2]] \<and>
   conv_forward (conv example_model) [[1, 2, 3], [4, 5, 7]] = Inr [[5 / 4, 3 / 2, 2], [1, 3 / 2, 2]] \<and>
   [[1, 2, 3], [4, 5, 6]] ! 0 = [[1, 2, 3], [4, 5, 7 :: real]] ! 0 \<and>
   [[5 / 4, 3 / 2, 7 / 4], [1, 3 / 2, 2]] ! 0 \<noteq> [[5 / 4, 3 / 2, 2], [1, 3 / 2, 2 :: real]] ! 0"
  by (simp add: example_conv conv_forward_def columns_def dot_def upt_rec[of 0] upt_rec[of 1]
      upt_rec[of 2] numeral_3_eq_3 numeral_2_eq_2)

section \<open>Properties of the forward pass\<close>

text \<open>
  Claim C5, as amended. On a batch of \<open>n\<close> rows of one feature each, a model of batch
  size \<open>n\<close> (with \<open>n\<close> at least 2 when it is in training mode) returns, without labels,
  a matrix of \<open>n\<close> rows of 26 scores; with one label of \<open>[0, 26)\<close> per row it returns
  one scalar, the cross-entropy of those scores and the labels.
\<close>

theorem forward_result:
  assumes "wf_model n m" and "0 < n" and "is_matrix n 1 x" and "training m \<longrightarrow> n \<noteq> 1"
  shows "\<exists>s m' t'. forward m x None t = Inr (Scores s, m', t') \<and> is_matrix n 26 s \<and>
           (length labels = n \<and> list_all (\<lambda>l. 0 \<le> l \<and> l < 26) labels \<longrightarrow>
              (\<exists>l. forward m x (Some labels) t = Inr (Loss l, m', t') \<and>
                    cross_entropy s labels = Inr l))"
proof -
  obtain s m' t' where f: "forward m x None t = Inr (Scores s, m', t')" and s: "is_matrix n 26 s"
    and l: "\<And>labels. forward m x (Some labels) t =
              (case cross_entropy s labels of
                 Inl e \<Rightarrow> Inl e
               | Inr l \<Rightarrow> Inr (Loss l, m', t'))"
    using forward_returns[OF assms, of t] by blast
  have "\<exists>l. forward m x (Some labels) t = Inr (Loss l, m', t') \<and> cross_entropy s labels = Inr l"
    if "length labels = n \<and> list_all (\<lambda>l. 0 \<le> l \<and> l < 26) labels"
  proof -
    have "s \<noteq> []" "length labels = length s" "list_all (\<lambda>row. length row = 26) s"
      using s assms(2) that by (auto simp: is_matrix_def)
    moreover have "list_all (\<lambda>t. 0 \<le> t \<and> t < int 26) labels" using that by simp
    ultimately obtain l where "cross_entropy s labels = Inr l"
      using cross_entropy_returns[of s labels 26] by blast
    then show ?thesis using l[of labels] by simp
  qed
  with f s show ?thesis by blast
qed

theorem forward_result_witness:
  "wf_model 2 example_model \<and> (0::nat) < 2 \<and> is_matrix 2 1 [[68], [51]] \<and>
   (2::nat) \<noteq> 1 \<and>
   length [10, 19 :: int] = 2 \<and> list_all (\<lambda>l. 0 \<le> l \<and> l < 26) [10, 19 :: int] \<and>
   (\<exists>s l m' t'.
      forward example_model [[68], [51]] None example_torch_random = Inr (Scores s, m', t') \<and>
      is_matrix 2 26 s \<and>
      forward example_model [[68], [51]] (Some [10, 19]) example_torch_random = Inr (Loss l, m', t') \<and>
      cross_entropy s [10, 19] = Inr l)"
proof -
  have n: "(0::nat) < 2" and x: "is_matrix 2 1 [[68], [51]]"
    and tr: "training example_model \<longrightarrow> (2::nat) \<noteq> 1"
    and lb: "length [10, 19 :: int] = 2 \<and> list_all (\<lambda>l. 0 \<le> l \<and> l < 26) [10, 19 :: int]"
    by (simp_all add: is_matrix_def)
  from forward_result[OF example_model_wf(1) n x tr, of example_torch_random "[10, 19]"] lb
  have "\<exists>s l m' t'.
      forward example_model [[68], [51]] None example_torch_random = Inr (Scores s, m', t') \<and>
      is_matrix 2 26 s \<and>
      forward example_model [[68], [51]] (Some [10, 19]) example_torch_random = Inr (Loss l, m', t') \<and>
      cross_entropy s [10, 19] = Inr l"
    by blast
  moreover have "(2::nat) \<noteq> 1" by simp
  ultimately show ?thesis using example_model_wf(1) n x lb by blast
qed

text \<open>
  Claim C5, as stated, fails: on a batch of three rows the example model, of batch size 2,
  returns neither scores nor a loss but raises.
\<close>

theorem forward_wrong_batch_raises:
  "forward example_model [[68], [51], [25]] None example_torch_random = Inl RuntimeError \<and>
   forward example_model [[68], [51], [25]] (Some [10, 19, 21]) example_torch_random = Inl RuntimeError"
proof -
  have "length [[68], [51], [25 :: real]] \<noteq> 2" by simp
  from forward_batch_mismatch[OF example_model_wf(1) this]
  show ?thesis by (simp add: is_matrix_def)
qed

text \<open>
  Claim C6. The forward pass of the source is the sequence of stages of the spec, in its
  order: linear expansion, batch normalization, rectification, the 1x1 convolution, batch
  normalization, rectification, the second linear layer, batch normalization,
  rectification, dropout, and then the optional loss. In a constructed model the first
  linear layer maps 1 feature to 26, the second 26 to 26, and the kernel has size 1.
\<close>

theorem forward_follows_spec_stages:
  "forward m x y t = forward_spec m x y t \<and>
   (TxtClassifyModel_init batch_size init = Inr m0 \<longrightarrow>
      in_features (layer1 m0) = 1 \<and> out_features (layer1 m0) = 26 \<and>
      is_matrix 26 1 (linear.weight (layer1 m0)) \<and>
      in_features (layer2 m0) = 26 \<and> out_features (layer2 m0) = 26 \<and>
      is_matrix 26 26 (linear.weight (layer2 m0)) \<and>
      kernel_size (conv m0) = 1 \<and> num_features (batchnorm m0) = 26 \<and> dropout m0 = 4 / 10)"
proof -
  have "forward m x y t = forward_spec m x y t"
    by (simp add: forward_def forward_spec_def spec_stages_def optional_loss_def Let_def
        split: sum.splits prod.splits option.splits)
  moreover have "in_features (layer1 m0) = 1 \<and> out_features (layer1 m0) = 26 \<and>
      is_matrix 26 1 (linear.weight (layer1 m0)) \<and>
      in_features (layer2 m0) = 26 \<and> out_features (layer2 m0) = 26 \<and>
      is_matrix 26 26 (linear.weight (layer2 m0)) \<and>
      kernel_size (conv m0) = 1 \<and> num_features (batchnorm m0) = 26 \<and> dropout m0 = 4 / 10"
    if "TxtClassifyModel_init batch_size init = Inr m0"
  proof -
    have "0 \<le> batch_size" using that by (auto simp: TxtClassifyModel_init_def split: if_splits)
    from TxtClassifyModel_init_wf[OF this, of init] that
    have "wf_model (nat batch_size) m0" by simp
    then show ?thesis
      by (simp add: wf_model_def wf_linear_def wf_conv_def wf_batchnorm_def)
  qed
  ultimately show ?thesis by blast
qed

theorem forward_follows_spec_stages_witness:
  "TxtClassifyModel_init 2 example_init = Inr example_model \<and>
   forward example_model [[68], [51]] None example_torch_random =
     forward_spec example_model [[68], [51]] None example_torch_random \<and>
   in_features (layer1 example_model) = 1 \<and> out_features (layer1 example_model) = 26 \<and>
   in_features (layer2 example_model) = 26 \<and> out_features (layer2 example_model) = 26 \<and>
   kernel_size (conv example_model) = 1"
  using forward_follows_spec_stages[of example_model "[[68], [51]]" None example_torch_random
      2 example_init example_model] example_model_init
  by simp

section \<open>Properties of saving, loading and prediction\<close>

lemma load_state_dict_state_dict:
  assumes m: "wf_model n m" and f: "wf_model n fresh"
  shows "load_state_dict fresh (state_dict m) = Inr (m\<lparr>training := training fresh\<rparr>)"
proof -
  have keys: "list_all (\<lambda>(key, v). key \<in> set expected_keys) (state_dict m)"
    by (simp add: state_dict_def expected_keys_def)
  have cm: "in_channels (conv m) = n" "out_channels (conv m) = n" "kernel_size (conv m) = 1"
    "is_matrix n n (conv1d.weight (conv m))" "length (conv1d.bias (conv m)) = n"
    and cf: "in_channels (conv fresh) = n" "out_channels (conv fresh) = n"
    "kernel_size (conv fresh) = 1"
    using m f by (simp_all add: wf_model_def wf_conv_def)
  have l1m: "in_features (layer1 m) = 1" "out_features (layer1 m) = 26"
    "is_matrix 26 1 (linear.weight (layer1 m))" "length (linear.bias (layer1 m)) = 26"
    and l1f: "in_features (layer1 fresh) = 1" "out_features (layer1 fresh) = 26"
    using m f by (simp_all add: wf_model_def wf_linear_def)
  have l2m: "in_features (layer2 m) = 26" "out_features (layer2 m) = 26"
    "is_matrix 26 26 (linear.weight (layer2 m))" "length (linear.bias (layer2 m)) = 26"
    and l2f: "in_features (layer2 fresh) = 26" "out_features (layer2 fresh) = 26"
    using m f by (simp_all add: wf_model_def wf_linear_def)
  have bm: "num_features (batchnorm m) = 26" "eps (batchnorm m) = 1 / 100000"
    "momentum (batchnorm m) = 1 / 10"
    "length (batchnorm1d.weight (batchnorm m)) = 26" "length (batchnorm1d.bias (batchnorm m)) = 26"
    "length (running_mean (batchnorm m)) = 26" "length (running_var (batchnorm m)) = 26"
    and bf: "num_features (batchnorm fresh) = 26" "eps (batchnorm fresh) = 1 / 100000"
    "momentum (batchnorm fresh) = 1 / 10"
    using m f by (simp_all add: wf_model_def wf_batchnorm_def)
  have dm: "dropout m = 4 / 10" "dropout fresh = 4 / 10"
    using m f by (simp_all add: wf_model_def)
  have c: "(conv fresh)\<lparr>conv1d.weight := conv1d.weight (conv m), conv1d.bias := conv1d.bias (conv m)\<rparr> = conv m"
    using cm cf by (intro conv1d.equality) simp_all
  have l1: "(layer1 fresh)\<lparr>linear.weight := linear.weight (layer1 m), linear.bias := linear.bias (layer1 m)\<rparr> = layer1 m"
    using l1m l1f by (intro linear.equality) simp_all
  have l2: "(layer2 fresh)\<lparr>linear.weight := linear.weight (layer2 m), linear.bias := linear.bias (layer2 m)\<rparr> = layer2 m"
    using l2m l2f by (intro linear.equality) simp_all
  have b: "(batchnorm fresh)\<lparr>batchnorm1d.weight := batchnorm1d.weight (batchnorm m),
               batchnorm1d.bias := batchnorm1d.bias (batchnorm m),
               running_mean := running_mean (batchnorm m),
               running_var := running_var (batchnorm m),
               num_batches_tracked := num_batches_tracked (batchnorm m)\<rparr> = batchnorm m"
    using bm bf by (intro batchnorm1d.equality) simp_all
  have "load_state_dict fresh (state_dict m) =
      Inr (fresh\<lparr>conv := (conv fresh)\<lparr>conv1d.weight := conv1d.weight (conv m), conv1d.bias := conv1d.bias (conv m)\<rparr>,
              layer1 := (layer1 fresh)\<lparr>linear.weight := linear.weight (layer1 m), linear.bias := linear.bias (layer1 m)\<rparr>,
              layer2 := (layer2 fresh)\<lparr>linear.weight := linear.weight (layer2 m), linear.bias := linear.bias (layer2 m)\<rparr>,
              batchnorm := (batchnorm fresh)\<lparr>batchnorm1d.weight := batchnorm1d.weight (batchnorm m),
               batchnorm1d.bias := batchnorm1d.bias (batchnorm m),
               running_mean := running_mean (batchnorm m),
               running_var := running_var (batchnorm m),
               num_batches_tracked := num_batches_tracked (batchnorm m)\<rparr>\<rparr>)"
    unfolding load_state_dict_def
    using keys cm cf l1m l1f l2m l2f bm bf
    by (simp add: load_matrix_def load_vector_def load_scalar_def state_dict_def)
  also have "\<dots> = Inr (m\<lparr>training := training fresh\<rparr>)"
    unfolding c l1 l2 b using dm by (intro arg_cong[where f = Inr] TxtClassifyModel.equality) simp_all
  finally show ?thesis .
qed


lemma example_model25_init: "TxtClassifyModel_init 25 example_init = Inr example_model25"
  using TxtClassifyModel_init_wf[of 25 example_init] by (auto simp: example_model25_def)

lemma example_other_model_wf: "wf_model 25 example_other_model" "training example_other_model"
  using TxtClassifyModel_init_wf[of 25 "\<lambda>i. real (i mod 5) / 8"]
  by (auto simp: example_other_model_def)

lemma model_eval_training [simp]: "model_eval (m\<lparr>training := b\<rparr>) = model_eval m"
  by (simp add: model_eval_def)

lemma predict_scores_saved:
  assumes m: "wf_model 25 m" and fs: "fs model_path = Some (state_dict m)"
  shows "predict_scores model_path (words, crclabels, labels) init fs t =
           (case FloatTensor crclabels of Inl e \<Rightarrow> Inl e | Inr x \<Rightarrow>
           (case forward (model_eval m) x None t of Inl e \<Rightarrow> Inl e
            | Inr (out, model2, t') \<Rightarrow>
           (case out of Loss l \<Rightarrow> Inl TypeError | Scores result \<Rightarrow> Inr result)))"
proof -
  obtain fresh where i: "TxtClassifyModel_init 25 init = Inr fresh" and f: "wf_model 25 fresh"
    using TxtClassifyModel_init_wf[of 25 init] by auto
  have l: "load_state_dict fresh (state_dict m) = Inr (m\<lparr>training := training fresh\<rparr>)"
    using m f by (rule load_state_dict_state_dict)
  show ?thesis using i l fs
    by (simp add: predict_scores_def torch_load_def split: sum.splits)
qed

lemma softmax_shape: "is_matrix r c x \<Longrightarrow> is_matrix r c (Softmax x)"
  by (simp add: is_matrix_def Softmax_def softmax_row_def list_all_iff)

lemma predict_loop_returns:
  assumes "list_all (\<lambda>(word, pred, label). pred \<noteq> [] \<and> length pred \<le> 26 \<and> 0 \<le> label \<and> label < 26) zs"
  shows "\<exists>out. predict_loop zs printed = Inr (printed @ out) \<and> length out = length zs"
  using assms
proof (induction zs arbitrary: printed)
  case Nil
  then show ?case by simp
next
  case (Cons z zs)
  obtain word pred label where z: "z = (word, pred, label)" by (cases z) auto
  have p: "pred \<noteq> []" "length pred \<le> 26" "0 \<le> label" "label < 26"
    using Cons.prems z by simp_all
  let ?k = "length (takeWhile (\<lambda>a. a \<noteq> Max (set pred)) pred)"
  have k: "?k \<le> 26" using length_takeWhile_le[of "\<lambda>a. a \<noteq> Max (set pred)" pred] p(2) by linarith
  have a: "np_argmax pred = Inr ?k" using p(1) by (simp add: np_argmax_def)
  have c1: "chr (int ?k + ord CHR ''a'') = Inr (char_of (int ?k + 97))"
    using k by (simp add: chr_def ord_def)
  have c2: "chr (label + ord CHR ''a'') = Inr (char_of (label + 97))"
    using p(3,4) by (simp add: chr_def ord_def)
  have "list_all (\<lambda>(word, pred, label). pred \<noteq> [] \<and> length pred \<le> 26 \<and> 0 \<le> label \<and> label < 26) zs"
    using Cons.prems by simp
  from Cons.IH[OF this, of "printed @ [(word, char_of (int ?k + 97), pred ! ?k, char_of (label + 97))]"]
  obtain out where
    "predict_loop zs (printed @ [(word, char_of (int ?k + 97), pred ! ?k, char_of (label + 97))]) =
       Inr ((printed @ [(word, char_of (int ?k + 97), pred ! ?k, char_of (label + 97))]) @ out)"
    "length out = length zs"
    by blast
  then show ?case using z a c1 c2
    by (intro exI[of _ "(word, char_of (int ?k + 97), pred ! ?k, char_of (label + 97)) # out"]) simp
qed

lemma script_returns:
  assumes m: "wf_model 25 m" and fs: "fs ''txtclassify.pt'' = Some (state_dict m)"
  shows "\<exists>printed. script init fs g t = Inr printed \<and> length printed = 25"
proof -
  obtain ws ls g' where
    bw: "build_words 25 10 g = Inr ((ws, map build_crc_label ws, ls), g')"
    and len: "length ws = 25" "length ls = 25"
    and lab: "list_all (\<lambda>l. 0 \<le> l \<and> l < 26) ls"
    using build_words_returns[of 10 25 g] by auto
  have "list_all (\<lambda>c. length c = 1) (map build_crc_label ws)"
    by (simp add: list_all_iff build_crc_label_def)
  from FloatTensor_features[OF this] len
  obtain x where ft: "FloatTensor (map build_crc_label ws) = Inr x" and x: "is_matrix 25 1 x"
    by auto
  have wf': "wf_model 25 (model_eval m)" using m by (simp add: wf_model_def model_eval_def)
  have tr: "training (model_eval m) \<longrightarrow> (25::nat) \<noteq> 1" by (simp add: model_eval_def)
  obtain s m' t' where fw: "forward (model_eval m) x None t = Inr (Scores s, m', t')"
    and s: "is_matrix 25 26 s"
    using forward_returns[OF wf' _ x tr, of t] by auto
  have ps: "predict_scores ''txtclassify.pt'' (ws, map build_crc_label ws, ls) init fs t = Inr s"
    using predict_scores_saved[where m = m and fs = fs and model_path = "''txtclassify.pt''", OF m fs]
      ft fw
    by simp
  have sm: "is_matrix 25 26 (Softmax s)" using s by (rule softmax_shape)
  have "list_all (\<lambda>(word, pred, label). pred \<noteq> [] \<and> length pred \<le> 26 \<and> 0 \<le> label \<and> label < 26)
          (zip ws (zip (Softmax s) ls))"
  proof -
    have "pred \<noteq> [] \<and> length pred \<le> 26 \<and> 0 \<le> label \<and> label < 26"
      if "(word, pred, label) \<in> set (zip ws (zip (Softmax s) ls))" for word pred label
    proof -
      have "(pred, label) \<in> set (zip (Softmax s) ls)" using that by (rule set_zip_rightD)
      then have "pred \<in> set (Softmax s)" "label \<in> set ls"
        by (auto dest: set_zip_leftD set_zip_rightD)
      then show ?thesis using sm lab by (auto simp: is_matrix_def list_all_iff)
    qed
    then show ?thesis by (auto simp: list_all_iff)
  qed
  from predict_loop_returns[OF this, of "[]"]
  obtain out where "predict_loop (zip ws (zip (Softmax s) ls)) [] = Inr out"
    "length out = length (zip ws (zip (Softmax s) ls))"
    by auto
  moreover have "length (zip ws (zip (Softmax s) ls)) = 25"
    using len sm by (simp add: is_matrix_def)
  ultimately show ?thesis using bw ps by (simp add: script_def predict_def)
qed

lemma fresh_buffers:
  assumes "TxtClassifyModel_init batch_size init = Inr m"
  shows "running_mean (batchnorm m) = replicate 26 0"
    and "running_var (batchnorm m) = replicate 26 1"
    and "num_batches_tracked (batchnorm m) = 0"
  using assms by (auto simp: TxtClassifyModel_init_def Let_def split: if_splits)

lemma example_trained_wf: "wf_model 25 example_trained" "\<not> training example_trained"
  using example_other_model_wf(1)
  by (simp_all add: example_trained_def wf_model_def wf_batchnorm_def)

lemma example_trained_buffers:
  "running_mean (batchnorm example_trained) = replicate 26 (1 / 2)"
  "running_var (batchnorm example_trained) = replicate 26 (9 / 4)"
  "num_batches_tracked (batchnorm example_trained) = 300000"
  by (simp_all add: example_trained_def)

lemma example_batch25_shape:
  "FloatTensor example_features25 = Inr example_batch25" "is_matrix 25 1 example_batch25"
  "length example_features25 = 25" "list_all (\<lambda>c. length c = 1) example_features25"
proof -
  show l: "list_all (\<lambda>c. length c = 1) example_features25"
    and "length example_features25 = 25"
    by (simp_all add: example_features25_def list_all_iff)
  from FloatTensor_features[OF l]
  show "FloatTensor example_features25 = Inr example_batch25"
    by (auto simp: FloatTensor_def example_batch25_def split: if_splits)
  show "is_matrix 25 1 example_batch25"
    by (simp add: example_batch25_def example_features25_def is_matrix_def list_all_iff)
qed

text \<open>
  Claim C8. Saving the state of a model and loading the saved file into a freshly
  constructed model of the same batch size gives, once both are in evaluation mode, the
  same model. On every batch the forward pass of the two agrees, and on a batch of as
  many one-feature rows as the batch size both return the same matrix of scores. The
  scores that \<open>predict\<close> computes from the saved weights of a model of batch size 25 are
  those of the original in evaluation mode.
\<close>

theorem save_load_roundtrip:
  assumes "wf_model n m" and "TxtClassifyModel_init (int n) init = Inr fresh"
  shows "\<exists>m'. torch_load path (torch_save (state_dict m) path fs) = Inr (state_dict m) \<and>
           load_state_dict fresh (state_dict m) = Inr m' \<and>
           model_eval m' = model_eval m \<and>
           forward (model_eval m') x None t = forward (model_eval m) x None t \<and>
           (0 < n \<and> is_matrix n 1 x \<longrightarrow>
              (\<exists>s. forward (model_eval m') x None t = Inr (Scores s, model_eval m, t) \<and>
                   forward (model_eval m) x None t = Inr (Scores s, model_eval m, t) \<and>
                   is_matrix n 26 s)) \<and>
           (n = 25 \<longrightarrow>
              predict_scores path (words, crclabels, labels) init
                (torch_save (state_dict m) path fs) t =
              (case FloatTensor crclabels of Inl e \<Rightarrow> Inl e | Inr x \<Rightarrow>
              (case forward (model_eval m) x None t of Inl e \<Rightarrow> Inl e
               | Inr (out, model2, t') \<Rightarrow>
              (case out of Loss l \<Rightarrow> Inl TypeError | Scores result \<Rightarrow> Inr result)))) \<and>
           (n = 25 \<and> FloatTensor crclabels = Inr x \<and> is_matrix 25 1 x \<longrightarrow>
              (\<exists>s. predict_scores path (words, crclabels, labels) init
                     (torch_save (state_dict m) path fs) t = Inr s \<and>
                   forward (model_eval m) x None t = Inr (Scores s, model_eval m, t)))"
proof -
  have f: "wf_model n fresh"
    using TxtClassifyModel_init_wf[of "int n" init] assms(2) by simp
  have l: "load_state_dict fresh (state_dict m) = Inr (m\<lparr>training := training fresh\<rparr>)"
    using assms(1) f by (rule load_state_dict_state_dict)
  have s: "torch_load path (torch_save (state_dict m) path fs) = Inr (state_dict m)"
    by (simp add: torch_load_def torch_save_def)
  have p: "predict_scores path (words, crclabels, labels) init
                (torch_save (state_dict m) path fs) t =
              (case FloatTensor crclabels of Inl e \<Rightarrow> Inl e | Inr x \<Rightarrow>
              (case forward (model_eval m) x None t of Inl e \<Rightarrow> Inl e
               | Inr (out, model2, t') \<Rightarrow>
              (case out of Loss l \<Rightarrow> Inl TypeError | Scores result \<Rightarrow> Inr result)))"
    if "n = 25"
    using predict_scores_saved[where m = m and fs = "torch_save (state_dict m) path fs"
        and model_path = path] assms(1) that
    by (simp add: torch_save_def)
  have sc: "\<exists>s. forward (model_eval m) x None t = Inr (Scores s, model_eval m, t) \<and>
      is_matrix n 26 s"
    if n0: "0 < n" and xm: "is_matrix n 1 x"
  proof -
    have tr: "training (model_eval m) \<longrightarrow> n \<noteq> 1" by (simp add: model_eval_def)
    obtain s m2 t2 where "forward (model_eval m) x None t = Inr (Scores s, m2, t2)"
      "is_matrix n 26 s" "\<not> training (model_eval m) \<longrightarrow> m2 = model_eval m \<and> t2 = t"
      using forward_returns[OF model_eval_wf[OF assms(1)] n0 xm tr, of t] by blast
    then show ?thesis by (auto simp: model_eval_def)
  qed
  have q: "\<exists>s. predict_scores path (words, crclabels, labels) init
                     (torch_save (state_dict m) path fs) t = Inr s \<and>
                   forward (model_eval m) x None t = Inr (Scores s, model_eval m, t)"
    if h: "n = 25 \<and> FloatTensor crclabels = Inr x \<and> is_matrix 25 1 x"
  proof -
    obtain s where "forward (model_eval m) x None t = Inr (Scores s, model_eval m, t)"
      using sc h by auto
    then show ?thesis using p h by simp
  qed
  show ?thesis using l s p sc q
    by (intro exI[of _ "m\<lparr>training := training fresh\<rparr>"]) simp
qed

theorem save_load_roundtrip_witness:
  "wf_model 25 example_trained \<and>
   TxtClassifyModel_init (int 25) example_init = Inr example_model25 \<and>
   running_mean (batchnorm example_model25) = replicate 26 0 \<and>
   running_mean (batchnorm example_trained) = replicate 26 (1 / 2) \<and>
   num_batches_tracked (batchnorm example_model25) = 0 \<and>
   num_batches_tracked (batchnorm example_trained) = 300000 \<and>
   (0::nat) < 25 \<and> is_matrix 25 1 example_batch25 \<and>
   FloatTensor example_features25 = Inr example_batch25 \<and>
   (\<exists>m' s.
      torch_load ''txtclassify.pt''
        (torch_save (state_dict example_trained) ''txtclassify.pt'' Map.empty) =
      Inr (state_dict example_trained) \<and>
      load_state_dict example_model25 (state_dict example_trained) = Inr m' \<and>
      model_eval m' = model_eval example_trained \<and>
      forward (model_eval m') example_batch25 None example_torch_random =
        Inr (Scores s, model_eval example_trained, example_torch_random) \<and>
      forward (model_eval example_trained) example_batch25 None example_torch_random =
        Inr (Scores s, model_eval example_trained, example_torch_random) \<and>
      is_matrix 25 26 s \<and>
      predict_scores ''txtclassify.pt'' (replicate 25 ''a'', example_features25, replicate 25 0)
        example_init (torch_save (state_dict example_trained) ''txtclassify.pt'' Map.empty)
        example_torch_random = Inr s)"
proof -
  have i: "TxtClassifyModel_init (int 25) example_init = Inr example_model25"
    using example_model25_init by simp
  have n: "(0::nat) < 25" by simp
  note b = example_batch25_shape(1,2)
  note fr = fresh_buffers(1,3)[OF example_model25_init]
  note tb = example_trained_buffers(1,3)
  from save_load_roundtrip[OF example_trained_wf(1) i,
      of "''txtclassify.pt''" Map.empty example_batch25 example_torch_random
        "replicate 25 ''a''" example_features25 "replicate 25 0"]
  obtain m' where m': "torch_load ''txtclassify.pt''
        (torch_save (state_dict example_trained) ''txtclassify.pt'' Map.empty) =
      Inr (state_dict example_trained)"
    "load_state_dict example_model25 (state_dict example_trained) = Inr m'"
    "model_eval m' = model_eval example_trained"
    and sc: "0 < (25::nat) \<and> is_matrix 25 1 example_batch25 \<longrightarrow>
       (\<exists>s. forward (model_eval m') example_batch25 None example_torch_random =
              Inr (Scores s, model_eval example_trained, example_torch_random) \<and>
            forward (model_eval example_trained) example_batch25 None example_torch_random =
              Inr (Scores s, model_eval example_trained, example_torch_random) \<and>
            is_matrix 25 26 s)"
    and ps: "(25::nat) = 25 \<and> FloatTensor example_features25 = Inr example_batch25 \<and>
        is_matrix 25 1 example_batch25 \<longrightarrow>
       (\<exists>s. predict_scores ''txtclassify.pt''
              (replicate 25 ''a'', example_features25, replicate 25 0) example_init
              (torch_save (state_dict example_trained) ''txtclassify.pt'' Map.empty)
              example_torch_random = Inr s \<and>
            forward (model_eval example_trained) example_batch25 None example_torch_random =
              Inr (Scores s, model_eval example_trained, example_torch_random))"
    by blast
  from sc n b obtain s where s:
    "forward (model_eval m') example_batch25 None example_torch_random =
       Inr (Scores s, model_eval example_trained, example_torch_random)"
    "forward (model_eval example_trained) example_batch25 None example_torch_random =
       Inr (Scores s, model_eval example_trained, example_torch_random)"
    "is_matrix 25 26 s"
    by blast
  from ps b s(2) have
    "predict_scores ''txtclassify.pt''
       (replicate 25 ''a'', example_features25, replicate 25 0) example_init
       (torch_save (state_dict example_trained) ''txtclassify.pt'' Map.empty)
       example_torch_random = Inr s"
    by auto
  with m' s have
    "\<exists>m' s.
      torch_load ''txtclassify.pt''
        (torch_save (state_dict example_trained) ''txtclassify.pt'' Map.empty) =
      Inr (state_dict example_trained) \<and>
      load_state_dict example_model25 (state_dict example_trained) = Inr m' \<and>
      model_eval m' = model_eval example_trained \<and>
      forward (model_eval m') example_batch25 None example_torch_random =
        Inr (Scores s, model_eval example_trained, example_torch_random) \<and>
      forward (model_eval example_trained) example_batch25 None example_torch_random =
        Inr (Scores s, model_eval example_trained, example_torch_random) \<and>
      is_matrix 25 26 s \<and>
      predict_scores ''txtclassify.pt'' (replicate 25 ''a'', example_features25, replicate 25 0)
        example_init (torch_save (state_dict example_trained) ''txtclassify.pt'' Map.empty)
        example_torch_random = Inr s"
    by blast
  then show ?thesis
    using example_trained_wf(1) i fr tb n b by (intro conjI) assumption+
qed

text \<open>
  Claim C10, as amended. A model of batch size \<open>n\<close> raises on every batch whose number
  of rows is not \<open>n\<close>: the shape mismatch of the convolution or of the first linear
  layer, a RuntimeError, except in training mode on a single row of one feature, where
  the batch normalization that comes before the convolution raises ValueError. So its
  forward pass returns only on batches of \<open>n\<close> rows. \<open>evaluate\<close>, called with the batch
  size as sample size, returns, and so does the entry point, whose \<open>predict\<close> runs a
  model of batch size 25 on 25 samples.
\<close>

theorem forward_requires_batch_size:
  assumes "wf_model n m"
  shows "(length x \<noteq> n \<longrightarrow>
            forward m x y t =
              Inl (if training m \<and> is_matrix 1 1 x then ValueError else RuntimeError)) \<and>
         (\<forall>r. forward m x y t = Inr r \<longrightarrow> length x = n) \<and>
         (0 < n \<and> 2 \<le> word_dim \<longrightarrow>
            (\<exists>acc g'. evaluate m (int n) word_dim g t = Inr (acc, model_eval m, g', t))) \<and>
         (n = 25 \<and> fs ''txtclassify.pt'' = Some (state_dict m) \<longrightarrow>
            (\<exists>printed. script init fs g t = Inr printed \<and> length printed = 25))"
proof -
  have a: "forward m x y t = Inl (if training m \<and> is_matrix 1 1 x then ValueError else RuntimeError)"
    if "length x \<noteq> n"
    using assms that by (rule forward_batch_mismatch)
  then have b: "length x = n" if "forward m x y t = Inr r" for r
    using that by (cases "length x = n") auto
  have c: "\<exists>acc g'. evaluate m (int n) word_dim g t = Inr (acc, model_eval m, g', t)"
    if "0 < n \<and> 2 \<le> word_dim"
  proof -
    have n: "0 < n" and wd: "2 \<le> word_dim" using that by simp_all
    obtain correct wrong g' where
      ec: "evaluate_counts m (int n) word_dim g t = Inr ((correct, wrong), model_eval m, g', t)"
      using evaluate_counts_returns[OF assms n wd, of g t] by auto
    have "correct + wrong \<noteq> 0" using evaluate_counts_sum[OF assms ec] n by simp
    then show ?thesis using ec by (simp add: evaluate_def true_divide_def)
  qed
  have d: "\<exists>printed. script init fs g t = Inr printed \<and> length printed = 25"
    if "n = 25 \<and> fs ''txtclassify.pt'' = Some (state_dict m)"
    using script_returns[of m fs init g t] assms that by simp
  from a b c d show ?thesis by blast
qed

theorem forward_requires_batch_size_witness:
  "wf_model 25 example_other_model \<and> length [[68], [51 :: real]] \<noteq> 25 \<and>
   forward example_other_model [[68], [51]] None example_torch_random = Inl RuntimeError \<and>
   (\<exists>acc g'. evaluate example_other_model (int 25) 10 example_np_random example_torch_random =
      Inr (acc, model_eval example_other_model, g', example_torch_random)) \<and>
   (\<exists>printed.
      script example_init
        (torch_save (state_dict example_other_model) ''txtclassify.pt'' Map.empty)
        example_np_random example_torch_random = Inr printed \<and>
      length printed = 25)"
proof -
  have f: "torch_save (state_dict example_other_model) ''txtclassify.pt'' Map.empty ''txtclassify.pt'' =
      Some (state_dict example_other_model)"
    by (simp add: torch_save_def)
  have l: "length [[68], [51 :: real]] \<noteq> 25" by simp
  have i: "\<not> is_matrix 1 1 [[68], [51 :: real]]" by (simp add: is_matrix_def)
  from forward_requires_batch_size[OF example_other_model_wf(1),
      of "[[68], [51]]" None example_torch_random 10 example_np_random
        "torch_save (state_dict example_other_model) ''txtclassify.pt'' Map.empty" example_init]
    f l i example_other_model_wf(1)
  show ?thesis by simp
qed

text \<open>
  Claim C10, as stated, fails: the example model, of batch size 2 and in training mode,
  does not reach the shape mismatch on a batch of one row; the batch normalization
  raises ValueError before.
\<close>

theorem forward_single_row_value_error:
  "training example_model \<and> in_channels (conv example_model) = 2 \<and>
   length [[68 :: real]] = 1 \<and>
   forward example_model [[68]] None example_torch_random = Inl ValueError \<and>
   forward example_model [[68]] None example_torch_random \<noteq> Inl RuntimeError"
proof -
  have l: "length [[68 :: real]] \<noteq> 2" and i: "is_matrix 1 1 [[68 :: real]]"
    by (simp_all add: is_matrix_def)
  have "forward example_model [[68]] None example_torch_random = Inl ValueError"
    using forward_batch_mismatch[OF example_model_wf(1) l, of None example_torch_random]
      i example_model_wf(2)
    by simp
  moreover have "in_channels (conv example_model) = 2"
    using example_model_wf(1) by (simp add: wf_model_def wf_conv_def)
  ultimately show ?thesis using example_model_wf(2) by simp
qed

section \<open>Properties of the training driver\<close>

lemma set_parameters_wf:
  assumes "wf_model n m" "wf_parameters n ps"
  shows "wf_model n (set_parameters m ps)" "training (set_parameters m ps) = training m"
  using assms
  by (simp_all add: wf_model_def wf_parameters_def set_parameters_def wf_conv_def wf_linear_def
      wf_batchnorm_def)

lemma model_parameters_wf: "wf_model n m \<Longrightarrow> wf_parameters n (model_parameters m)"
  by (simp add: wf_model_def wf_parameters_def model_parameters_def wf_conv_def wf_linear_def
      wf_batchnorm_def)

lemma example_update_shape_preserving: "shape_preserving n example_update"
proof -
  have "wf_parameters n (snd (example_update opt m x y t))" if "wf_model n m" for opt m x y t
    using model_parameters_wf[OF that]
    by (simp add: example_update_def wf_parameters_def model_parameters_def)
  then show ?thesis by (simp add: shape_preserving_def)
qed

lemma py_slice_batch:
  assumes "0 \<le> b"
  shows "py_slice xs (int i * b) ((int i + 1) * b) = take (nat b) (drop (i * nat b) xs)"
proof -
  have "nat (int i * b) = i * nat b" using assms by (simp add: nat_mult_distrib)
  moreover have "nat ((int i + 1) * b) = (i + 1) * nat b"
  proof -
    have "(int i + 1) * b = int (i + 1) * b" by simp
    then show ?thesis using assms by (simp only: nat_mult_distrib nat_int) 
  qed
  ultimately show ?thesis by (simp add: py_slice_def)
qed

lemma concat_batches:
  "concat (map (\<lambda>i. take b (drop (i * b) xs)) [0..<k]) = take (k * b) xs"
proof (induction k)
  case 0
  then show ?case by simp
next
  case (Suc k)
  have "take (Suc k * b) xs = take (k * b) xs @ take b (drop (k * b) xs)"
    by (simp add: take_add[symmetric] add.commute)
  then show ?case using Suc by simp
qed

lemma list_all_take_drop: "list_all P xs \<Longrightarrow> list_all P (take a (drop b xs))"
  by (auto simp: list_all_iff dest!: in_set_takeD in_set_dropD)

lemma evaluate_returns:
  assumes wf: "wf_model n m" and n: "0 < n" and wd: "2 \<le> word_dim"
  shows "\<exists>acc g'. evaluate m (int n) word_dim g t = Inr (acc, model_eval m, g', t) \<and>
           0 \<le> acc \<and> acc \<le> 1 \<and> entropy g' = entropy g \<and> cursor g + 2 * n \<le> cursor g'"
proof -
  obtain correct wrong g' where
    ec: "evaluate_counts m (int n) word_dim g t = Inr ((correct, wrong), model_eval m, g', t)"
    and g': "entropy g' = entropy g" "cursor g + 2 * n \<le> cursor g'"
    using evaluate_counts_returns[OF wf n wd, of g t] by auto
  have s: "correct + wrong = int n" "0 \<le> correct" "0 \<le> wrong"
    using evaluate_counts_sum[OF wf ec] by simp_all
  have "evaluate m (int n) word_dim g t =
      Inr (real_of_int correct / real_of_int (correct + wrong), model_eval m, g', t)"
    using ec s n by (simp add: evaluate_def true_divide_def)
  moreover have "0 \<le> real_of_int correct / real_of_int (correct + wrong)"
    using s by simp
  moreover have "real_of_int correct / real_of_int (correct + wrong) \<le> 1"
  proof -
    have "0 < real_of_int (correct + wrong)" using s n by simp
    moreover have "real_of_int correct \<le> real_of_int (correct + wrong)" using s by simp
    ultimately show ?thesis by (simp add: divide_le_eq)
  qed
  ultimately show ?thesis using g' by blast
qed

lemma set_parameters_installs:
  "model_parameters (set_parameters m ps) = ps"
  "running_mean (batchnorm (set_parameters m ps)) = running_mean (batchnorm m)"
  "running_var (batchnorm (set_parameters m ps)) = running_var (batchnorm m)"
  "num_batches_tracked (batchnorm (set_parameters m ps)) = num_batches_tracked (batchnorm m)"
  by (simp_all add: model_parameters_def set_parameters_def)

lemma train_batch_step:
  assumes wf: "wf_model n (current_model s)" and tr: "training (current_model s)"
    and n: "2 \<le> n" and sp: "shape_preserving n update"
    and i: "(i + 1) * n \<le> length tcs" and len: "length tls = length tcs"
    and rows: "list_all (\<lambda>c. length c = 1) tcs"
    and labs: "list_all (\<lambda>l. 0 \<le> l \<and> l < 26) tls"
  shows "\<exists>x loss m' t' s'.
           x = map (map real_of_int) (take n (drop (i * n) tcs)) \<and>
           is_matrix n 1 x \<and>
           FloatTensor (take n (drop (i * n) tcs)) = Inr x \<and>
           forward (current_model s) x (Some (take n (drop (i * n) tls))) (torch_rng s) =
             Inr (Loss loss, m', t') \<and>
           wf_model n m' \<and> training m' \<and>
           train_batch update (int n) tcs tls i s = Inr s' \<and>
           watch_loss s' = watch_loss s @ [loss] \<and>
           current_model s' =
             set_parameters m'
               (snd (update (optim s) (current_model s) x (take n (drop (i * n) tls)) (torch_rng s))) \<and>
           optim s' =
             \<lparr>lr = lr (optim s), steps = Suc (steps (optim s)),
              moments =
                fst (update (optim s) (current_model s) x (take n (drop (i * n) tls)) (torch_rng s))\<rparr> \<and>
           torch_rng s' = t' \<and> np_rng s' = np_rng s \<and> epoch_log s' = epoch_log s \<and>
           wf_model n (current_model s') \<and> training (current_model s')"
proof -
  let ?cs = "take n (drop (i * n) tcs)" and ?ls = "take n (drop (i * n) tls)"
  have sl: "py_slice tcs (int i * int n) ((int i + 1) * int n) = ?cs"
    "py_slice tls (int i * int n) ((int i + 1) * int n) = ?ls"
    using py_slice_batch[of "int n" _ i] by simp_all
  have lc: "length ?cs = n" "length ?ls = n" using i len by simp_all
  have "list_all (\<lambda>c. length c = 1) ?cs" using rows by (rule list_all_take_drop)
  from FloatTensor_features[OF this] lc
  obtain x where ft: "FloatTensor ?cs = Inr x" and x: "is_matrix n 1 x" by auto
  have xv: "x = map (map real_of_int) ?cs"
    using ft by (simp add: FloatTensor_def split: if_splits)
  have ll: "list_all (\<lambda>l. 0 \<le> l \<and> l < 26) ?ls" using labs by (rule list_all_take_drop)
  have n0: "0 < n" and n1: "training (current_model s) \<longrightarrow> n \<noteq> 1" using n by simp_all
  obtain sc m' t' where
    f0: "forward (current_model s) x None (torch_rng s) = Inr (Scores sc, m', t')"
    and sc: "is_matrix n 26 sc" and wf': "wf_model n m'"
    and tr': "training m' = training (current_model s)"
    and fl: "\<And>labels. forward (current_model s) x (Some labels) (torch_rng s) =
              (case cross_entropy sc labels of
                 Inl e \<Rightarrow> Inl e
               | Inr l \<Rightarrow> Inr (Loss l, m', t'))"
    using forward_returns[OF wf n0 x n1, of "torch_rng s"] by blast
  have "sc \<noteq> []" "length ?ls = length sc" "list_all (\<lambda>row. length row = 26) sc"
    using sc n0 lc by (auto simp: is_matrix_def)
  moreover have "list_all (\<lambda>t. 0 \<le> t \<and> t < int 26) ?ls" using ll by simp
  ultimately obtain loss where ce: "cross_entropy sc ?ls = Inr loss"
    using cross_entropy_returns[of sc ?ls 26] by blast
  have fw: "forward (current_model s) x (Some ?ls) (torch_rng s) = Inr (Loss loss, m', t')"
    using fl[of ?ls] ce by simp
  let ?u = "update (optim s) (current_model s) x ?ls (torch_rng s)"
  have ps: "wf_parameters n (snd ?u)"
    using sp wf by (simp add: shape_preserving_def)
  let ?s' = "s\<lparr>current_model := set_parameters m' (snd ?u),
               optim := (optim s)\<lparr>steps := Suc (steps (optim s)), moments := fst ?u\<rparr>,
               torch_rng := t',
               watch_loss := watch_loss s @ [loss]\<rparr>"
  have tb: "train_batch update (int n) tcs tls i s = Inr ?s'"
    using sl ft fw by (simp add: train_batch_def LongTensor_def split: prod.splits)
  have w': "wf_model n (current_model ?s')" "training (current_model ?s')"
    using set_parameters_wf[OF wf' ps] tr tr' by simp_all
  have op: "optim ?s' = \<lparr>lr = lr (optim s), steps = Suc (steps (optim s)), moments = fst ?u\<rparr>"
    by (cases "optim s") simp
  have tm: "training m'" using tr tr' by simp
  show ?thesis
    apply (intro exI[of _ x] exI[of _ loss] exI[of _ m'] exI[of _ t'] exI[of _ ?s'] conjI)
                  apply (rule xv)
                 apply (rule x)
                apply (rule ft)
               apply (rule fw)
              apply (rule wf')
             apply (rule tm)
            apply (rule tb)
           apply simp
          apply simp
         apply (rule op)
        apply simp
       apply simp
      apply simp
     apply (rule w')
    apply (rule w')
    done
qed

lemma train_batch_returns:
  assumes wf: "wf_model n (current_model s)" and tr: "training (current_model s)"
    and n: "2 \<le> n" and sp: "shape_preserving n update"
    and i: "(i + 1) * n \<le> length tcs" and len: "length tls = length tcs"
    and rows: "list_all (\<lambda>c. length c = 1) tcs"
    and labs: "list_all (\<lambda>l. 0 \<le> l \<and> l < 26) tls"
  shows "\<exists>s'. train_batch update (int n) tcs tls i s = Inr s' \<and>
           wf_model n (current_model s') \<and> training (current_model s') \<and>
           steps (optim s') = Suc (steps (optim s)) \<and>
           length (watch_loss s') = Suc (length (watch_loss s)) \<and>
           np_rng s' = np_rng s \<and> epoch_log s' = epoch_log s"
proof -
  from train_batch_step[OF assms]
  obtain loss s' where "train_batch update (int n) tcs tls i s = Inr s'"
    "watch_loss s' = watch_loss s @ [loss]"
    "steps (optim s') = Suc (steps (optim s))"
    "np_rng s' = np_rng s" "epoch_log s' = epoch_log s"
    "wf_model n (current_model s')" "training (current_model s')"
    by auto
  then show ?thesis by (intro exI[of _ s']) simp
qed

lemma train_batches_return:
  assumes n: "2 \<le> n" and sp: "shape_preserving n update"
    and len: "length tls = length tcs"
    and rows: "list_all (\<lambda>c. length c = 1) tcs"
    and labs: "list_all (\<lambda>l. 0 \<le> l \<and> l < 26) tls"
  shows "wf_model n (current_model s) \<Longrightarrow> training (current_model s) \<Longrightarrow>
         list_all (\<lambda>i. (i + 1) * n \<le> length tcs) batch_indices \<Longrightarrow>
         \<exists>s'. for_each (train_batch update (int n) tcs tls) batch_indices s = Inr s' \<and>
           wf_model n (current_model s') \<and> training (current_model s') \<and>
           steps (optim s') = steps (optim s) + length batch_indices \<and>
           length (watch_loss s') = length (watch_loss s) + length batch_indices \<and>
           np_rng s' = np_rng s \<and> epoch_log s' = epoch_log s"
proof (induction batch_indices arbitrary: s)
  case Nil
  then show ?case by simp
next
  case (Cons i rest)
  have i: "(i + 1) * n \<le> length tcs" and r: "list_all (\<lambda>i. (i + 1) * n \<le> length tcs) rest"
    using Cons.prems(3) by simp_all
  obtain s1 where b: "train_batch update (int n) tcs tls i s = Inr s1"
    and s1: "wf_model n (current_model s1)" "training (current_model s1)"
      "steps (optim s1) = Suc (steps (optim s))"
      "length (watch_loss s1) = Suc (length (watch_loss s))"
      "np_rng s1 = np_rng s" "epoch_log s1 = epoch_log s"
    using train_batch_returns[OF Cons.prems(1,2) n sp i len rows labs] by blast
  obtain s' where "for_each (train_batch update (int n) tcs tls) rest s1 = Inr s'"
    "wf_model n (current_model s')" "training (current_model s')"
    "steps (optim s') = steps (optim s1) + length rest"
    "length (watch_loss s') = length (watch_loss s1) + length rest"
    "np_rng s' = np_rng s1" "epoch_log s' = epoch_log s1"
    using Cons.IH[OF s1(1,2) r] by blast
  then show ?case using b s1 by (intro exI[of _ s']) simp
qed


lemma batch_indices_in_range:
  assumes "0 < n" "length tcs = nat train_sample"
  shows "list_all (\<lambda>i. (i + 1) * n \<le> length tcs) [0..<nat (train_sample div int n)]"
proof -
  have "(i + 1) * n \<le> length tcs" if "i < nat (train_sample div int n)" for i
  proof -
    have b: "0 < int n" using assms(1) by simp
    have p: "0 < train_sample div int n" using that by simp
    then have "int n \<le> train_sample" using pos_imp_zdiv_pos_iff[OF b, of train_sample] by simp
    then have ts: "0 \<le> train_sample" by simp
    have "int (i + 1) \<le> train_sample div int n" using that by simp
    then have "int (i + 1) * int n \<le> (train_sample div int n) * int n"
      using b by (intro mult_right_mono) simp_all
    also have "\<dots> \<le> train_sample"
    proof -
      have "int n * (train_sample div int n) + train_sample mod int n = train_sample"
        by (rule mult_div_mod_eq)
      moreover have "0 \<le> train_sample mod int n" using b by (rule pos_mod_sign)
      ultimately have "int n * (train_sample div int n) \<le> train_sample" by linarith
      then show ?thesis by (simp add: mult.commute)
    qed
    finally have "int ((i + 1) * n) \<le> train_sample" by (simp add: algebra_simps)
    then have "(i + 1) * n \<le> nat train_sample" by (simp only: le_nat_iff[OF ts])
    then show ?thesis using assms(2) by simp
  qed
  then show ?thesis by (simp add: list_all_iff)
qed


lemma train_epoch_returns:
  assumes wf: "wf_model n (current_model s)" and n: "2 \<le> n" and wd: "2 \<le> word_dim"
    and sp: "shape_preserving n update"
    and len: "length tcs = nat train_sample" "length tls = length tcs"
    and rows: "list_all (\<lambda>c. length c = 1) tcs"
    and labs: "list_all (\<lambda>l. 0 \<le> l \<and> l < 26) tls"
  shows "\<exists>s' acc. train_epoch update word_dim (int n) train_sample tcs tls epoch s = Inr s' \<and>
           wf_model n (current_model s') \<and>
           steps (optim s') = steps (optim s) + nat (train_sample div int n) \<and>
           length (watch_loss s') = nat (train_sample div int n) \<and>
           epoch_log s' = epoch_log s @ [(acc, np_mean (watch_loss s'))] \<and>
           0 \<le> acc \<and> acc \<le> 1 \<and>
           entropy (np_rng s') = entropy (np_rng s) \<and>
           cursor (np_rng s) + 2 * n \<le> cursor (np_rng s')"
proof -
  let ?k = "nat (train_sample div int n)"
  let ?s0 = "s\<lparr>current_model := model_train (current_model s), watch_loss := []\<rparr>"
  have n0: "0 < n" using n by simp
  have fd: "floor_divide train_sample (int n) = Inr (train_sample div int n)"
    using n0 by (simp add: floor_divide_def)
  have w0: "wf_model n (current_model ?s0)" "training (current_model ?s0)"
    using model_train_wf[OF wf] by (simp_all add: model_train_def)
  have idx: "list_all (\<lambda>i. (i + 1) * n \<le> length tcs) [0..<?k]"
    using n0 len(1) by (rule batch_indices_in_range)
  obtain s1 where b: "for_each (train_batch update (int n) tcs tls) [0..<?k] ?s0 = Inr s1"
    and s1: "wf_model n (current_model s1)"
      "steps (optim s1) = steps (optim ?s0) + length [0..<?k]"
      "length (watch_loss s1) = length (watch_loss ?s0) + length [0..<?k]"
      "np_rng s1 = np_rng ?s0" "epoch_log s1 = epoch_log ?s0"
    using train_batches_return[OF n sp len(2) rows labs w0 idx] by blast
  obtain acc g' where
    ev: "evaluate (current_model s1) (int n) word_dim (np_rng s1) (torch_rng s1) =
           Inr (acc, model_eval (current_model s1), g', torch_rng s1)"
    and acc: "0 \<le> acc" "acc \<le> 1"
    and g': "entropy g' = entropy (np_rng s1)" "cursor (np_rng s1) + 2 * n \<le> cursor g'"
    using evaluate_returns[OF s1(1) n0 wd, of "np_rng s1" "torch_rng s1"] by blast
  let ?s' = "s1\<lparr>current_model := model_eval (current_model s1), np_rng := g',
                torch_rng := torch_rng s1,
                epoch_log := epoch_log s1 @ [(acc, np_mean (watch_loss s1))]\<rparr>"
  have "train_epoch update word_dim (int n) train_sample tcs tls epoch s = Inr ?s'"
    using fd b ev by (simp add: train_epoch_def)
  moreover have "wf_model n (current_model ?s')" using model_eval_wf[OF s1(1)] by simp
  ultimately show ?thesis using s1 acc g'
    by (intro exI[of _ ?s'] exI[of _ acc]) simp
qed

lemma train_epochs_return:
  assumes n: "2 \<le> n" and wd: "2 \<le> word_dim"
    and sp: "shape_preserving n update"
    and len: "length tcs = nat train_sample" "length tls = length tcs"
    and rows: "list_all (\<lambda>c. length c = 1) tcs"
    and labs: "list_all (\<lambda>l. 0 \<le> l \<and> l < 26) tls"
  shows "wf_model n (current_model s) \<Longrightarrow>
         list_all (\<lambda>(acc, loss). 0 \<le> acc \<and> acc \<le> 1) (epoch_log s) \<Longrightarrow>
         \<exists>s'. for_each (train_epoch update word_dim (int n) train_sample tcs tls) epochs s = Inr s' \<and>
           wf_model n (current_model s') \<and>
           steps (optim s') = steps (optim s) + length epochs * nat (train_sample div int n) \<and>
           length (epoch_log s') = length (epoch_log s) + length epochs \<and>
           list_all (\<lambda>(acc, loss). 0 \<le> acc \<and> acc \<le> 1) (epoch_log s') \<and>
           (epochs \<noteq> [] \<longrightarrow>
              length (watch_loss s') = nat (train_sample div int n) \<and>
              snd (last (epoch_log s')) = np_mean (watch_loss s')) \<and>
           entropy (np_rng s') = entropy (np_rng s) \<and>
           cursor (np_rng s) + 2 * n * length epochs \<le> cursor (np_rng s')"
proof (induction epochs arbitrary: s)
  case Nil
  then show ?case by simp
next
  case (Cons e rest)
  obtain s1 acc where
    ep: "train_epoch update word_dim (int n) train_sample tcs tls e s = Inr s1"
    and s1: "wf_model n (current_model s1)"
      "steps (optim s1) = steps (optim s) + nat (train_sample div int n)"
      "length (watch_loss s1) = nat (train_sample div int n)"
      "epoch_log s1 = epoch_log s @ [(acc, np_mean (watch_loss s1))]"
      "0 \<le> acc" "acc \<le> 1"
      "entropy (np_rng s1) = entropy (np_rng s)"
      "cursor (np_rng s) + 2 * n \<le> cursor (np_rng s1)"
    using train_epoch_returns[OF Cons.prems(1) n wd sp len rows labs, of e] by blast
  have l1: "list_all (\<lambda>(acc, loss). 0 \<le> acc \<and> acc \<le> 1) (epoch_log s1)"
    using Cons.prems(2) s1(4,5,6) by simp
  obtain s' where
    r: "for_each (train_epoch update word_dim (int n) train_sample tcs tls) rest s1 = Inr s'"
    and s': "wf_model n (current_model s')"
      "steps (optim s') = steps (optim s1) + length rest * nat (train_sample div int n)"
      "length (epoch_log s') = length (epoch_log s1) + length rest"
      "list_all (\<lambda>(acc, loss). 0 \<le> acc \<and> acc \<le> 1) (epoch_log s')"
      "rest \<noteq> [] \<longrightarrow>
         length (watch_loss s') = nat (train_sample div int n) \<and>
         snd (last (epoch_log s')) = np_mean (watch_loss s')"
      "entropy (np_rng s') = entropy (np_rng s1)"
      "cursor (np_rng s1) + 2 * n * length rest \<le> cursor (np_rng s')"
    using Cons.IH[OF s1(1) l1] by blast
  have last: "length (watch_loss s') = nat (train_sample div int n) \<and>
      snd (last (epoch_log s')) = np_mean (watch_loss s')"
  proof (cases "rest = []")
    case True
    then have "s' = s1" using r by simp
    then show ?thesis using s1(3,4) by simp
  next
    case False
    then show ?thesis using s'(5) by simp
  qed
  have "cursor (np_rng s) + 2 * n * length (e # rest) \<le> cursor (np_rng s')"
    using s1(8) s'(7) by (simp add: algebra_simps)
  then show ?case using ep r s1 s' last
    by (intro exI[of _ s']) (simp add: algebra_simps)
qed


lemma consecutive_batches_nth:
  "i < k \<Longrightarrow> consecutive_batches k b xs ! i = take b (drop (i * b) xs)"
proof (induction k arbitrary: i xs)
  case 0
  then show ?case by simp
next
  case (Suc k)
  show ?case
  proof (cases i)
    case 0
    then show ?thesis by simp
  next
    case (Suc j)
    then have "j < k" using Suc.prems by simp
    from Suc.IH[OF this, of "drop b xs"] Suc show ?thesis by (simp add: add.commute)
  qed
qed

lemma consecutive_batches_length [simp]: "length (consecutive_batches k b xs) = k"
  by (induction k arbitrary: xs) simp_all

lemma consecutive_batches_map:
  "consecutive_batches k b xs = map (\<lambda>i. take b (drop (i * b) xs)) [0..<k]"
  by (rule nth_equalityI) (simp_all add: consecutive_batches_nth)

lemma zip_consecutive_batches:
  "zip (consecutive_batches k b xs) (consecutive_batches k b ys) =
     map (\<lambda>i. (take b (drop (i * b) xs), take b (drop (i * b) ys))) [0..<k]"
  by (rule nth_equalityI) (simp_all add: consecutive_batches_nth)

lemma train_batch_refines:
  "train_batch update (int n) tcs tls i s =
     gradient_step_on update (take n (drop (i * n) tcs), take n (drop (i * n) tls)) s"
proof -
  have sl: "py_slice xs (int i * int n) ((int i + 1) * int n) = take n (drop (i * n) xs)"
    for xs :: "'b list"
    using py_slice_batch[of "int n" xs i] by simp
  have r: "s\<lparr>current_model := m, optim := (optim s)\<lparr>steps := Suc (steps (optim s)), moments := mo\<rparr>,
              torch_rng := t', watch_loss := w\<rparr> =
           \<lparr>current_model = m, optim = \<lparr>lr = lr (optim s), steps = steps (optim s) + 1, moments = mo\<rparr>,
            np_rng = np_rng s, torch_rng = t', watch_loss = w, epoch_log = epoch_log s\<rparr>"
    for m mo t' w
    by (cases s, cases "optim s") simp
  show ?thesis
    by (simp add: train_batch_def gradient_step_on_def sl LongTensor_def r
        split: sum.splits prod.splits forward_output.splits)
qed

lemma train_batches_refine:
  "for_each (train_batch update (int n) tcs tls) batch_indices s =
     one_step_per_batch update
       (map (\<lambda>i. (take n (drop (i * n) tcs), take n (drop (i * n) tls))) batch_indices) s"
  by (induction batch_indices arbitrary: s) (simp_all add: train_batch_refines split: sum.splits)

lemma one_step_per_batch_losses:
  "one_step_per_batch update batches s = Inr s1 \<Longrightarrow>
   length (watch_loss s1) = length (watch_loss s) + length batches"
proof (induction batches arbitrary: s)
  case Nil
  then show ?case by simp
next
  case (Cons b rest)
  then obtain s' where g: "gradient_step_on update b s = Inr s'"
    and r: "one_step_per_batch update rest s' = Inr s1"
    by (auto split: sum.splits)
  have "length (watch_loss s') = Suc (length (watch_loss s))"
    using g by (auto simp: gradient_step_on_def split: sum.splits prod.splits forward_output.splits)
  then show ?case using Cons.IH[OF r] by simp
qed

lemma train_epoch_refines:
  assumes "0 < n"
  shows "train_epoch update word_dim (int n) train_sample tcs tls epoch s =
     epoch_spec update word_dim (int n)
       (zip (consecutive_batches (nat (train_sample div int n)) n tcs)
            (consecutive_batches (nat (train_sample div int n)) n tls)) s"
proof -
  let ?k = "nat (train_sample div int n)"
  let ?bs = "zip (consecutive_batches ?k n tcs) (consecutive_batches ?k n tls)"
  let ?s0 = "s\<lparr>current_model := model_train (current_model s), watch_loss := []\<rparr>"
  have fd: "floor_divide train_sample (int n) = Inr (train_sample div int n)"
    using assms by (simp add: floor_divide_def)
  have b: "for_each (train_batch update (int n) tcs tls) [0..<?k] ?s0 =
           one_step_per_batch update ?bs ?s0"
    by (simp only: train_batches_refine zip_consecutive_batches)
  have m: "np_mean (watch_loss s1) = sum_list (watch_loss s1) / real (length ?bs)"
    if "one_step_per_batch update ?bs ?s0 = Inr s1" for s1
    using one_step_per_batch_losses[OF that] by (simp add: np_mean_def)
  show ?thesis
  proof (cases "one_step_per_batch update ?bs ?s0")
    case (Inl e)
    then show ?thesis using b by (simp add: train_epoch_def epoch_spec_def fd)
  next
    case (Inr s1)
    then show ?thesis using b m[OF Inr]
      by (simp add: train_epoch_def epoch_spec_def fd split: sum.splits prod.splits)
  qed
qed

lemma train_epochs_refine:
  "(\<And>e. body e = epoch) \<Longrightarrow> for_each body epochs s = epochs_spec (length epochs) epoch s"
  by (induction epochs arbitrary: s) (simp_all split: sum.splits)

lemma run_training_refines:
  assumes "0 < batch_size"
  shows "run_training word_dim epoch_num batch_size train_sample learning_rate init update mo g t fs =
         training_spec word_dim epoch_num batch_size train_sample learning_rate init update mo g t fs"
proof -
  define n where "n = nat batch_size"
  have bs: "batch_size = int n" and n0: "0 < n" using assms by (simp_all add: n_def)
  have e: "for_each (train_epoch update word_dim (int n) train_sample tcs tls) [0..<nat epoch_num] s =
           epochs_spec (nat epoch_num)
             (epoch_spec update word_dim (int n)
                (zip (consecutive_batches (nat (train_sample div int n)) n tcs)
                     (consecutive_batches (nat (train_sample div int n)) n tls))) s"
    for tcs tls s
    using train_epochs_refine[of "train_epoch update word_dim (int n) train_sample tcs tls" _
        "[0..<nat epoch_num]" s, OF ext, OF train_epoch_refines[OF n0]]
    by simp
  show ?thesis
    by (simp add: run_training_def training_spec_def bs e split: sum.splits prod.splits)
qed

lemma batches_partition:
  assumes "0 < n" "length xs = nat train_sample"
  shows "concat (map (\<lambda>i. py_slice xs (int i * int n) ((int i + 1) * int n))
                  [0..<nat (train_sample div int n)]) =
           take (nat (train_sample div int n) * n) xs"
    and "list_all (\<lambda>i. length (py_slice xs (int i * int n) ((int i + 1) * int n)) = n)
           [0..<nat (train_sample div int n)]"
proof -
  have sl: "py_slice xs (int i * int n) ((int i + 1) * int n) = take n (drop (i * n) xs)" for i
    using py_slice_batch[of "int n" xs i] by simp
  show "concat (map (\<lambda>i. py_slice xs (int i * int n) ((int i + 1) * int n))
                  [0..<nat (train_sample div int n)]) =
           take (nat (train_sample div int n) * n) xs"
    unfolding sl by (rule concat_batches)
  have "list_all (\<lambda>i. (i + 1) * n \<le> length xs) [0..<nat (train_sample div int n)]"
    using assms by (rule batch_indices_in_range)
  then show "list_all (\<lambda>i. length (py_slice xs (int i * int n) ((int i + 1) * int n)) = n)
           [0..<nat (train_sample div int n)]"
    unfolding sl by (auto simp: list_all_iff)
qed

lemma train_epoch_step:
  assumes wf: "wf_model n (current_model s0)" and n: "2 \<le> n" and wd: "2 \<le> word_dim"
    and sp: "shape_preserving n update"
    and len: "length tcs = nat train_sample" "length tls = length tcs"
    and rows: "list_all (\<lambda>c. length c = 1) tcs"
    and labs: "list_all (\<lambda>l. 0 \<le> l \<and> l < 26) tls"
  shows
"(\<exists>s1 acc g' s'.
      for_each (train_batch update (int n) tcs tls) [0..<(nat (train_sample div int n))]
        (s0\<lparr>current_model := model_train (current_model s0), watch_loss := []\<rparr>) = Inr s1 \<and>
      length (watch_loss s1) = (nat (train_sample div int n)) \<and>
      steps (optim s1) = steps (optim s0) + (nat (train_sample div int n)) \<and>
      np_rng s1 = np_rng s0 \<and> epoch_log s1 = epoch_log s0 \<and>
      evaluate (current_model s1) (int n) word_dim (np_rng s1) (torch_rng s1) =
        Inr (acc, model_eval (current_model s1), g', torch_rng s1) \<and>
      0 \<le> acc \<and> acc \<le> 1 \<and>
      entropy g' = entropy (np_rng s0) \<and> cursor (np_rng s0) + 2 * n \<le> cursor g' \<and>
      train_epoch update word_dim (int n) train_sample tcs tls epoch s0 = Inr s' \<and>
      s' = s1\<lparr>current_model := model_eval (current_model s1), np_rng := g',
              epoch_log := epoch_log s0 @ [(acc, sum_list (watch_loss s1) / real (nat (train_sample div int n)))]\<rparr>)"
proof -
  let ?k = "nat (train_sample div int n)"
  let ?s0 = "s0\<lparr>current_model := model_train (current_model s0), watch_loss := []\<rparr>"
  have n0: "0 < n" using n by simp
  have fd: "floor_divide train_sample (int n) = Inr (train_sample div int n)"
    using n0 by (simp add: floor_divide_def)
  have w0: "wf_model n (current_model ?s0)" "training (current_model ?s0)"
    using model_train_wf[OF wf] by (simp_all add: model_train_def)
  have idx: "list_all (\<lambda>i. (i + 1) * n \<le> length tcs) [0..<?k]"
    using n0 len(1) by (rule batch_indices_in_range)
  obtain s1 where b: "for_each (train_batch update (int n) tcs tls) [0..<?k] ?s0 = Inr s1"
    and s1: "wf_model n (current_model s1)"
      "steps (optim s1) = steps (optim ?s0) + length [0..<?k]"
      "length (watch_loss s1) = length (watch_loss ?s0) + length [0..<?k]"
      "np_rng s1 = np_rng ?s0" "epoch_log s1 = epoch_log ?s0"
    using train_batches_return[OF n sp len(2) rows labs w0 idx] by blast
  obtain acc g' where
    ev: "evaluate (current_model s1) (int n) word_dim (np_rng s1) (torch_rng s1) =
           Inr (acc, model_eval (current_model s1), g', torch_rng s1)"
    and acc: "0 \<le> acc" "acc \<le> 1"
    and g': "entropy g' = entropy (np_rng s1)" "cursor (np_rng s1) + 2 * n \<le> cursor g'"
    using evaluate_returns[OF s1(1) n0 wd, of "np_rng s1" "torch_rng s1"] by blast
  let ?s' = "s1\<lparr>current_model := model_eval (current_model s1), np_rng := g',
                epoch_log := epoch_log s0 @ [(acc, sum_list (watch_loss s1) / real ?k)]\<rparr>"
  have te: "train_epoch update word_dim (int n) train_sample tcs tls epoch s0 = Inr ?s'"
    using fd b ev s1(3,5) by (simp add: train_epoch_def np_mean_def)
  have l: "length (watch_loss s1) = ?k" "steps (optim s1) = steps (optim s0) + ?k"
    "np_rng s1 = np_rng s0" "epoch_log s1 = epoch_log s0"
    and l2: "entropy g' = entropy (np_rng s0)" "cursor (np_rng s0) + 2 * n \<le> cursor g'"
    using s1 g' by simp_all
  show ?thesis
    apply (rule exI[of _ s1])
    apply (rule exI[of _ acc])
    apply (rule exI[of _ g'])
    apply (rule exI[of _ ?s'])
    apply (intro conjI)
               apply (rule b)
              apply (rule l)
             apply (rule l)
            apply (rule l)
           apply (rule l)
          apply (rule ev)
         apply (rule acc)
        apply (rule acc)
       apply (rule l2)
      apply (rule l2)
     apply (rule te)
    apply (rule refl)
    done
qed

lemma train_batch_installs:
  assumes n: "2 \<le> n" and sp: "shape_preserving n update"
    and len: "length tcs = nat train_sample" "length tls = length tcs"
    and rows: "list_all (\<lambda>c. length c = 1) tcs"
    and labs: "list_all (\<lambda>l. 0 \<le> l \<and> l < 26) tls"
    and ik: "i < nat (train_sample div int n)"
    and wf: "wf_model n (current_model s0)" and tr: "training (current_model s0)"
  shows
"(\<exists>rows labels x loss model' t' s'.
      rows = py_slice tcs (int i * (int n)) ((int i + 1) * (int n)) \<and>
      labels = py_slice tls (int i * (int n)) ((int i + 1) * (int n)) \<and>
      rows = take n (drop (i * n) tcs) \<and>
      labels = take n (drop (i * n) tls) \<and>
      rows = consecutive_batches (nat (train_sample div int n)) n tcs ! i \<and>
      labels = consecutive_batches (nat (train_sample div int n)) n tls ! i \<and>
      length rows = n \<and> length labels = n \<and>
      x = map (map real_of_int) rows \<and>
      FloatTensor rows = Inr x \<and>
      forward (current_model s0) x (Some labels) (torch_rng s0) = Inr (Loss loss, model', t') \<and>
      train_batch update (int n) tcs tls i s0 = Inr s' \<and>
      watch_loss s' = watch_loss s0 @ [loss] \<and>
      current_model s' =
        set_parameters model'
          (snd (update (optim s0) (current_model s0) x labels (torch_rng s0))) \<and>
      model_parameters (current_model s') =
        snd (update (optim s0) (current_model s0) x labels (torch_rng s0)) \<and>
      running_mean (batchnorm (current_model s')) = running_mean (batchnorm model') \<and>
      running_var (batchnorm (current_model s')) = running_var (batchnorm model') \<and>
      num_batches_tracked (batchnorm (current_model s')) =
        num_batches_tracked (batchnorm model') \<and>
      training (current_model s') \<and>
      optim s' =
        \<lparr>lr = lr (optim s0), steps = Suc (steps (optim s0)),
         moments = fst (update (optim s0) (current_model s0) x labels (torch_rng s0))\<rparr> \<and>
      torch_rng s' = t' \<and> np_rng s' = np_rng s0 \<and> epoch_log s' = epoch_log s0)"
proof -
  let ?k = "nat (train_sample div int n)"
  have n0: "0 < n" using n by simp
  have "list_all (\<lambda>i. (i + 1) * n \<le> length tcs) [0..<?k]"
    using n0 len(1) by (rule batch_indices_in_range)
  then have i: "(i + 1) * n \<le> length tcs" using ik by (simp add: list_all_iff)
  let ?cs = "take n (drop (i * n) tcs)" and ?ls = "take n (drop (i * n) tls)"
  have sl: "?cs = py_slice tcs (int i * int n) ((int i + 1) * int n)"
    "?ls = py_slice tls (int i * int n) ((int i + 1) * int n)"
    using py_slice_batch[of "int n" tcs i] py_slice_batch[of "int n" tls i] by simp_all
  have cb: "?cs = consecutive_batches ?k n tcs ! i" "?ls = consecutive_batches ?k n tls ! i"
    using ik by (simp_all add: consecutive_batches_nth)
  have lc: "length ?cs = n" "length ?ls = n" using i len by simp_all
  from train_batch_step[OF wf tr n sp i len(2) rows labs]
  obtain x loss m' t' s' where
    x: "x = map (map real_of_int) ?cs" and ft: "FloatTensor ?cs = Inr x"
    and fw: "forward (current_model s0) x (Some ?ls) (torch_rng s0) = Inr (Loss loss, m', t')"
    and tb: "train_batch update (int n) tcs tls i s0 = Inr s'"
    and wl: "watch_loss s' = watch_loss s0 @ [loss]"
    and cm: "current_model s' =
             set_parameters m' (snd (update (optim s0) (current_model s0) x ?ls (torch_rng s0)))"
    and op: "optim s' =
             \<lparr>lr = lr (optim s0), steps = Suc (steps (optim s0)),
              moments = fst (update (optim s0) (current_model s0) x ?ls (torch_rng s0))\<rparr>"
    and rest: "torch_rng s' = t'" "np_rng s' = np_rng s0" "epoch_log s' = epoch_log s0"
    and tr': "training (current_model s')"
    by blast
  note inst = set_parameters_installs[of m'
      "snd (update (optim s0) (current_model s0) x ?ls (torch_rng s0))", folded cm]
  show ?thesis
    apply (rule exI[of _ ?cs])
    apply (rule exI[of _ ?ls])
    apply (rule exI[of _ x])
    apply (rule exI[of _ loss])
    apply (rule exI[of _ m'])
    apply (rule exI[of _ t'])
    apply (rule exI[of _ s'])
    apply (intro conjI)
                        apply (rule sl)
                        apply (rule sl)
                        apply (rule refl)
                        apply (rule refl)
                        apply (rule cb)
                        apply (rule cb)
                       apply (rule lc)
                      apply (rule lc)
                     apply (rule x)
                    apply (rule ft)
                   apply (rule fw)
                  apply (rule tb)
                 apply (rule wl)
                apply (rule cm)
               apply (rule inst)
              apply (rule inst)
             apply (rule inst)
            apply (rule inst)
           apply (rule tr')
          apply (rule op)
         apply (rule rest)
        apply (rule rest)
    apply (rule rest)
    done
qed

text \<open>
  Claim C7. With a batch size of at least 2 and at most the size of the training set, a
  word length bound of at least 2, a learning rate that is not negative and a gradient
  step that keeps the shapes of the parameters, the training driver returns, and what it
  does is what \<open>training_spec\<close> describes. It builds the training set once; it runs
  \<open>epoch_num\<close> epochs, each of which adds one entry, an accuracy of \<open>[0, 1]\<close> and the
  mean of the losses of the epoch, to the log; an epoch goes through
  \<open>train_sample // batch_size\<close> batches, which are consecutive slices of \<open>batch_size\<close>
  elements that together make up the front of the training set, and the optimizer makes
  one step per batch.

  For every batch index \<open>i\<close> of an epoch and every state in training mode, the body of
  the inner loop passes the rows \<open>i * batch_size\<close> up to \<open>(i + 1) * batch_size\<close> of the
  features, as floating point numbers, and the same rows of the labels to the forward
  pass, appends the loss that the forward pass returns to \<open>watch_loss\<close>, and leaves a model
  whose parameters are the ones that the gradient step computed from the model, this batch
  and these labels, and whose running statistics are the ones that the forward pass left;
  the optimizer has made one more step and holds the moments of that gradient step.

  For every state, the body of the outer loop runs that inner loop over all the batches
  from an empty \<open>watch_loss\<close> in training mode, then evaluates the model on samples drawn
  anew from NumPy's generator, at least two draws per sample, and appends the accuracy with
  the sum of the losses of the epoch divided by the number of batches to the log. At the
  end the weights are saved.
\<close>

theorem training_driver:
  assumes "2 \<le> batch_size" and "batch_size \<le> train_sample" and "2 \<le> word_dim"
    and "shape_preserving (nat batch_size) update" and "0 \<le> learning_rate"
  shows "\<exists>s words train_crclabels train_labels g1.
           build_words train_sample word_dim g = Inr ((words, train_crclabels, train_labels), g1) \<and>
           run_training word_dim epoch_num batch_size train_sample learning_rate init update mo g t fs =
             Inr (s, torch_save (state_dict (current_model s)) ''txtclassify.pt'' fs) \<and>
           run_training word_dim epoch_num batch_size train_sample learning_rate init update mo g t fs =
             training_spec word_dim epoch_num batch_size train_sample learning_rate init update mo g t fs \<and>
           length (epoch_log s) = nat epoch_num \<and>
           steps (optim s) = nat epoch_num * (nat (train_sample div batch_size)) \<and>
           list_all (\<lambda>(acc, loss). 0 \<le> acc \<and> acc \<le> 1) (epoch_log s) \<and>
           (1 \<le> epoch_num \<longrightarrow>
              length (watch_loss s) = (nat (train_sample div batch_size)) \<and>
              snd (last (epoch_log s)) = np_mean (watch_loss s) \<and>
              snd (last (epoch_log s)) = sum_list (watch_loss s) / real (nat (train_sample div batch_size))) \<and>
           concat (map (\<lambda>i. py_slice train_crclabels (int i * batch_size) ((int i + 1) * batch_size)) [0..<(nat (train_sample div batch_size))]) =
             take ((nat (train_sample div batch_size)) * (nat batch_size)) train_crclabels \<and>
           concat (map (\<lambda>i. py_slice train_labels (int i * batch_size) ((int i + 1) * batch_size)) [0..<(nat (train_sample div batch_size))]) =
             take ((nat (train_sample div batch_size)) * (nat batch_size)) train_labels \<and>
           list_all (\<lambda>i. length (py_slice train_crclabels (int i * batch_size) ((int i + 1) * batch_size)) = (nat batch_size)) [0..<(nat (train_sample div batch_size))] \<and>
           consecutive_batches (nat (train_sample div batch_size)) (nat batch_size) train_crclabels =
             map (\<lambda>i. py_slice train_crclabels (int i * batch_size) ((int i + 1) * batch_size)) [0..<(nat (train_sample div batch_size))] \<and>
           consecutive_batches (nat (train_sample div batch_size)) (nat batch_size) train_labels =
             map (\<lambda>i. py_slice train_labels (int i * batch_size) ((int i + 1) * batch_size)) [0..<(nat (train_sample div batch_size))] \<and>
           cursor g1 + 2 * (nat batch_size) * nat epoch_num \<le> cursor (np_rng s) \<and>
           (\<forall>i s0. i < (nat (train_sample div batch_size)) \<and> wf_model (nat batch_size) (current_model s0) \<and> training (current_model s0) \<longrightarrow>
              (\<exists>rows labels x loss model' t' s'.
                 rows = py_slice train_crclabels (int i * batch_size) ((int i + 1) * batch_size) \<and>
                 labels = py_slice train_labels (int i * batch_size) ((int i + 1) * batch_size) \<and>
                 rows = take (nat batch_size) (drop (i * (nat batch_size)) train_crclabels) \<and>
                 labels = take (nat batch_size) (drop (i * (nat batch_size)) train_labels) \<and>
                 rows = consecutive_batches (nat (train_sample div batch_size)) (nat batch_size) train_crclabels ! i \<and>
                 labels = consecutive_batches (nat (train_sample div batch_size)) (nat batch_size) train_labels ! i \<and>
                 length rows = (nat batch_size) \<and> length labels = (nat batch_size) \<and>
                 x = map (map real_of_int) rows \<and>
                 FloatTensor rows = Inr x \<and>
                 forward (current_model s0) x (Some labels) (torch_rng s0) = Inr (Loss loss, model', t') \<and>
                 train_batch update batch_size train_crclabels train_labels i s0 = Inr s' \<and>
                 watch_loss s' = watch_loss s0 @ [loss] \<and>
                 current_model s' =
                   set_parameters model'
                     (snd (update (optim s0) (current_model s0) x labels (torch_rng s0))) \<and>
                 model_parameters (current_model s') =
                   snd (update (optim s0) (current_model s0) x labels (torch_rng s0)) \<and>
                 running_mean (batchnorm (current_model s')) = running_mean (batchnorm model') \<and>
                 running_var (batchnorm (current_model s')) = running_var (batchnorm model') \<and>
                 num_batches_tracked (batchnorm (current_model s')) =
                   num_batches_tracked (batchnorm model') \<and>
                 training (current_model s') \<and>
                 optim s' =
                   \<lparr>lr = lr (optim s0), steps = Suc (steps (optim s0)),
                    moments = fst (update (optim s0) (current_model s0) x labels (torch_rng s0))\<rparr> \<and>
                 torch_rng s' = t' \<and> np_rng s' = np_rng s0 \<and> epoch_log s' = epoch_log s0)) \<and>
           (\<forall>epoch s0. wf_model (nat batch_size) (current_model s0) \<longrightarrow>
              (\<exists>s1 acc g' s'.
                 for_each (train_batch update batch_size train_crclabels train_labels) [0..<(nat (train_sample div batch_size))]
                   (s0\<lparr>current_model := model_train (current_model s0), watch_loss := []\<rparr>) = Inr s1 \<and>
                 length (watch_loss s1) = (nat (train_sample div batch_size)) \<and>
                 steps (optim s1) = steps (optim s0) + (nat (train_sample div batch_size)) \<and>
                 np_rng s1 = np_rng s0 \<and> epoch_log s1 = epoch_log s0 \<and>
                 evaluate (current_model s1) batch_size word_dim (np_rng s1) (torch_rng s1) =
                   Inr (acc, model_eval (current_model s1), g', torch_rng s1) \<and>
                 0 \<le> acc \<and> acc \<le> 1 \<and>
                 entropy g' = entropy (np_rng s0) \<and> cursor (np_rng s0) + 2 * (nat batch_size) \<le> cursor g' \<and>
                 train_epoch update word_dim batch_size train_sample train_crclabels train_labels epoch s0 = Inr s' \<and>
                 s' = s1\<lparr>current_model := model_eval (current_model s1), np_rng := g',
                         epoch_log := epoch_log s0 @ [(acc, sum_list (watch_loss s1) / real (nat (train_sample div batch_size)))]\<rparr>))"
proof -
  define n where "n = nat batch_size"
  have bs: "batch_size = int n" and n: "2 \<le> n" and n0: "0 < n"
    using assms(1) by (simp_all add: n_def)
  have nn: "nat (int n) = n" by simp
  have sp: "shape_preserving n update" using assms(4) by (simp add: n_def)
  obtain model0 where i: "TxtClassifyModel_init (int n) init = Inr model0"
    and wf: "wf_model n model0"
    using TxtClassifyModel_init_wf[of batch_size init] assms(1) by (auto simp: n_def)
  obtain ws ls g1 where
    bw: "build_words train_sample word_dim g = Inr ((ws, map build_crc_label ws, ls), g1)"
    and len: "length ws = nat train_sample" "length ls = nat train_sample"
    and labs: "list_all (\<lambda>l. 0 \<le> l \<and> l < 26) ls"
    using build_words_returns[OF assms(3), of train_sample g] by auto
  let ?tcs = "map build_crc_label ws"
  let ?k = "nat (train_sample div int n)"
  have lc: "length ?tcs = nat train_sample" "length ls = length ?tcs" using len by simp_all
  have rows: "list_all (\<lambda>c. length c = 1) ?tcs"
    by (simp add: list_all_iff build_crc_label_def)
  let ?s0 = "\<lparr>current_model = model0,
              optim = \<lparr>lr = learning_rate, steps = 0, moments = mo\<rparr>,
              np_rng = g1, torch_rng = t, watch_loss = [], epoch_log = []\<rparr>"
  have w0: "wf_model n (current_model ?s0)"
    "list_all (\<lambda>(acc, loss). 0 \<le> acc \<and> acc \<le> 1) (epoch_log ?s0)"
    using wf by simp_all
  obtain s where
    r: "for_each (train_epoch update word_dim (int n) train_sample ?tcs ls) [0..<nat epoch_num] ?s0 =
          Inr s"
    and s: "steps (optim s) = steps (optim ?s0) + length [0..<nat epoch_num] * ?k"
      "length (epoch_log s) = length (epoch_log ?s0) + length [0..<nat epoch_num]"
      "list_all (\<lambda>(acc, loss). 0 \<le> acc \<and> acc \<le> 1) (epoch_log s)"
      "[0..<nat epoch_num] \<noteq> [] \<longrightarrow>
         length (watch_loss s) = ?k \<and> snd (last (epoch_log s)) = np_mean (watch_loss s)"
      "cursor (np_rng ?s0) + 2 * n * length [0..<nat epoch_num] \<le> cursor (np_rng s)"
    using train_epochs_return[OF n assms(3) sp lc rows labs w0, of "[0..<nat epoch_num]"]
    by blast
  have sl: "py_slice xs (int i * int n) ((int i + 1) * int n) = take n (drop (i * n) xs)"
    for xs :: "'b list" and i
    using py_slice_batch[of "int n" xs i] by simp
  have run:
    "run_training word_dim epoch_num (int n) train_sample learning_rate init update mo g t fs =
       Inr (s, torch_save (state_dict (current_model s)) ''txtclassify.pt'' fs)"
    using i bw r assms(5) by (simp add: run_training_def Adam_def)
  have refines:
    "run_training word_dim epoch_num (int n) train_sample learning_rate init update mo g t fs =
       training_spec word_dim epoch_num (int n) train_sample learning_rate init update mo g t fs"
    using n0 by (intro run_training_refines) simp
  have logs:
    "length (epoch_log s) = nat epoch_num"
    using s(2) by simp
  have stepcount:
    "steps (optim s) = nat epoch_num * (nat (train_sample div int n))"
    using s(1) by simp
  have accs:
    "list_all (\<lambda>(acc, loss). 0 \<le> acc \<and> acc \<le> 1) (epoch_log s)"
    by (rule s(3))
  have lastepoch:
    "(1 \<le> epoch_num \<longrightarrow>
        length (watch_loss s) = (nat (train_sample div int n)) \<and>
        snd (last (epoch_log s)) = np_mean (watch_loss s) \<and>
        snd (last (epoch_log s)) = sum_list (watch_loss s) / real (nat (train_sample div int n)))"
    using s(4) by (simp add: np_mean_def)
  have part1:
    "concat (map (\<lambda>i. py_slice (map build_crc_label ws) (int i * (int n)) ((int i + 1) * (int n))) [0..<(nat (train_sample div int n))]) =
       take ((nat (train_sample div int n)) * n) (map build_crc_label ws)"
    by (rule batches_partition(1)[OF n0 lc(1)])
  have part2:
    "concat (map (\<lambda>i. py_slice ls (int i * (int n)) ((int i + 1) * (int n))) [0..<(nat (train_sample div int n))]) =
       take ((nat (train_sample div int n)) * n) ls"
    by (rule batches_partition(1)[OF n0 len(2)])
  have part3:
    "list_all (\<lambda>i. length (py_slice (map build_crc_label ws) (int i * (int n)) ((int i + 1) * (int n))) = n) [0..<(nat (train_sample div int n))]"
    by (rule batches_partition(2)[OF n0 lc(1)])
  have cb1:
    "consecutive_batches (nat (train_sample div int n)) n (map build_crc_label ws) =
       map (\<lambda>i. py_slice (map build_crc_label ws) (int i * (int n)) ((int i + 1) * (int n))) [0..<(nat (train_sample div int n))]"
    by (simp only: sl consecutive_batches_map)
  have cb2:
    "consecutive_batches (nat (train_sample div int n)) n ls =
       map (\<lambda>i. py_slice ls (int i * (int n)) ((int i + 1) * (int n))) [0..<(nat (train_sample div int n))]"
    by (simp only: sl consecutive_batches_map)
  have fresh:
    "cursor g1 + 2 * n * nat epoch_num \<le> cursor (np_rng s)"
    using s(5) by simp
  have batchstep:
    "(\<forall>i s0. i < (nat (train_sample div int n)) \<and> wf_model n (current_model s0) \<and> training (current_model s0) \<longrightarrow>
        (\<exists>rows labels x loss model' t' s'.
           rows = py_slice (map build_crc_label ws) (int i * (int n)) ((int i + 1) * (int n)) \<and>
           labels = py_slice ls (int i * (int n)) ((int i + 1) * (int n)) \<and>
           rows = take n (drop (i * n) (map build_crc_label ws)) \<and>
           labels = take n (drop (i * n) ls) \<and>
           rows = consecutive_batches (nat (train_sample div int n)) n (map build_crc_label ws) ! i \<and>
           labels = consecutive_batches (nat (train_sample div int n)) n ls ! i \<and>
           length rows = n \<and> length labels = n \<and>
           x = map (map real_of_int) rows \<and>
           FloatTensor rows = Inr x \<and>
           forward (current_model s0) x (Some labels) (torch_rng s0) = Inr (Loss loss, model', t') \<and>
           train_batch update (int n) (map build_crc_label ws) ls i s0 = Inr s' \<and>
           watch_loss s' = watch_loss s0 @ [loss] \<and>
           current_model s' =
             set_parameters model'
               (snd (update (optim s0) (current_model s0) x labels (torch_rng s0))) \<and>
           model_parameters (current_model s') =
             snd (update (optim s0) (current_model s0) x labels (torch_rng s0)) \<and>
           running_mean (batchnorm (current_model s')) = running_mean (batchnorm model') \<and>
           running_var (batchnorm (current_model s')) = running_var (batchnorm model') \<and>
           num_batches_tracked (batchnorm (current_model s')) =
             num_batches_tracked (batchnorm model') \<and>
           training (current_model s') \<and>
           optim s' =
             \<lparr>lr = lr (optim s0), steps = Suc (steps (optim s0)),
              moments = fst (update (optim s0) (current_model s0) x labels (torch_rng s0))\<rparr> \<and>
           torch_rng s' = t' \<and> np_rng s' = np_rng s0 \<and> epoch_log s' = epoch_log s0))"
    by (intro allI impI, elim conjE,
        (rule train_batch_installs[OF n sp lc rows labs]; assumption))
  have epochstep:
    "(\<forall>epoch s0. wf_model n (current_model s0) \<longrightarrow>
        (\<exists>s1 acc g' s'.
           for_each (train_batch update (int n) (map build_crc_label ws) ls) [0..<(nat (train_sample div int n))]
             (s0\<lparr>current_model := model_train (current_model s0), watch_loss := []\<rparr>) = Inr s1 \<and>
           length (watch_loss s1) = (nat (train_sample div int n)) \<and>
           steps (optim s1) = steps (optim s0) + (nat (train_sample div int n)) \<and>
           np_rng s1 = np_rng s0 \<and> epoch_log s1 = epoch_log s0 \<and>
           evaluate (current_model s1) (int n) word_dim (np_rng s1) (torch_rng s1) =
             Inr (acc, model_eval (current_model s1), g', torch_rng s1) \<and>
           0 \<le> acc \<and> acc \<le> 1 \<and>
           entropy g' = entropy (np_rng s0) \<and> cursor (np_rng s0) + 2 * n \<le> cursor g' \<and>
           train_epoch update word_dim (int n) train_sample (map build_crc_label ws) ls epoch s0 = Inr s' \<and>
           s' = s1\<lparr>current_model := model_eval (current_model s1), np_rng := g',
                   epoch_log := epoch_log s0 @ [(acc, sum_list (watch_loss s1) / real (nat (train_sample div int n)))]\<rparr>))"
    by (intro allI impI, rule train_epoch_step[OF _ n assms(3) sp lc rows labs])
  show ?thesis
    unfolding bs nn
    apply (rule exI[of _ s])
    apply (rule exI[of _ ws])
    apply (rule exI[of _ ?tcs])
    apply (rule exI[of _ ls])
    apply (rule exI[of _ g1])
    apply (intro conjI)
    apply (rule bw)
    apply (rule run)
    apply (rule refines)
    apply (rule logs)
    apply (rule stepcount)
    apply (rule accs)
    apply (rule lastepoch)
    apply (rule part1)
    apply (rule part2)
    apply (rule part3)
    apply (rule cb1)
    apply (rule cb2)
    apply (rule fresh)
    apply (rule batchstep)
    apply (rule epochstep)
    done
qed

theorem training_driver_witness:
  "(2::int) \<le> 25 \<and> (25::int) \<le> 5000 \<and> (2::int) \<le> 10 \<and>
   shape_preserving (nat 25) example_update \<and> (0::real) \<le> 1 / 1000 \<and>
   (\<exists>s words train_crclabels train_labels g1 x loss model' t' s' s2 acc.
      build_words 5000 10 example_np_random = Inr ((words, train_crclabels, train_labels), g1) \<and>
      main example_init example_update () example_np_random example_torch_random Map.empty =
        Inr (s, torch_save (state_dict (current_model s)) ''txtclassify.pt'' Map.empty) \<and>
      main example_init example_update () example_np_random example_torch_random Map.empty =
        training_spec 10 500 25 5000 (1 / 1000) example_init example_update () example_np_random example_torch_random Map.empty \<and>
      length (epoch_log s) = 500 \<and>
      steps (optim s) = 100000 \<and>
      list_all (\<lambda>(acc, loss). 0 \<le> acc \<and> acc \<le> 1) (epoch_log s) \<and>
      length (watch_loss s) = 200 \<and>
      snd (last (epoch_log s)) = sum_list (watch_loss s) / 200 \<and>
      length (consecutive_batches 200 25 train_crclabels) = 200 \<and>
      wf_model 25 example_model25 \<and> training example_model25 \<and>
      x = map (map real_of_int) (take 25 train_crclabels) \<and>
      forward example_model25 x (Some (take 25 train_labels)) example_torch_random =
        Inr (Loss loss, model', t') \<and>
      train_batch example_update 25 train_crclabels train_labels 0
        \<lparr>current_model = example_model25,
         optim = \<lparr>lr = 1 / 1000, steps = 0, moments = ()\<rparr>,
         np_rng = g1, torch_rng = example_torch_random, watch_loss = [], epoch_log = []\<rparr> = Inr s' \<and>
      watch_loss s' = [loss] \<and>
      layer1_bias (model_parameters (current_model s')) =
        map (\<lambda>b. b - 1 / 1000) (linear.bias (layer1 example_model25)) \<and>
      model_parameters (current_model s') \<noteq> model_parameters example_model25 \<and>
      running_mean (batchnorm (current_model s')) = running_mean (batchnorm model') \<and>
      steps (optim s') = 1 \<and>
      train_epoch example_update 10 25 5000 train_crclabels train_labels 0
        \<lparr>current_model = example_model25,
         optim = \<lparr>lr = 1 / 1000, steps = 0, moments = ()\<rparr>,
         np_rng = g1, torch_rng = example_torch_random, watch_loss = [], epoch_log = []\<rparr> = Inr s2 \<and>
      length (watch_loss s2) = 200 \<and>
      steps (optim s2) = 200 \<and>
      epoch_log s2 = [(acc, sum_list (watch_loss s2) / 200)] \<and>
      cursor g1 + 50 \<le> cursor (np_rng s2))"
proof -
  have h: "(2::int) \<le> 25" "(25::int) \<le> 5000" "(2::int) \<le> 10"
    "shape_preserving (nat 25) example_update" "(0::real) \<le> 1 / 1000"
    by (simp_all add: example_update_shape_preserving)
  have m25: "wf_model 25 example_model25" "training example_model25"
    using TxtClassifyModel_init_wf[of 25 example_init] by (auto simp: example_model25_def)
  have k: "nat (5000 div 25) = 200" "nat 25 = 25" by simp_all
  from training_driver[OF h, of example_np_random 500 example_init "()"
      example_torch_random Map.empty]
  obtain s ws tcs tls g1 where c:
    "build_words 5000 10 example_np_random = Inr ((ws, tcs, tls), g1) \<and>
     run_training 10 500 25 5000 (1 / 1000) example_init example_update () example_np_random example_torch_random Map.empty =
       Inr (s, torch_save (state_dict (current_model s)) ''txtclassify.pt'' Map.empty) \<and>
     run_training 10 500 25 5000 (1 / 1000) example_init example_update () example_np_random example_torch_random Map.empty =
       training_spec 10 500 25 5000 (1 / 1000) example_init example_update () example_np_random example_torch_random Map.empty \<and>
     length (epoch_log s) = nat (500::int) \<and>
     steps (optim s) = nat (500::int) * (nat (5000 div 25)) \<and>
     list_all (\<lambda>(acc, loss). 0 \<le> acc \<and> acc \<le> 1) (epoch_log s) \<and>
     (1 \<le> (500::int) \<longrightarrow>
        length (watch_loss s) = (nat (5000 div 25)) \<and>
        snd (last (epoch_log s)) = np_mean (watch_loss s) \<and>
        snd (last (epoch_log s)) = sum_list (watch_loss s) / real (nat (5000 div 25))) \<and>
     concat (map (\<lambda>i. py_slice tcs (int i * 25) ((int i + 1) * 25)) [0..<(nat (5000 div 25))]) =
       take ((nat (5000 div 25)) * (nat 25)) tcs \<and>
     concat (map (\<lambda>i. py_slice tls (int i * 25) ((int i + 1) * 25)) [0..<(nat (5000 div 25))]) =
       take ((nat (5000 div 25)) * (nat 25)) tls \<and>
     list_all (\<lambda>i. length (py_slice tcs (int i * 25) ((int i + 1) * 25)) = (nat 25)) [0..<(nat (5000 div 25))] \<and>
     consecutive_batches (nat (5000 div 25)) (nat 25) tcs =
       map (\<lambda>i. py_slice tcs (int i * 25) ((int i + 1) * 25)) [0..<(nat (5000 div 25))] \<and>
     consecutive_batches (nat (5000 div 25)) (nat 25) tls =
       map (\<lambda>i. py_slice tls (int i * 25) ((int i + 1) * 25)) [0..<(nat (5000 div 25))] \<and>
     cursor g1 + 2 * (nat 25) * nat (500::int) \<le> cursor (np_rng s) \<and>
     (\<forall>i s0. i < (nat (5000 div 25)) \<and> wf_model (nat 25) (current_model s0) \<and> training (current_model s0) \<longrightarrow>
        (\<exists>rows labels x loss model' t' s'.
           rows = py_slice tcs (int i * 25) ((int i + 1) * 25) \<and>
           labels = py_slice tls (int i * 25) ((int i + 1) * 25) \<and>
           rows = take (nat 25) (drop (i * (nat 25)) tcs) \<and>
           labels = take (nat 25) (drop (i * (nat 25)) tls) \<and>
           rows = consecutive_batches (nat (5000 div 25)) (nat 25) tcs ! i \<and>
           labels = consecutive_batches (nat (5000 div 25)) (nat 25) tls ! i \<and>
           length rows = (nat 25) \<and> length labels = (nat 25) \<and>
           x = map (map real_of_int) rows \<and>
           FloatTensor rows = Inr x \<and>
           forward (current_model s0) x (Some labels) (torch_rng s0) = Inr (Loss loss, model', t') \<and>
           train_batch example_update 25 tcs tls i s0 = Inr s' \<and>
           watch_loss s' = watch_loss s0 @ [loss] \<and>
           current_model s' =
             set_parameters model'
               (snd (example_update (optim s0) (current_model s0) x labels (torch_rng s0))) \<and>
           model_parameters (current_model s') =
             snd (example_update (optim s0) (current_model s0) x labels (torch_rng s0)) \<and>
           running_mean (batchnorm (current_model s')) = running_mean (batchnorm model') \<and>
           running_var (batchnorm (current_model s')) = running_var (batchnorm model') \<and>
           num_batches_tracked (batchnorm (current_model s')) =
             num_batches_tracked (batchnorm model') \<and>
           training (current_model s') \<and>
           optim s' =
             \<lparr>lr = lr (optim s0), steps = Suc (steps (optim s0)),
              moments = fst (example_update (optim s0) (current_model s0) x labels (torch_rng s0))\<rparr> \<and>
           torch_rng s' = t' \<and> np_rng s' = np_rng s0 \<and> epoch_log s' = epoch_log s0)) \<and>
     (\<forall>epoch s0. wf_model (nat 25) (current_model s0) \<longrightarrow>
        (\<exists>s1 acc g' s'.
           for_each (train_batch example_update 25 tcs tls) [0..<(nat (5000 div 25))]
             (s0\<lparr>current_model := model_train (current_model s0), watch_loss := []\<rparr>) = Inr s1 \<and>
           length (watch_loss s1) = (nat (5000 div 25)) \<and>
           steps (optim s1) = steps (optim s0) + (nat (5000 div 25)) \<and>
           np_rng s1 = np_rng s0 \<and> epoch_log s1 = epoch_log s0 \<and>
           evaluate (current_model s1) 25 10 (np_rng s1) (torch_rng s1) =
             Inr (acc, model_eval (current_model s1), g', torch_rng s1) \<and>
           0 \<le> acc \<and> acc \<le> 1 \<and>
           entropy g' = entropy (np_rng s0) \<and> cursor (np_rng s0) + 2 * (nat 25) \<le> cursor g' \<and>
           train_epoch example_update 10 25 5000 tcs tls epoch s0 = Inr s' \<and>
           s' = s1\<lparr>current_model := model_eval (current_model s1), np_rng := g',
                   epoch_log := epoch_log s0 @ [(acc, sum_list (watch_loss s1) / real (nat (5000 div 25)))]\<rparr>))"
    by (elim exE) (rule that)
  note bw = c[THEN conjunct1]
  note run = c[THEN conjunct2, THEN conjunct1]
  note refines = c[THEN conjunct2, THEN conjunct2, THEN conjunct1]
  note logs = c[THEN conjunct2, THEN conjunct2, THEN conjunct2, THEN conjunct1]
  note stepcount = c[THEN conjunct2, THEN conjunct2, THEN conjunct2, THEN conjunct2, THEN conjunct1]
  note accs = c[THEN conjunct2, THEN conjunct2, THEN conjunct2, THEN conjunct2, THEN conjunct2, THEN conjunct1]
  note lastepoch = c[THEN conjunct2, THEN conjunct2, THEN conjunct2, THEN conjunct2, THEN conjunct2, THEN conjunct2, THEN conjunct1]
  note part1 = c[THEN conjunct2, THEN conjunct2, THEN conjunct2, THEN conjunct2, THEN conjunct2, THEN conjunct2, THEN conjunct2, THEN conjunct1]
  note part2 = c[THEN conjunct2, THEN conjunct2, THEN conjunct2, THEN conjunct2, THEN conjunct2, THEN conjunct2, THEN conjunct2, THEN conjunct2, THEN conjunct1]
  note part3 = c[THEN conjunct2, THEN conjunct2, THEN conjunct2, THEN conjunct2, THEN conjunct2, THEN conjunct2, THEN conjunct2, THEN conjunct2, THEN conjunct2, THEN conjunct1]
  note cb1 = c[THEN conjunct2, THEN conjunct2, THEN conjunct2, THEN conjunct2, THEN conjunct2, THEN conjunct2, THEN conjunct2, THEN conjunct2, THEN conjunct2, THEN conjunct2, THEN conjunct1]
  note cb2 = c[THEN conjunct2, THEN conjunct2, THEN conjunct2, THEN conjunct2, THEN conjunct2, THEN conjunct2, THEN conjunct2, THEN conjunct2, THEN conjunct2, THEN conjunct2, THEN conjunct2, THEN conjunct1]
  note fresh = c[THEN conjunct2, THEN conjunct2, THEN conjunct2, THEN conjunct2, THEN conjunct2, THEN conjunct2, THEN conjunct2, THEN conjunct2, THEN conjunct2, THEN conjunct2, THEN conjunct2, THEN conjunct2, THEN conjunct1]
  note batchstep = c[THEN conjunct2, THEN conjunct2, THEN conjunct2, THEN conjunct2, THEN conjunct2, THEN conjunct2, THEN conjunct2, THEN conjunct2, THEN conjunct2, THEN conjunct2, THEN conjunct2, THEN conjunct2, THEN conjunct2, THEN conjunct1]
  note epochstep = c[THEN conjunct2, THEN conjunct2, THEN conjunct2, THEN conjunct2, THEN conjunct2, THEN conjunct2, THEN conjunct2, THEN conjunct2, THEN conjunct2, THEN conjunct2, THEN conjunct2, THEN conjunct2, THEN conjunct2, THEN conjunct2]
  let ?s0 = "\<lparr>current_model = example_model25,
          optim = \<lparr>lr = 1 / 1000, steps = 0, moments = ()\<rparr>,
          np_rng = g1, torch_rng = example_torch_random, watch_loss = [], epoch_log = []\<rparr>"
  have pre: "0 < nat (5000 div 25) \<and> wf_model (nat 25) (current_model ?s0) \<and>
             training (current_model ?s0)"
    using m25 by simp
  have pre2: "wf_model (nat 25) (current_model ?s0)" using m25 by simp
  from batchstep[THEN spec, THEN spec, THEN mp, OF pre]
  obtain rows labels x loss model' t' s' where b:
    "rows = take (nat 25) (drop (0 * nat 25) tcs)"
    "labels = take (nat 25) (drop (0 * nat 25) tls)"
    "x = map (map real_of_int) rows"
    "forward (current_model ?s0) x (Some labels) (torch_rng ?s0) = Inr (Loss loss, model', t')"
    "train_batch example_update 25 tcs tls 0 ?s0 = Inr s'"
    "watch_loss s' = watch_loss ?s0 @ [loss]"
    "model_parameters (current_model s') =
       snd (example_update (optim ?s0) (current_model ?s0) x labels (torch_rng ?s0))"
    "running_mean (batchnorm (current_model s')) = running_mean (batchnorm model')"
    "optim s' =
       \<lparr>lr = lr (optim ?s0), steps = Suc (steps (optim ?s0)),
        moments = fst (example_update (optim ?s0) (current_model ?s0) x labels (torch_rng ?s0))\<rparr>"
    by (elim exE conjE) (rule that; assumption)
  from epochstep[THEN spec[of _ "0::nat"], THEN spec, THEN mp, OF pre2]
  obtain s1 acc g' s2 where e:
    "length (watch_loss s1) = nat (5000 div 25)"
    "steps (optim s1) = steps (optim ?s0) + nat (5000 div 25)"
    "cursor (np_rng ?s0) + 2 * nat 25 \<le> cursor g'"
    "train_epoch example_update 10 25 5000 tcs tls 0 ?s0 = Inr s2"
    "s2 = s1\<lparr>current_model := model_eval (current_model s1), np_rng := g',
             epoch_log := epoch_log ?s0 @ [(acc, sum_list (watch_loss s1) / real (nat (5000 div 25)))]\<rparr>"
    by (elim exE conjE) (rule that; assumption)
  have x: "x = map (map real_of_int) (take 25 tcs)" using b(1,3) by simp
  have fw: "forward example_model25 x (Some (take 25 tls)) example_torch_random =
              Inr (Loss loss, model', t')"
    using b(2,4) by simp
  have wl: "watch_loss s' = [loss]" using b(6) by simp
  have l1: "layer1_bias (model_parameters (current_model s')) =
              map (\<lambda>b. b - 1 / 1000) (linear.bias (layer1 example_model25))"
    using b(7) by (simp add: example_update_def)
  have "length (linear.bias (layer1 example_model25)) = 26"
    using m25(1) by (simp add: wf_model_def wf_linear_def)
  then obtain b0 bs0 where bb: "linear.bias (layer1 example_model25) = b0 # bs0"
    by (cases "linear.bias (layer1 example_model25)") simp_all
  have ne: "model_parameters (current_model s') \<noteq> model_parameters example_model25"
  proof
    assume "model_parameters (current_model s') = model_parameters example_model25"
    then have "layer1_bias (model_parameters (current_model s')) =
               layer1_bias (model_parameters example_model25)"
      by simp
    then show False using l1 bb by (simp add: model_parameters_def)
  qed
  have st: "steps (optim s') = 1" using b(9) by simp
  have e2: "length (watch_loss s2) = 200" "steps (optim s2) = 200"
    "epoch_log s2 = [(acc, sum_list (watch_loss s2) / 200)]"
    "cursor g1 + 50 \<le> cursor (np_rng s2)"
    using e by simp_all
  have m1: "main example_init example_update () example_np_random example_torch_random Map.empty =
      Inr (s, torch_save (state_dict (current_model s)) ''txtclassify.pt'' Map.empty)"
    using run by (simp add: main_def)
  have m2: "main example_init example_update () example_np_random example_torch_random Map.empty =
      training_spec 10 500 25 5000 (1 / 1000) example_init example_update () example_np_random example_torch_random Map.empty"
    using refines by (simp add: main_def)
  have c1: "length (epoch_log s) = 500" "steps (optim s) = 100000" "length (watch_loss s) = 200"
    "snd (last (epoch_log s)) = sum_list (watch_loss s) / 200"
    using logs stepcount lastepoch by simp_all
  have c2: "length (consecutive_batches 200 25 tcs) = 200" using cb1 by (simp add: k)
  show ?thesis
    apply (intro conjI)
         apply (rule h)
        apply (rule h)
       apply (rule h)
      apply (rule h)
     apply (rule h)
    apply (rule exI[of _ s])
    apply (rule exI[of _ ws])
    apply (rule exI[of _ tcs])
    apply (rule exI[of _ tls])
    apply (rule exI[of _ g1])
    apply (rule exI[of _ x])
    apply (rule exI[of _ loss])
    apply (rule exI[of _ model'])
    apply (rule exI[of _ t'])
    apply (rule exI[of _ s'])
    apply (rule exI[of _ s2])
    apply (rule exI[of _ acc])
    apply (intro conjI)
    apply (rule bw)
    apply (rule m1)
    apply (rule m2)
    apply (rule c1)
    apply (rule c1)
    apply (rule accs)
    apply (rule c1)
    apply (rule c1)
    apply (rule c2)
    apply (rule m25)
    apply (rule m25)
    apply (rule x)
    apply (rule fw)
    apply (rule b(5))
    apply (rule wl)
    apply (rule l1)
    apply (rule ne)
    apply (rule b(8))
    apply (rule st)
    apply (rule e(4))
    apply (rule e2)
    apply (rule e2)
    apply (rule e2)
    apply (rule e2)
    done
qed

end
